theory Spec2Isabelle
  imports Complex_Main
begin

section \<open>Errors, rows and flows\<close>

text \<open>
  The pipeline of \<^verbatim>\<open>scripts/fit_all.py\<close> works on arrays of 32-bit floats. The
  embedding takes the entries as real numbers: rounding, overflow and NaN are outside
  the model, except that clipped_vector_mean is also given with the arithmetic as a
  parameter, for which the rounding of floats is then taken. An exception of the Python
  code is a value \<open>Inl e\<close> of the result.
\<close>

datatype error =
    ZeroDivisionError
  | ValueError
  | AttributeError
  | NameError
  | InvalidArgumentError

type_synonym row = "real list"

text \<open>
  A flow (\<^verbatim>\<open>flow_ffjord_tf.FFJORDFlow\<close>) is used through two methods only.
  \<open>prob_grad\<close> is the gradient of \<^verbatim>\<open>flow.prob\<close> at one point: \<^verbatim>\<open>flow.prob\<close> maps a
  batch of points to their densities row by row, so the gradient of the batch of densities with
  respect to the batch is the row-wise gradient. \<open>sample n k\<close> is what
  \<^verbatim>\<open>flow.sample([n])\<close> returns at the \<open>k\<close>-th draw of the run (the draws are random,
  the counter stands for the state of the generator).
\<close>

record flow =
  prob_grad :: "row \<Rightarrow> row"
  sample :: "int \<Rightarrow> nat \<Rightarrow> error + row list"

text \<open>\<^verbatim>\<open>flow.sample([n])\<close> returns \<open>n\<close> rows, and fails for a negative size.\<close>

definition sample_shape_ok :: "flow \<Rightarrow> bool" where
  "sample_shape_ok fl \<longleftrightarrow>
     (\<forall>n k. (n < 0 \<longrightarrow> isl (sample fl n k)) \<and>
            (0 \<le> n \<longrightarrow> (\<exists>rows. sample fl n k = Inr rows \<and> length rows = nat n)))"

text \<open>The gradient of a point has the shape of the point.\<close>

definition grad_shape_ok :: "flow \<Rightarrow> bool" where
  "grad_shape_ok fl \<longleftrightarrow> (\<forall>r. length (prob_grad fl r) = length r)"

section \<open>batch_calc_df_deta\<close>

text \<open>
  \<^verbatim>\<open>tf.data.Dataset.from_tensor_slices(eta).batch(batch_size)\<close>: consecutive groups of
  \<open>batch_size\<close> rows, the last one shorter when the rows do not divide evenly; no batch
  at all for an array without rows.
\<close>

function dataset_batch :: "nat \<Rightarrow> 'a list \<Rightarrow> 'a list list" where
  "dataset_batch n xs =
     (if n = 0 \<or> xs = [] then [] else take n xs # dataset_batch n (drop n xs))"
  by pat_completeness auto
termination
  by (relation "measure (\<lambda>(n, xs). length xs)") auto

declare dataset_batch.simps [simp del]

record progress_bar =
  max_value :: nat
  bar_value :: nat

definition bar_update :: "progress_bar \<Rightarrow> nat \<Rightarrow> progress_bar" where
  "bar_update bar v = bar\<lparr>bar_value := v\<rparr>"

definition calc_grads :: "flow \<Rightarrow> row list \<Rightarrow> row list" where
  "calc_grads fl b = map (prob_grad fl) b"

text \<open>
  The loop \<^verbatim>\<open>for k,b in enumerate(eta_dataset)\<close>. Its state is the list of gradient
  batches \<open>df_deta\<close>, the progress bar (\<open>None\<close> until the second batch) and \<open>n_generated\<close>.
\<close>

fun grad_loop ::
  "flow \<Rightarrow> nat \<Rightarrow> nat \<Rightarrow> row list list \<Rightarrow>
   row list list \<times> progress_bar option \<times> nat \<Rightarrow>
   row list list \<times> progress_bar option \<times> nat" where
  "grad_loop fl n_data k [] st = st"
| "grad_loop fl n_data k (b # bs) (df_deta, bar, n_generated) =
     (let bar' =
        (if k \<noteq> 0
         then Some (bar_update
                (case bar of None \<Rightarrow> \<lparr>max_value = n_data, bar_value = 0\<rparr> | Some x \<Rightarrow> x)
                n_generated)
         else bar)
      in grad_loop fl n_data (Suc k) bs
           (df_deta @ [calc_grads fl b], bar', n_generated + length b))"

text \<open>
  \<^verbatim>\<open>batch_calc_df_deta(flow, eta, batch_size)\<close>. \<^verbatim>\<open>Dataset.batch\<close> rejects a batch
  size that is not positive. After the loop \<^verbatim>\<open>bar.update(n_data)\<close> is called on the
  bar whether or not it was created; \<^verbatim>\<open>np.concatenate\<close> rejects an empty list.
\<close>

definition batch_calc_df_deta :: "flow \<Rightarrow> row list \<Rightarrow> int \<Rightarrow> error + row list" where
  "batch_calc_df_deta fl eta batch_size =
     (let n_data = length eta in
      if batch_size \<le> 0 then Inl InvalidArgumentError
      else
        (case grad_loop fl n_data 0 (dataset_batch (nat batch_size) eta) ([], None, 0) of
           (df_deta, bar, n_generated) \<Rightarrow>
             (case bar of
                None \<Rightarrow> Inl AttributeError
              | Some b \<Rightarrow>
                  (if df_deta = [] then Inl ValueError else Inr (concat df_deta)))))"

text \<open>A flow for the concrete runs below: the gradient negates a point, the \<open>k\<close>-th
  draw of \<open>n\<close> rows repeats the point whose six coordinates are \<open>k\<close>.\<close>

definition example_flow :: flow where
  "example_flow =
     \<lparr>prob_grad = map uminus,
      sample = (\<lambda>n k. if n < 0 then Inl InvalidArgumentError
                      else Inr (replicate (nat n) (replicate 6 (real k))))\<rparr>"

section \<open>sample_from_flows\<close>

text \<open>
  The inner loop \<^verbatim>\<open>for k in range(n_batches): eta.append(sample_batch()...)\<close> for one
  flow: the batches drawn from it, or the first error. \<open>c\<close> counts the draws made so far.
\<close>

fun sample_batches :: "flow \<Rightarrow> int \<Rightarrow> nat \<Rightarrow> nat \<Rightarrow> error + row list list" where
  "sample_batches fl sample_batch_size 0 c = Inr []"
| "sample_batches fl sample_batch_size (Suc k) c =
     (case sample fl sample_batch_size c of
        Inl e \<Rightarrow> Inl e
      | Inr b \<Rightarrow>
          (case sample_batches fl sample_batch_size k (Suc c) of
             Inl e \<Rightarrow> Inl e
           | Inr bs \<Rightarrow> Inr (b # bs)))"

text \<open>
  The outer loop \<^verbatim>\<open>for i,flow in enumerate(flow_list)\<close>. The batches are appended to one
  list \<open>eta\<close> in the source; here they are kept grouped by flow, and flattened by the caller
  in the same order.
\<close>

fun sample_flows :: "flow list \<Rightarrow> int \<Rightarrow> nat \<Rightarrow> nat \<Rightarrow> error + row list list list" where
  "sample_flows [] sample_batch_size n_batches c = Inr []"
| "sample_flows (fl # fls) sample_batch_size n_batches c =
     (case sample_batches fl sample_batch_size n_batches c of
        Inl e \<Rightarrow> Inl e
      | Inr bs \<Rightarrow>
          (case sample_flows fls sample_batch_size n_batches (c + n_batches) of
             Inl e \<Rightarrow> Inl e
           | Inr rest \<Rightarrow> Inr (bs # rest)))"

text \<open>
  The gradient loop. \<open>df_deta_indiv\<close> is \<open>None\<close> while the variable is unbound. In
  \<^verbatim>\<open>df_deta_indiv[i] = batch_calc_df_deta(...)\<close> the right-hand side is evaluated
  first, then the variable is looked up.
\<close>

fun grad_flows ::
  "flow list \<Rightarrow> nat \<Rightarrow> row list \<Rightarrow> int \<Rightarrow> row list list option \<Rightarrow>
   error + row list list option" where
  "grad_flows [] i eta grad_batch_size df_deta_indiv = Inr df_deta_indiv"
| "grad_flows (fl # fls) i eta grad_batch_size df_deta_indiv =
     (case batch_calc_df_deta fl eta grad_batch_size of
        Inl e \<Rightarrow> Inl e
      | Inr g \<Rightarrow>
          (case df_deta_indiv of
             None \<Rightarrow> Inl NameError
           | Some a \<Rightarrow> grad_flows fls (Suc i) eta grad_batch_size (Some (a[i := g]))))"

text \<open>The returned dictionary, with a field for each key; the key \<^verbatim>\<open>df_deta_indiv\<close> is
  present only with \<open>return_indiv\<close>.\<close>

record 'r ret =
  ret_eta :: "row list"
  ret_df_deta :: 'r
  ret_df_deta_indiv :: "row list list option"

definition zeros_like :: "row list \<Rightarrow> row list" where
  "zeros_like a = map (map (\<lambda>_. 0)) a"

text \<open>
  \<^verbatim>\<open>sample_from_flows\<close>. \<open>f_reduce\<close> stands for \<^verbatim>\<open>lambda a: f_reduce(a, axis=0)\<close>.
  The integer division is Python's floor division, which is \<open>div\<close> on \<open>int\<close>, and raises
  for a zero divisor; \<^verbatim>\<open>range(n_batches)\<close> is empty for a negative \<open>n_batches\<close>;
  \<^verbatim>\<open>np.concatenate\<close> raises ValueError for an empty list (and so does the
  progress bar for a negative maximum, earlier in the same run). The progress bar of the
  sampling loop only displays and is left out.
\<close>

definition sample_from_flows ::
  "flow list \<Rightarrow> int \<Rightarrow> bool \<Rightarrow> int \<Rightarrow> int \<Rightarrow> (row list list \<Rightarrow> 'r) \<Rightarrow> error + 'r ret" where
  "sample_from_flows flow_list n_samples return_indiv grad_batch_size sample_batch_size f_reduce =
     (let n_flows = int (length flow_list) in
      if n_flows * sample_batch_size = 0 then Inl ZeroDivisionError
      else
        let n_batches = n_samples div (n_flows * sample_batch_size) in
        (case sample_flows flow_list sample_batch_size (nat n_batches) 0 of
           Inl e \<Rightarrow> Inl e
         | Inr parts \<Rightarrow>
             if concat parts = [] then Inl ValueError
             else
               let eta = concat (concat parts);
                   df_deta_indiv =
                     (if return_indiv
                      then Some (replicate (length flow_list) (zeros_like eta))
                      else None)
               in
               (case grad_flows flow_list 0 eta grad_batch_size df_deta_indiv of
                  Inl e \<Rightarrow> Inl e
                | Inr indiv \<Rightarrow>
                    (case indiv of
                       None \<Rightarrow> Inl NameError
                     | Some a \<Rightarrow>
                         Inr \<lparr>ret_eta = eta, ret_df_deta = f_reduce a,
                              ret_df_deta_indiv = (if return_indiv then Some a else None)\<rparr>))))"

section \<open>clipped_vector_mean\<close>

text \<open>
  A three-dimensional array \<open>v_samp\<close> of shape \<open>(n_samp, n_point, n_dim)\<close> is a list of
  samples, each a list of points, each a list of coordinates; \<open>v ! s ! p ! d\<close> is
  \<^verbatim>\<open>v_samp[s, p, d]\<close>. The shape is read off the first sample and the first point, so an
  array without samples is taken to have no points either: an array of no samples of
  some points, whose mean is NaN in NumPy, has no counterpart over the reals. The
  operations below index the array within its shape only.
\<close>

type_synonym array3 = "real list list list"

definition shape3 :: "'a list list list \<Rightarrow> nat \<times> nat \<times> nat" where
  "shape3 v =
     (length v,
      (case v of [] \<Rightarrow> 0 | r # _ \<Rightarrow> length r),
      (case v of (x # _) # _ \<Rightarrow> length x | _ \<Rightarrow> 0))"

text \<open>
  A two-dimensional result is a plain array (\<^verbatim>\<open>np.mean\<close>, \<^verbatim>\<open>np.median\<close>) or a
  masked array (\<^verbatim>\<open>np.ma.mean\<close>), where an entry whose samples were all masked is
  masked itself and has no value: \<open>None\<close>.
\<close>

datatype ndarray2 = NDArray "real list list" | MaskedArray "real option list list"

fun entries :: "ndarray2 \<Rightarrow> real option list list" where
  "entries (NDArray a) = map (map Some) a"
| "entries (MaskedArray a) = a"

text \<open>\<^verbatim>\<open>np.mean(v_samp, axis=0)\<close>, of shape \<open>(n_point, n_dim)\<close>.\<close>

definition np_mean_axis0 :: "array3 \<Rightarrow> real list list" where
  "np_mean_axis0 v =
     (case shape3 v of (n_samp, n_point, n_dim) \<Rightarrow>
        map (\<lambda>p. map (\<lambda>d. sum_list (map (\<lambda>s. v ! s ! p ! d) [0..<n_samp]) / real n_samp)
                   [0..<n_dim])
            [0..<n_point])"

text \<open>
  \<^verbatim>\<open>np.median\<close> of a one-dimensional array: the middle element of the sorted values,
  the mean of the two middle elements for an even count. For no values NumPy gives NaN;
  the model gives 0 there, and no function below takes the median of an empty list, as
  an array with a point has a sample.
\<close>

definition np_median :: "real list \<Rightarrow> real" where
  "np_median xs =
     (let ys = sort xs; n = length ys in
      if n = 0 then 0
      else if even n then (ys ! (n div 2 - 1) + ys ! (n div 2)) / 2
      else ys ! (n div 2))"

text \<open>\<^verbatim>\<open>np.median(a, axis=0)\<close> for a three-dimensional array.\<close>

definition np_median_axis0 :: "array3 \<Rightarrow> real list list" where
  "np_median_axis0 v =
     (case shape3 v of (n_samp, n_point, n_dim) \<Rightarrow>
        map (\<lambda>p. map (\<lambda>d. np_median (map (\<lambda>s. v ! s ! p ! d) [0..<n_samp])) [0..<n_dim])
            [0..<n_point])"

text \<open>
  \<^verbatim>\<open>v_samp - v_mean[None]\<close>: the mean is subtracted from every sample; under a masked
  entry of the mean the difference is masked.
\<close>

definition sub_mean :: "array3 \<Rightarrow> real option list list \<Rightarrow> real option list list list" where
  "sub_mean v v_mean =
     (case shape3 v of (n_samp, n_point, n_dim) \<Rightarrow>
        map (\<lambda>s. map (\<lambda>p. map (\<lambda>d. map_option (\<lambda>m. v ! s ! p ! d - m) (v_mean ! p ! d))
                             [0..<n_dim])
                      [0..<n_point])
            [0..<n_samp])"

text \<open>
  The samples of one point, as a list of vectors: \<^verbatim>\<open>v_samp[:, p, :]\<close>.
\<close>

definition point_samples :: "'a list list list \<Rightarrow> nat \<Rightarrow> 'a list list" where
  "point_samples v p = map (\<lambda>x. x ! p) v"

text \<open>
  \<^verbatim>\<open>np.linalg.norm(..., axis=2)\<close>: the Euclidean norm of each difference vector.
  The function is not aware of masks: for a vector with a masked component it reads
  the data that NumPy keeps below the mask, which NumPy does not specify. That value
  is a parameter of the model, \<open>under_mask xs s\<close>, for the sample \<open>s\<close> of a point whose
  samples are \<open>xs\<close>.
\<close>

definition norm_opt :: "real option list \<Rightarrow> real option" where
  "norm_opt x =
     (if list_all (\<lambda>c. c \<noteq> None) x
      then Some (sqrt (sum_list (map (\<lambda>c. (the c)\<^sup>2) x)))
      else None)"

definition norm_axis2 ::
  "(real list list \<Rightarrow> nat \<Rightarrow> real) \<Rightarrow> array3 \<Rightarrow> real option list list list \<Rightarrow> real list list" where
  "norm_axis2 under_mask v diff =
     (case shape3 v of (n_samp, n_point, n_dim) \<Rightarrow>
        map (\<lambda>s. map (\<lambda>p. (case norm_opt (diff ! s ! p) of
                              Some r \<Rightarrow> r
                            | None \<Rightarrow> under_mask (point_samples v p) s))
                      [0..<n_point])
            [0..<n_samp])"

text \<open>
  The first two statements of a round: \<open>dv_samp\<close>, the distance of every sample from the
  current mean, and \<open>idx\<close>, the entries \<open>(sample, point)\<close> whose distance is strictly larger
  than \<open>clip_threshold\<close> times the median distance of the point.
\<close>

definition sample_dists ::
  "(real list list \<Rightarrow> nat \<Rightarrow> real) \<Rightarrow> array3 \<Rightarrow> real option list list \<Rightarrow> real list list" where
  "sample_dists under_mask v_samp v_mean = norm_axis2 under_mask v_samp (sub_mean v_samp v_mean)"

definition outlier_idx ::
  "(real list list \<Rightarrow> nat \<Rightarrow> real) \<Rightarrow> real \<Rightarrow> array3 \<Rightarrow> real option list list \<Rightarrow> bool list list" where
  "outlier_idx under_mask clip_threshold v_samp v_mean =
     (case shape3 v_samp of (n_samp, n_point, n_dim) \<Rightarrow>
        let dv_samp = sample_dists under_mask v_samp v_mean;
            med = map (\<lambda>p. np_median (map (\<lambda>s. dv_samp ! s ! p) [0..<n_samp])) [0..<n_point]
        in map (\<lambda>s. map (\<lambda>p. dv_samp ! s ! p > clip_threshold * med ! p) [0..<n_point])
               [0..<n_samp])"

text \<open>
  \<^verbatim>\<open>np.ma.mean(np.ma.masked_array(v_samp, mask=mask_bad), axis=0)\<close>: the mean over the
  samples that are not masked, and a masked entry where every sample is masked.
\<close>

definition ma_mean_axis0 :: "array3 \<Rightarrow> bool list list list \<Rightarrow> real option list list" where
  "ma_mean_axis0 v mask_bad =
     (case shape3 v of (n_samp, n_point, n_dim) \<Rightarrow>
        map (\<lambda>p. map (\<lambda>d.
                   let kept = map (\<lambda>s. v ! s ! p ! d)
                                (filter (\<lambda>s. \<not> mask_bad ! s ! p ! d) [0..<n_samp])
                   in if kept = [] then None
                      else Some (sum_list kept / real (length kept)))
                 [0..<n_dim])
            [0..<n_point])"

text \<open>One round of the loop: the new \<open>v_mean\<close> from the current one.\<close>

definition clip_round ::
  "(real list list \<Rightarrow> nat \<Rightarrow> real) \<Rightarrow> real \<Rightarrow> array3 \<Rightarrow> real option list list \<Rightarrow>
   real option list list" where
  "clip_round under_mask clip_threshold v_samp v_mean =
     (case shape3 v_samp of (n_samp, n_point, n_dim) \<Rightarrow>
        let idx = outlier_idx under_mask clip_threshold v_samp v_mean;
            mask_bad = map (map (replicate n_dim)) idx
        in ma_mean_axis0 v_samp mask_bad)"

text \<open>\<^verbatim>\<open>for i in range(rounds)\<close>, with the rounds still to run.\<close>

fun clip_rounds ::
  "(real list list \<Rightarrow> nat \<Rightarrow> real) \<Rightarrow> real \<Rightarrow> array3 \<Rightarrow> nat \<Rightarrow> ndarray2 \<Rightarrow> ndarray2" where
  "clip_rounds under_mask clip_threshold v_samp 0 v_mean = v_mean"
| "clip_rounds under_mask clip_threshold v_samp (Suc k) v_mean =
     clip_rounds under_mask clip_threshold v_samp k
       (MaskedArray (clip_round under_mask clip_threshold v_samp (entries v_mean)))"

text \<open>
  \<^verbatim>\<open>clipped_vector_mean(v_samp, clip_threshold, rounds)\<close>; \<^verbatim>\<open>range(rounds)\<close> is empty
  for a negative number of rounds. The keyword arguments are ignored, as in the source.
\<close>

definition clipped_vector_mean ::
  "(real list list \<Rightarrow> nat \<Rightarrow> real) \<Rightarrow> array3 \<Rightarrow> real \<Rightarrow> int \<Rightarrow> ndarray2" where
  "clipped_vector_mean under_mask v_samp clip_threshold rounds =
     clip_rounds under_mask clip_threshold v_samp (nat rounds) (NDArray (np_mean_axis0 v_samp))"

text \<open>The mean after \<open>k\<close> rounds, as the loop sees it at the start of round \<open>k\<close>.\<close>

definition means_after ::
  "(real list list \<Rightarrow> nat \<Rightarrow> real) \<Rightarrow> real \<Rightarrow> array3 \<Rightarrow> nat \<Rightarrow> real option list list" where
  "means_after under_mask clip_threshold v_samp k =
     entries (clip_rounds under_mask clip_threshold v_samp k (NDArray (np_mean_axis0 v_samp)))"

subsection \<open>The rounds, point by point\<close>

text \<open>
  The description of a round in words, for one point with sample vectors \<open>xs\<close> and
  current mean \<open>m\<close>: the Euclidean distance of every sample from the mean; the outliers
  are the samples whose distance strictly exceeds \<open>clip_threshold\<close> times the median
  distance; the new mean is the mean vector of the samples that are not outliers, and
  there is none (\<open>None\<close>) when every sample is an outlier. With no current mean the
  distances are those read under the mask.
\<close>

definition euclid :: "nat \<Rightarrow> real list \<Rightarrow> real list \<Rightarrow> real" where
  "euclid n_dim x m = sqrt (sum_list (map (\<lambda>d. (x ! d - m ! d)\<^sup>2) [0..<n_dim]))"

definition vec_mean :: "nat \<Rightarrow> real list list \<Rightarrow> real list" where
  "vec_mean n_dim xs = map (\<lambda>d. sum_list (map (\<lambda>x. x ! d) xs) / real (length xs)) [0..<n_dim]"

definition point_dist ::
  "(real list list \<Rightarrow> nat \<Rightarrow> real) \<Rightarrow> nat \<Rightarrow> real list list \<Rightarrow> real list option \<Rightarrow> nat \<Rightarrow> real" where
  "point_dist under_mask n_dim xs mo s =
     (case mo of Some m \<Rightarrow> euclid n_dim (xs ! s) m | None \<Rightarrow> under_mask xs s)"

definition point_outlier ::
  "(real list list \<Rightarrow> nat \<Rightarrow> real) \<Rightarrow> real \<Rightarrow> nat \<Rightarrow> real list list \<Rightarrow> real list option \<Rightarrow>
   nat \<Rightarrow> bool" where
  "point_outlier under_mask clip_threshold n_dim xs mo s \<longleftrightarrow>
     point_dist under_mask n_dim xs mo s
       > clip_threshold * np_median (map (point_dist under_mask n_dim xs mo) [0..<length xs])"

definition point_round ::
  "(real list list \<Rightarrow> nat \<Rightarrow> real) \<Rightarrow> real \<Rightarrow> nat \<Rightarrow> real list list \<Rightarrow> real list option \<Rightarrow>
   real list option" where
  "point_round under_mask clip_threshold n_dim xs mo =
     (let kept = map (\<lambda>s. xs ! s)
                   (filter (\<lambda>s. \<not> point_outlier under_mask clip_threshold n_dim xs mo s)
                      [0..<length xs])
      in if kept = [] then None else Some (vec_mean n_dim kept))"

definition point_entries :: "nat \<Rightarrow> real list option \<Rightarrow> real option list" where
  "point_entries n_dim mo = (case mo of Some m \<Rightarrow> map Some m | None \<Rightarrow> replicate n_dim None)"

definition clipped_point_means ::
  "(real list list \<Rightarrow> nat \<Rightarrow> real) \<Rightarrow> array3 \<Rightarrow> real \<Rightarrow> nat \<Rightarrow> real list option list" where
  "clipped_point_means under_mask v_samp clip_threshold rounds =
     (case shape3 v_samp of (n_samp, n_point, n_dim) \<Rightarrow>
        map (\<lambda>p. ((point_round under_mask clip_threshold n_dim (point_samples v_samp p)) ^^ rounds)
                   (Some (vec_mean n_dim (point_samples v_samp p))))
            [0..<n_point])"

section \<open>The sampling step of main\<close>

text \<open>
  The gradients of all flows on \<open>eta\<close>, stacked along a new first axis: the array of shape
  \<open>(n_flows,) + eta.shape\<close> whose \<open>i\<close>-th entry is the row-wise gradient of the \<open>i\<close>-th flow.
\<close>

definition flow_grads :: "flow list \<Rightarrow> row list \<Rightarrow> row list list" where
  "flow_grads flow_list eta = map (\<lambda>fl. map (prob_grad fl) eta) flow_list"

text \<open>
  The branch of \<^verbatim>\<open>main\<close> that samples from the flows: \<open>return_indiv\<close> is True, and
  \<open>f_reduce\<close> is \<^verbatim>\<open>np.median\<close> with the option \<^verbatim>\<open>--flow-median\<close> and
  \<^verbatim>\<open>clipped_vector_mean\<close> (with its default threshold and rounds, both 5) without it.
  sample_from_flows calls it with \<^verbatim>\<open>axis=0\<close>, which clipped_vector_mean ignores.
\<close>

definition main_sample ::
  "(real list list \<Rightarrow> nat \<Rightarrow> real) \<Rightarrow> bool \<Rightarrow> flow list \<Rightarrow> int \<Rightarrow> int \<Rightarrow> int \<Rightarrow>
   error + ndarray2 ret" where
  "main_sample under_mask flow_median flows n_samples grad_batch_size sample_batch_size =
     sample_from_flows flows n_samples True grad_batch_size sample_batch_size
       (if flow_median then (\<lambda>a. NDArray (np_median_axis0 a))
        else (\<lambda>a. clipped_vector_mean under_mask a 5 5))"

subsection \<open>Relating the array to its points\<close>

text \<open>
  A mean vector of a point has \<open>n_dim\<close> coordinates; a point can be without a mean only
  if it has a coordinate to mask. \<open>rows_rel\<close> relates the array \<open>v_mean\<close>, row by row,
  to the means of the points.
\<close>

definition good_mean :: "nat \<Rightarrow> real list option \<Rightarrow> bool" where
  "good_mean D mo \<longleftrightarrow> (case mo of Some m \<Rightarrow> length m = D | None \<Rightarrow> 0 < D)"

definition rows_rel :: "nat \<Rightarrow> real option list list \<Rightarrow> real list option list \<Rightarrow> bool" where
  "rows_rel D vm mos \<longleftrightarrow>
     length vm = length mos \<and>
     (\<forall>p<length mos. vm ! p = point_entries D (mos ! p) \<and> good_mean D (mos ! p))"

subsection \<open>A concrete array\<close>

text \<open>
  Five samples of one point in one dimension, the last one far from the others, and a
  value for the distances under a mask.
\<close>

definition example_samples :: array3 where
  "example_samples = [[[1]], [[1]], [[1]], [[1]], [[6]]]"

definition no_under_mask :: "real list list \<Rightarrow> nat \<Rightarrow> real" where
  "no_under_mask xs s = 0"

section \<open>clipped_vector_mean in the arithmetic of the arrays\<close>

text \<open>
  The functions of clipped_vector_mean once more, with the arithmetic as a parameter:
  the operations that NumPy applies to the entries, each of which rounds its exact result
  to the precision of the array. Sums add their terms in order, from the first, as NumPy
  does along axis 0 and for fewer than eight terms along the last axis. Comparing and
  sorting are exact. \<open>clip_threshold\<close> is taken to be a number of the precision of
  the distances, as the default 5 is, so that it is multiplied as it stands.
\<close>

record arith =
  ar_add :: "real \<Rightarrow> real \<Rightarrow> real"
  ar_sub :: "real \<Rightarrow> real \<Rightarrow> real"
  ar_mul :: "real \<Rightarrow> real \<Rightarrow> real"
  ar_div :: "real \<Rightarrow> real \<Rightarrow> real"
  ar_sqrt :: "real \<Rightarrow> real"

definition exact_arith :: arith where
  "exact_arith = \<lparr>ar_add = (+), ar_sub = (-), ar_mul = (*), ar_div = (/), ar_sqrt = sqrt\<rparr>"

fun sum_ar :: "arith \<Rightarrow> real list \<Rightarrow> real" where
  "sum_ar ar [] = 0"
| "sum_ar ar (x # xs) = foldl (ar_add ar) x xs"

definition np_mean_axis0_ar :: "arith \<Rightarrow> array3 \<Rightarrow> real list list" where
  "np_mean_axis0_ar ar v =
     (case shape3 v of (n_samp, n_point, n_dim) \<Rightarrow>
        map (\<lambda>p. map (\<lambda>d. ar_div ar (sum_ar ar (map (\<lambda>s. v ! s ! p ! d) [0..<n_samp]))
                              (real n_samp))
                   [0..<n_dim])
            [0..<n_point])"

text \<open>The median of an even number of values is the mean of the two middle ones.\<close>

definition np_median_ar :: "arith \<Rightarrow> real list \<Rightarrow> real" where
  "np_median_ar ar xs =
     (let ys = sort xs; n = length ys in
      if n = 0 then 0
      else if even n then ar_div ar (ar_add ar (ys ! (n div 2 - 1)) (ys ! (n div 2))) 2
      else ys ! (n div 2))"

definition sub_mean_ar ::
  "arith \<Rightarrow> array3 \<Rightarrow> real option list list \<Rightarrow> real option list list list" where
  "sub_mean_ar ar v v_mean =
     (case shape3 v of (n_samp, n_point, n_dim) \<Rightarrow>
        map (\<lambda>s. map (\<lambda>p. map (\<lambda>d. map_option (\<lambda>m. ar_sub ar (v ! s ! p ! d) m)
                                       (v_mean ! p ! d))
                             [0..<n_dim])
                      [0..<n_point])
            [0..<n_samp])"

text \<open>
  The norm is the square root of the sum of the squares \<^verbatim>\<open>x.conj() * x\<close>.
\<close>

definition norm_opt_ar :: "arith \<Rightarrow> real option list \<Rightarrow> real option" where
  "norm_opt_ar ar x =
     (if list_all (\<lambda>c. c \<noteq> None) x
      then Some (ar_sqrt ar (sum_ar ar (map (\<lambda>c. ar_mul ar (the c) (the c)) x)))
      else None)"

definition sample_dists_ar ::
  "arith \<Rightarrow> (real list list \<Rightarrow> nat \<Rightarrow> real) \<Rightarrow> array3 \<Rightarrow> real option list list \<Rightarrow>
   real list list" where
  "sample_dists_ar ar under_mask v_samp v_mean =
     (case shape3 v_samp of (n_samp, n_point, n_dim) \<Rightarrow>
        map (\<lambda>s. map (\<lambda>p. (case norm_opt_ar ar (sub_mean_ar ar v_samp v_mean ! s ! p) of
                              Some r \<Rightarrow> r
                            | None \<Rightarrow> under_mask (point_samples v_samp p) s))
                      [0..<n_point])
            [0..<n_samp])"

definition outlier_idx_ar ::
  "arith \<Rightarrow> (real list list \<Rightarrow> nat \<Rightarrow> real) \<Rightarrow> real \<Rightarrow> array3 \<Rightarrow> real option list list \<Rightarrow>
   bool list list" where
  "outlier_idx_ar ar under_mask clip_threshold v_samp v_mean =
     (case shape3 v_samp of (n_samp, n_point, n_dim) \<Rightarrow>
        let dv_samp = sample_dists_ar ar under_mask v_samp v_mean;
            med = map (\<lambda>p. np_median_ar ar (map (\<lambda>s. dv_samp ! s ! p) [0..<n_samp]))
                    [0..<n_point]
        in map (\<lambda>s. map (\<lambda>p. dv_samp ! s ! p > ar_mul ar clip_threshold (med ! p))
                         [0..<n_point])
               [0..<n_samp])"

text \<open>
  \<^verbatim>\<open>np.ma.mean\<close> sums the samples that are not masked in the precision of the array
  (\<open>ar_in\<close>) and divides the sum by their number in the precision of its result
  (\<open>ar_ma\<close>): 64 bits, also for an array of 32-bit floats, as the count is an array of
  integers. NumPy adds 0 in the place of a masked sample, which changes no sum of floats.
\<close>

definition ma_mean_axis0_ar ::
  "arith \<Rightarrow> arith \<Rightarrow> array3 \<Rightarrow> bool list list list \<Rightarrow> real option list list" where
  "ma_mean_axis0_ar ar_in ar_ma v mask_bad =
     (case shape3 v of (n_samp, n_point, n_dim) \<Rightarrow>
        map (\<lambda>p. map (\<lambda>d.
                   let kept = map (\<lambda>s. v ! s ! p ! d)
                                (filter (\<lambda>s. \<not> mask_bad ! s ! p ! d) [0..<n_samp])
                   in if kept = [] then None
                      else Some (ar_div ar_ma (sum_ar ar_in kept) (real (length kept))))
                 [0..<n_dim])
            [0..<n_point])"

text \<open>
  One round. The distances to a plain mean are computed in the precision of the array,
  the distances to a masked mean in the precision of the masked mean: \<open>ar\<close> is the one that
  applies.
\<close>

definition clip_round_ar ::
  "arith \<Rightarrow> arith \<Rightarrow> arith \<Rightarrow> (real list list \<Rightarrow> nat \<Rightarrow> real) \<Rightarrow> real \<Rightarrow> array3 \<Rightarrow>
   real option list list \<Rightarrow> real option list list" where
  "clip_round_ar ar ar_in ar_ma under_mask clip_threshold v_samp v_mean =
     (case shape3 v_samp of (n_samp, n_point, n_dim) \<Rightarrow>
        let idx = outlier_idx_ar ar under_mask clip_threshold v_samp v_mean;
            mask_bad = map (map (replicate n_dim)) idx
        in ma_mean_axis0_ar ar_in ar_ma v_samp mask_bad)"

fun dist_arith :: "arith \<Rightarrow> arith \<Rightarrow> ndarray2 \<Rightarrow> arith" where
  "dist_arith ar_in ar_ma (NDArray a) = ar_in"
| "dist_arith ar_in ar_ma (MaskedArray a) = ar_ma"

fun clip_rounds_ar ::
  "arith \<Rightarrow> arith \<Rightarrow> (real list list \<Rightarrow> nat \<Rightarrow> real) \<Rightarrow> real \<Rightarrow> array3 \<Rightarrow> nat \<Rightarrow> ndarray2 \<Rightarrow>
   ndarray2" where
  "clip_rounds_ar ar_in ar_ma under_mask clip_threshold v_samp 0 v_mean = v_mean"
| "clip_rounds_ar ar_in ar_ma under_mask clip_threshold v_samp (Suc k) v_mean =
     clip_rounds_ar ar_in ar_ma under_mask clip_threshold v_samp k
       (MaskedArray
          (clip_round_ar (dist_arith ar_in ar_ma v_mean) ar_in ar_ma under_mask clip_threshold
             v_samp (entries v_mean)))"

definition clipped_vector_mean_ar ::
  "arith \<Rightarrow> arith \<Rightarrow> (real list list \<Rightarrow> nat \<Rightarrow> real) \<Rightarrow> array3 \<Rightarrow> real \<Rightarrow> int \<Rightarrow> ndarray2" where
  "clipped_vector_mean_ar ar_in ar_ma under_mask v_samp clip_threshold rounds =
     clip_rounds_ar ar_in ar_ma under_mask clip_threshold v_samp (nat rounds)
       (NDArray (np_mean_axis0_ar ar_in v_samp))"

text \<open>The mean at the start of round \<open>k\<close>, as an array and as its entries.\<close>

definition mean_array_after ::
  "arith \<Rightarrow> arith \<Rightarrow> (real list list \<Rightarrow> nat \<Rightarrow> real) \<Rightarrow> real \<Rightarrow> array3 \<Rightarrow> nat \<Rightarrow> ndarray2" where
  "mean_array_after ar_in ar_ma under_mask clip_threshold v_samp k =
     clip_rounds_ar ar_in ar_ma under_mask clip_threshold v_samp k
       (NDArray (np_mean_axis0_ar ar_in v_samp))"

text \<open>The entries marked as outliers in round \<open>k\<close>.\<close>

definition outliers_in_round ::
  "arith \<Rightarrow> arith \<Rightarrow> (real list list \<Rightarrow> nat \<Rightarrow> real) \<Rightarrow> real \<Rightarrow> array3 \<Rightarrow> nat \<Rightarrow> bool list list" where
  "outliers_in_round ar_in ar_ma under_mask clip_threshold v_samp k =
     outlier_idx_ar
       (dist_arith ar_in ar_ma (mean_array_after ar_in ar_ma under_mask clip_threshold v_samp k))
       under_mask clip_threshold v_samp
       (entries (mean_array_after ar_in ar_ma under_mask clip_threshold v_samp k))"

text \<open>
  The mean of all samples as \<^verbatim>\<open>np.ma.mean\<close> computes it when nothing is masked.
\<close>

definition ma_mean_all :: "arith \<Rightarrow> arith \<Rightarrow> array3 \<Rightarrow> real option list list" where
  "ma_mean_all ar_in ar_ma v =
     (case shape3 v of (n_samp, n_point, n_dim) \<Rightarrow>
        map (\<lambda>p. map (\<lambda>d. Some (ar_div ar_ma (sum_ar ar_in (map (\<lambda>s. v ! s ! p ! d) [0..<n_samp]))
                                    (real n_samp)))
                   [0..<n_dim])
            [0..<n_point])"

text \<open>
  What the rounds use of the arithmetic when all samples of a point are at the same
  distance from the mean: squares and sums of squares are not negative, the mean of twice
  the same distance (the median of an even number of them) is that distance, and a
  distance multiplied by a threshold of at least 1 is not below the distance.
\<close>

definition arith_ok :: "arith \<Rightarrow> bool" where
  "arith_ok ar \<longleftrightarrow>
     (\<forall>a. 0 \<le> ar_mul ar a a) \<and>
     (\<forall>a b. 0 \<le> a \<longrightarrow> 0 \<le> b \<longrightarrow> 0 \<le> ar_add ar a b) \<and>
     (\<forall>x. 0 \<le> x \<longrightarrow> ar_div ar (ar_add ar (ar_sqrt ar x) (ar_sqrt ar x)) 2 = ar_sqrt ar x) \<and>
     (\<forall>c x. 1 \<le> c \<longrightarrow> 0 \<le> x \<longrightarrow> ar_sqrt ar x \<le> ar_mul ar c (ar_sqrt ar x))"

subsection \<open>Floating-point arithmetic\<close>

text \<open>
  Rounding to the nearest number with \<open>p\<close> significant bits, ties to the even one: the
  rounding of IEEE 754 arithmetic, for 64-bit floats with \<open>p = 53\<close> and for 32-bit floats
  with \<open>p = 24\<close>. Overflow, subnormal numbers and NaN are left out. Every operation of
  the arithmetic rounds its exact result.
\<close>

definition round_half_even :: "real \<Rightarrow> int" where
  "round_half_even y =
     (let f = \<lfloor>y\<rfloor> in
      if y - of_int f < 1 / 2 then f
      else if 1 / 2 < y - of_int f then f + 1
      else if even f then f else f + 1)"

definition round_nearest :: "nat \<Rightarrow> real \<Rightarrow> real" where
  "round_nearest p x =
     (if x = 0 then 0
      else let q = 2 powr (of_int \<lfloor>log 2 \<bar>x\<bar>\<rfloor> - real (p - 1))
           in sgn x * q * of_int (round_half_even (\<bar>x\<bar> / q)))"

definition float_arith :: "nat \<Rightarrow> arith" where
  "float_arith p =
     \<lparr>ar_add = (\<lambda>a b. round_nearest p (a + b)),
      ar_sub = (\<lambda>a b. round_nearest p (a - b)),
      ar_mul = (\<lambda>a b. round_nearest p (a * b)),
      ar_div = (\<lambda>a b. round_nearest p (a / b)),
      ar_sqrt = (\<lambda>a. round_nearest p (sqrt a))\<rparr>"

text \<open>The 64-bit float nearest to 0.1, and three identical samples of it.\<close>

definition tenth :: real where
  "tenth = 7205759403792794 / 2 ^ 56"

definition tenth_samples :: array3 where
  "tenth_samples = [[[tenth]], [[tenth]], [[tenth]]]"

text \<open>The 32-bit float nearest to 0.1, and three identical samples of it.\<close>

definition tenth32 :: real where
  "tenth32 = 13421773 / 2 ^ 27"

definition tenth32_samples :: array3 where
  "tenth32_samples = [[[tenth32]], [[tenth32]], [[tenth32]]]"

section \<open>train_flows\<close>

text \<open>
  \<^verbatim>\<open>np.mean(data, axis=0)\<close> and \<^verbatim>\<open>np.std(data, axis=0)\<close> of a two-dimensional array,
  a list of rows: the mean of every column, and its standard deviation, the square root
  of the mean squared deviation from the mean of the column. The number of columns is
  read off the first row.
\<close>

definition n_cols :: "row list \<Rightarrow> nat" where
  "n_cols a = (case a of [] \<Rightarrow> 0 | r # _ \<Rightarrow> length r)"

definition np_mean_rows :: "row list \<Rightarrow> real list" where
  "np_mean_rows a = map (\<lambda>d. sum_list (map (\<lambda>r. r ! d) a) / real (length a)) [0..<n_cols a]"

definition np_std_rows :: "row list \<Rightarrow> real list" where
  "np_std_rows a =
     map (\<lambda>d. sqrt (sum_list (map (\<lambda>r. (r ! d - np_mean_rows a ! d)\<^sup>2) a) / real (length a)))
       [0..<n_cols a]"

text \<open>
  The arguments of the constructor \<^verbatim>\<open>flow_ffjord_tf.FFJORDFlow\<close> and the keyword
  arguments of \<^verbatim>\<open>flow_ffjord_tf.train_flow\<close>, as train_flows passes them. The values
  of the dictionaries \<open>reg\<close> and \<open>lr\<close> are of any type \<open>'v\<close>.
\<close>

record 'v flow_args =
  fa_n_dim :: nat
  fa_n_hidden :: int
  fa_hidden_size :: int
  fa_n_bij :: int
  fa_reg_kw :: "(string \<times> 'v) list"
  fa_base_mean :: "real list"
  fa_base_std :: "real list"

record 'v train_kw =
  kw_n_epochs :: int
  kw_batch_size :: int
  kw_validation_frac :: real
  kw_optimizer :: string
  kw_warmup_proportion :: real
  kw_checkpoint_every :: "int option"
  kw_max_checkpoints :: "int option"
  kw_checkpoint_dir :: string
  kw_checkpoint_name :: string
  kw_lr :: "(string \<times> 'v) list"

text \<open>The parameters of train_flows after the file names: the dictionary \<^verbatim>\<open>params['df']\<close>.\<close>

record 'v flows_cfg =
  n_flows :: int
  n_hidden :: int
  hidden_size :: int
  n_bij :: int
  n_epochs :: int
  batch_size :: int
  validation_frac :: real
  reg :: "(string \<times> 'v) list"
  lr :: "(string \<times> 'v) list"
  optimizer :: string
  warmup_proportion :: real
  checkpoint_every :: "int option"
  max_checkpoints :: "int option"

text \<open>
  The code outside the file that train_flows calls. A flow model is an object with a
  state of type \<open>'f\<close>; the constructor and the training draw random numbers and write
  files, which is a state \<open>'w\<close> of the world that they read and change.
  \<open>train_flow\<close> changes the model it is given: it returns the new state of the model,
  with the loss histories \<open>'h\<close>. \<open>str_format\<close> is \<^verbatim>\<open>pattern.format(i)\<close>, \<open>path_split\<close> is
  \<^verbatim>\<open>os.path.split\<close>. None of them is taken to raise.
\<close>

record ('f, 'h, 'w, 'v) flow_env =
  ffjord_new :: "'v flow_args \<Rightarrow> 'w \<Rightarrow> 'f \<times> 'w"
  train_flow :: "'f \<Rightarrow> row list \<Rightarrow> 'v train_kw \<Rightarrow> 'w \<Rightarrow> ('f \<times> 'h) \<times> 'w"
  str_format :: "string \<Rightarrow> nat \<Rightarrow> string"
  path_split :: "string \<Rightarrow> string \<times> string"

text \<open>
  What the function does in order, besides its result: objects are named by their
  address in the store.
\<close>

datatype event =
    Construct nat
  | Mkdir string
  | SaveSpecs nat string
  | Train nat
  | SaveLossHistory string
  | SavePlot string

text \<open>
  The state of the loop: the store of the flow objects (a new object gets the next
  address), the list \<open>flow_list\<close> of references into it, the events so far and the world.
\<close>

record ('f, 'w) flows_state =
  store :: "'f list"
  flow_list :: "nat list"
  events :: "event list"
  world :: "'w"

text \<open>\<^verbatim>\<open>lr_kw = {f'lr_{k}':lr[k] for k in lr}\<close>\<close>

definition lr_kw :: "(string \<times> 'v) list \<Rightarrow> (string \<times> 'v) list" where
  "lr_kw lr_dict = map (\<lambda>(k, v). (''lr_'' @ k, v)) lr_dict"

definition flow_train_kw :: "'v flows_cfg \<Rightarrow> string \<Rightarrow> string \<Rightarrow> 'v train_kw" where
  "flow_train_kw cfg checkpoint_dir checkpoint_name =
     \<lparr>kw_n_epochs = n_epochs cfg, kw_batch_size = batch_size cfg,
      kw_validation_frac = validation_frac cfg, kw_optimizer = optimizer cfg,
      kw_warmup_proportion = warmup_proportion cfg,
      kw_checkpoint_every = checkpoint_every cfg, kw_max_checkpoints = max_checkpoints cfg,
      kw_checkpoint_dir = checkpoint_dir, kw_checkpoint_name = checkpoint_name,
      kw_lr = lr_kw (lr cfg)\<rparr>"

text \<open>
  The body of \<^verbatim>\<open>for i in range(n_flows)\<close>. The new model is appended to \<open>flow_list\<close>
  before it is trained; the list holds a reference, so it holds the trained model once
  \<open>train_flow\<close> has changed the object.
\<close>

definition train_flows_body ::
  "('f, 'h, 'w, 'v) flow_env \<Rightarrow> row list \<Rightarrow> string \<Rightarrow> string \<Rightarrow> 'v flows_cfg \<Rightarrow>
   real list \<Rightarrow> real list \<Rightarrow> nat \<Rightarrow> ('f, 'w) flows_state \<Rightarrow> ('f, 'w) flows_state" where
  "train_flows_body env data fname_pattern plot_fname_pattern cfg data_mean data_std i st =
     (let (flow_model, w1) =
            ffjord_new env
              \<lparr>fa_n_dim = 6, fa_n_hidden = n_hidden cfg, fa_hidden_size = hidden_size cfg,
               fa_n_bij = n_bij cfg, fa_reg_kw = reg cfg,
               fa_base_mean = data_mean, fa_base_std = data_std\<rparr>
              (world st);
          addr = length (store st);
          store1 = store st @ [flow_model];
          flow_list1 = flow_list st @ [addr];
          flow_fname = str_format env fname_pattern i;
          (checkpoint_dir, checkpoint_name) = path_split env flow_fname;
          ((trained, histories), w2) =
            train_flow env (store1 ! addr) data
              (flow_train_kw cfg checkpoint_dir checkpoint_name) w1
      in \<lparr>store = store1[addr := trained],
          flow_list = flow_list1,
          events = events st @
            [Construct addr, Mkdir checkpoint_dir, SaveSpecs addr flow_fname, Train addr,
             SaveLossHistory (flow_fname @ ''_loss.txt''),
             SavePlot (str_format env plot_fname_pattern i)],
          world = w2\<rparr>)"

fun train_flows_loop ::
  "('f, 'h, 'w, 'v) flow_env \<Rightarrow> row list \<Rightarrow> string \<Rightarrow> string \<Rightarrow> 'v flows_cfg \<Rightarrow>
   real list \<Rightarrow> real list \<Rightarrow> nat list \<Rightarrow> ('f, 'w) flows_state \<Rightarrow> ('f, 'w) flows_state" where
  "train_flows_loop env data fname_pattern plot_fname_pattern cfg data_mean data_std [] st = st"
| "train_flows_loop env data fname_pattern plot_fname_pattern cfg data_mean data_std (i # is) st =
     train_flows_loop env data fname_pattern plot_fname_pattern cfg data_mean data_std is
       (train_flows_body env data fname_pattern plot_fname_pattern cfg data_mean data_std i st)"

text \<open>
  \<^verbatim>\<open>train_flows\<close>. The first statements compute \<open>n_steps\<close> for a message, with an integer
  division by \<open>batch_size\<close> that raises for 0; \<open>loss_fname\<close> is not used. The result is
  \<open>flow_list\<close>, with the state that holds the objects it refers to.
\<close>

definition train_flows ::
  "('f, 'h, 'w, 'v) flow_env \<Rightarrow> row list \<Rightarrow> string \<Rightarrow> string \<Rightarrow> string \<Rightarrow> 'v flows_cfg \<Rightarrow> 'w \<Rightarrow>
   error + nat list \<times> ('f, 'w) flows_state" where
  "train_flows env data fname_pattern plot_fname_pattern loss_fname cfg w =
     (if batch_size cfg = 0 then Inl ZeroDivisionError
      else
        let data_mean = np_mean_rows data;
            data_std = np_std_rows data;
            st = train_flows_loop env data fname_pattern plot_fname_pattern cfg
                   data_mean data_std [0..<nat (n_flows cfg)]
                   \<lparr>store = [], flow_list = [], events = [], world = w\<rparr>
        in Inr (flow_list st, st))"

text \<open>
  A model of the store is the trained \<open>i\<close>-th flow: it is what \<open>train_flow\<close> made of a
  model that the constructor built over the six dimensions of phase space, with the
  parameters of the configuration and the mean and standard deviation of every column
  of the whole data, trained on the data with the checkpoint names of the \<open>i\<close>-th file
  name, in some state of the world.
\<close>

definition trained_flow ::
  "('f, 'h, 'w, 'v) flow_env \<Rightarrow> row list \<Rightarrow> 'v flows_cfg \<Rightarrow> string \<Rightarrow> nat \<Rightarrow> 'f \<Rightarrow> bool" where
  "trained_flow env data cfg fname_pattern i m \<longleftrightarrow>
     (\<exists>w1 w2.
        m = fst (fst (train_flow env
              (fst (ffjord_new env
                 \<lparr>fa_n_dim = 6, fa_n_hidden = n_hidden cfg, fa_hidden_size = hidden_size cfg,
                  fa_n_bij = n_bij cfg, fa_reg_kw = reg cfg,
                  fa_base_mean = np_mean_rows data, fa_base_std = np_std_rows data\<rparr> w1))
              data
              (flow_train_kw cfg
                 (fst (path_split env (str_format env fname_pattern i)))
                 (snd (path_split env (str_format env fname_pattern i))))
              w2)))"

text \<open>The objects constructed, and the objects trained, in the order of the events.\<close>

fun constructed :: "event \<Rightarrow> nat list" where
  "constructed (Construct a) = [a]"
| "constructed _ = []"

fun trained :: "event \<Rightarrow> nat list" where
  "trained (Train a) = [a]"
| "trained _ = []"

text \<open>
  A concrete environment: the state of a model records the arguments of its constructor
  and, once trained, the keyword arguments of its training; the world counts the calls.
\<close>

definition example_flow_env ::
  "(real flow_args \<times> real train_kw option, unit, nat, real) flow_env" where
  "example_flow_env =
     \<lparr>ffjord_new = (\<lambda>args w. ((args, None), Suc w)),
      train_flow = (\<lambda>m data kw w. (((fst m, Some kw), ()), Suc w)),
      str_format = (\<lambda>pattern i. pattern @ replicate i CHR ''+''),
      path_split = (\<lambda>path. (''models'', path))\<rparr>"

definition example_cfg :: "real flows_cfg" where
  "example_cfg =
     \<lparr>n_flows = 2, n_hidden = 4, hidden_size = 32, n_bij = 1, n_epochs = 128,
      batch_size = 1024, validation_frac = 1 / 4, reg = [], lr = [(''init'', 1 / 50)],
      optimizer = ''RAdam'', warmup_proportion = 1 / 10,
      checkpoint_every = None, max_checkpoints = None\<rparr>"

definition example_data :: "row list" where
  "example_data = [[1, 1, 1, 1, 1, 1], [3, 1, 5, 1, 1, 1]]"

section \<open>train_potential\<close>

text \<open>
  The parameters of train_potential after the file names (the dictionary
  \<^verbatim>\<open>params['Phi']\<close> and \<open>include_frameshift\<close>), and the keyword arguments it passes to
  \<^verbatim>\<open>potential_tf.train_potential\<close>.
\<close>

record 'v phi_cfg =
  phi_n_hidden :: int
  phi_hidden_size :: int
  phi_xi :: real
  phi_lam :: real
  phi_l2 :: real
  phi_n_epochs :: int
  phi_batch_size :: int
  phi_validation_frac :: real
  phi_lr :: "(string \<times> 'v) list"
  phi_optimizer :: string
  phi_warmup_proportion :: real
  phi_checkpoint_every :: "int option"
  phi_max_checkpoints :: "int option"
  include_frameshift :: bool
  frameshift :: "(string \<times> 'v) list"

record 'v potential_kw =
  pk_n_epochs :: int
  pk_batch_size :: int
  pk_xi :: real
  pk_lam :: real
  pk_l2 :: real
  pk_validation_frac :: real
  pk_optimizer :: string
  pk_warmup_proportion :: real
  pk_checkpoint_every :: "int option"
  pk_max_checkpoints :: "int option"
  pk_checkpoint_dir :: string
  pk_checkpoint_name :: string
  pk_lr :: "(string \<times> 'v) list"

text \<open>
  The code outside the file that train_potential calls: the constructors
  \<^verbatim>\<open>potential_tf.PhiNN(n_dim, n_hidden, hidden_size, scale)\<close> and
  \<^verbatim>\<open>potential_tf.FrameShift(n_dim, **frameshift)\<close>, and
  \<^verbatim>\<open>potential_tf.train_potential\<close> in its two uses, with \<open>frameshift_model=None\<close> and
  with a frame-shift model. The training changes the models it is given: it returns
  their new states, with the loss history. None of them is taken to raise.
\<close>

record ('p, 's, 'h, 'w, 'v, 'r) potential_env =
  phinn_new :: "nat \<Rightarrow> int \<Rightarrow> int \<Rightarrow> real list \<Rightarrow> 'w \<Rightarrow> 'p \<times> 'w"
  frameshift_new :: "nat \<Rightarrow> (string \<times> 'v) list \<Rightarrow> 'w \<Rightarrow> 's \<times> 'w"
  train_phi :: "'r ret \<Rightarrow> 'p \<Rightarrow> 'v potential_kw \<Rightarrow> 'w \<Rightarrow> ('p \<times> 'h) \<times> 'w"
  train_phi_shift :: "'r ret \<Rightarrow> 'p \<Rightarrow> 's \<Rightarrow> 'v potential_kw \<Rightarrow> 'w \<Rightarrow> ('p \<times> 's \<times> 'h) \<times> 'w"
  os_path_split :: "string \<Rightarrow> string \<times> string"

text \<open>What train_potential returns: the potential model, or the pair of both models.\<close>

datatype ('p, 's) potential_result = PhiModel 'p | PhiAndFrameShift 'p 's

definition potential_train_kw :: "'v phi_cfg \<Rightarrow> string \<Rightarrow> string \<Rightarrow> 'v potential_kw" where
  "potential_train_kw cfg checkpoint_dir checkpoint_name =
     \<lparr>pk_n_epochs = phi_n_epochs cfg, pk_batch_size = phi_batch_size cfg,
      pk_xi = phi_xi cfg, pk_lam = phi_lam cfg, pk_l2 = phi_l2 cfg,
      pk_validation_frac = phi_validation_frac cfg, pk_optimizer = phi_optimizer cfg,
      pk_warmup_proportion = phi_warmup_proportion cfg,
      pk_checkpoint_every = phi_checkpoint_every cfg,
      pk_max_checkpoints = phi_max_checkpoints cfg,
      pk_checkpoint_dir = checkpoint_dir, pk_checkpoint_name = checkpoint_name,
      pk_lr = lr_kw (phi_lr cfg)\<rparr>"

text \<open>
  \<^verbatim>\<open>q_scale = np.std(df_data['eta'][:,:3], axis=0)\<close>: the standard deviation of each of
  the first three columns of \<open>eta\<close>, the positions.
\<close>

definition q_scale :: "'r ret \<Rightarrow> real list" where
  "q_scale df_data = np_std_rows (map (take 3) (ret_eta df_data))"

text \<open>
  \<^verbatim>\<open>train_potential\<close>: the result, the events in order (the potential model is the
  object 0, the frame-shift model the object 1) and the world afterwards. \<open>loss_fname\<close>
  is not used.
\<close>

definition train_potential ::
  "('p, 's, 'h, 'w, 'v, 'r) potential_env \<Rightarrow> 'r ret \<Rightarrow> string \<Rightarrow> string \<Rightarrow> string \<Rightarrow>
   'v phi_cfg \<Rightarrow> 'w \<Rightarrow> ('p, 's) potential_result \<times> event list \<times> 'w" where
  "train_potential env df_data fname plot_fname loss_fname cfg w =
     (let (phi_model, w1) =
            phinn_new env 3 (phi_n_hidden cfg) (phi_hidden_size cfg) (q_scale df_data) w;
          (checkpoint_dir, checkpoint_name) = os_path_split env fname;
          kw = potential_train_kw cfg checkpoint_dir checkpoint_name;
          after =
            [SaveLossHistory (fname @ ''_loss.txt''), SavePlot plot_fname]
      in if include_frameshift cfg
         then
           let (frameshift_model, w2) = frameshift_new env 3 (frameshift cfg) w1;
               ((phi_trained, frameshift_trained, loss_history), w3) =
                 train_phi_shift env df_data phi_model frameshift_model kw w2
           in (PhiAndFrameShift phi_trained frameshift_trained,
               [Construct 0, Mkdir checkpoint_dir, SaveSpecs 0 fname,
                Construct 1, SaveSpecs 1 fname, Train 0] @ after,
               w3)
         else
           let ((phi_trained, loss_history), w3) = train_phi env df_data phi_model kw w1
           in (PhiModel phi_trained,
               [Construct 0, Mkdir checkpoint_dir, SaveSpecs 0 fname, Train 0] @ after,
               w3))"

text \<open>
  The models that the claim describes: a potential model built over 3 dimensions with
  the scale \<open>q_scale\<close> and trained on \<open>df_data\<close>, alone or together with a frame-shift
  model over 3 dimensions, in some state of the world.
\<close>

definition trained_potential ::
  "('p, 's, 'h, 'w, 'v, 'r) potential_env \<Rightarrow> 'r ret \<Rightarrow> string \<Rightarrow> 'v phi_cfg \<Rightarrow> 'p \<Rightarrow> bool" where
  "trained_potential env df_data fname cfg m \<longleftrightarrow>
     (\<exists>w0 w1.
        m = fst (fst (train_phi env df_data
              (fst (phinn_new env 3 (phi_n_hidden cfg) (phi_hidden_size cfg)
                      (np_std_rows (map (take 3) (ret_eta df_data))) w0))
              (potential_train_kw cfg (fst (os_path_split env fname))
                 (snd (os_path_split env fname)))
              w1)))"

definition trained_potential_shift ::
  "('p, 's, 'h, 'w, 'v, 'r) potential_env \<Rightarrow> 'r ret \<Rightarrow> string \<Rightarrow> 'v phi_cfg \<Rightarrow> 'p \<Rightarrow> 's \<Rightarrow> bool" where
  "trained_potential_shift env df_data fname cfg m s \<longleftrightarrow>
     (\<exists>w0 w1 w2 h.
        fst (train_phi_shift env df_data
              (fst (phinn_new env 3 (phi_n_hidden cfg) (phi_hidden_size cfg)
                      (np_std_rows (map (take 3) (ret_eta df_data))) w0))
              (fst (frameshift_new env 3 (frameshift cfg) w1))
              (potential_train_kw cfg (fst (os_path_split env fname))
                 (snd (os_path_split env fname)))
              w2) = (m, s, h))"

text \<open>
  A concrete environment: the state of a model records the arguments of its constructor
  and whether it has been trained; the world counts the calls.
\<close>

definition example_potential_env ::
  "((nat \<times> int \<times> int \<times> real list) \<times> bool, (nat \<times> (string \<times> real) list) \<times> bool,
    unit, nat, real, unit) potential_env" where
  "example_potential_env =
     \<lparr>phinn_new = (\<lambda>n_dim nh hs scale w. (((n_dim, nh, hs, scale), False), Suc w)),
      frameshift_new = (\<lambda>n_dim kw w. (((n_dim, kw), False), Suc w)),
      train_phi = (\<lambda>df p kw w. (((fst p, True), ()), Suc w)),
      train_phi_shift = (\<lambda>df p s kw w. (((fst p, True), (fst s, True), ()), Suc w)),
      os_path_split = (\<lambda>path. (''models'', path))\<rparr>"

definition example_df_data :: "unit ret" where
  "example_df_data = \<lparr>ret_eta = example_data, ret_df_deta = (), ret_df_deta_indiv = None\<rparr>"

definition example_phi_cfg :: "bool \<Rightarrow> real phi_cfg" where
  "example_phi_cfg with_frameshift =
     \<lparr>phi_n_hidden = 3, phi_hidden_size = 256, phi_xi = 1, phi_lam = 1, phi_l2 = 0,
      phi_n_epochs = 4096, phi_batch_size = 1024, phi_validation_frac = 1 / 4,
      phi_lr = [], phi_optimizer = ''RAdam'', phi_warmup_proportion = 1 / 10,
      phi_checkpoint_every = None, phi_max_checkpoints = None,
      include_frameshift = with_frameshift, frameshift = [(''omega0'', 0)]\<rparr>"

section \<open>Properties of batch_calc_df_deta\<close>

lemma concat_dataset_batch: "0 < n \<Longrightarrow> concat (dataset_batch n xs) = xs"
proof (induction n xs rule: dataset_batch.induct)
  case (1 n xs)
  show ?case
  proof (cases "xs = []")
    case True
    then show ?thesis by (simp add: dataset_batch.simps)
  next
    case False
    with 1 have "concat (dataset_batch n (drop n xs)) = drop n xs" by simp
    with False 1(2) show ?thesis
      by (subst dataset_batch.simps) simp
  qed
qed

lemma dataset_batch_Nil: "dataset_batch n [] = []"
  by (simp add: dataset_batch.simps)

lemma dataset_batch_many:
  "0 < n \<Longrightarrow> n < length xs \<Longrightarrow> 2 \<le> length (dataset_batch n xs)"
proof -
  assume n: "0 < n" and l: "n < length xs"
  then have a: "dataset_batch n xs = take n xs # dataset_batch n (drop n xs)"
    by (subst dataset_batch.simps) auto
  from l have "drop n xs \<noteq> []" by simp
  with n have "dataset_batch n (drop n xs) \<noteq> []"
    by (subst dataset_batch.simps) simp
  with a show ?thesis by (cases "dataset_batch n (drop n xs)") simp_all
qed

lemma length_dataset_batch_le_1:
  "length xs \<le> n \<Longrightarrow> length (dataset_batch n xs) \<le> 1"
  by (cases "n = 0 \<or> xs = []")
     (auto simp: dataset_batch.simps [of n xs] dataset_batch_Nil)

lemma grad_loop_df:
  "fst (grad_loop fl n k bs (df, bar, g)) = df @ map (calc_grads fl) bs"
  by (induction bs arbitrary: k df bar g) (simp_all add: Let_def)

lemma grad_loop_bar_Suc:
  "bs \<noteq> [] \<Longrightarrow> fst (snd (grad_loop fl n (Suc k) bs (df, bar, g))) \<noteq> None"
proof (induction bs arbitrary: k df bar g)
  case Nil
  then show ?case by simp
next
  case (Cons b bs)
  show ?case
  proof (cases "bs = []")
    case True
    then show ?thesis by (simp add: Let_def)
  next
    case False
    with Cons.IH show ?thesis by (simp add: Let_def)
  qed
qed

lemma grad_loop_bar_0:
  "fst (snd (grad_loop fl n 0 bs (df, None, g))) = None \<longleftrightarrow> length bs \<le> 1"
proof (cases bs)
  case Nil
  then show ?thesis by simp
next
  case (Cons b bs')
  then show ?thesis
    using grad_loop_bar_Suc [of bs' fl n 0 "df @ [calc_grads fl b]" None "g + length b"]
    by (cases "bs' = []") (simp_all add: Let_def)
qed

lemma batch_calc_df_deta_cases:
  "batch_calc_df_deta fl eta bs =
     (if bs \<le> 0 then Inl InvalidArgumentError
      else if length (dataset_batch (nat bs) eta) \<le> 1 then Inl AttributeError
      else Inr (map (prob_grad fl) eta))"
proof (cases "bs \<le> 0")
  case True
  then show ?thesis by (simp add: batch_calc_df_deta_def)
next
  case False
  define B where "B = dataset_batch (nat bs) eta"
  obtain df bar g where r: "grad_loop fl (length eta) 0 B ([], None, 0) = (df, bar, g)"
    by (cases "grad_loop fl (length eta) 0 B ([], None, 0)") auto
  have df: "df = map (calc_grads fl) B"
    using grad_loop_df [of fl "length eta" 0 B "[]" None 0] r by simp
  have bar: "bar = None \<longleftrightarrow> length B \<le> 1"
    using grad_loop_bar_0 [of fl "length eta" B "[]" 0] r by simp
  have cc: "concat (map (calc_grads fl) B) = map (prob_grad fl) eta"
  proof -
    have "concat (map (calc_grads fl) B) = map (prob_grad fl) (concat B)"
      by (simp add: calc_grads_def [abs_def] map_concat)
    moreover have "concat B = eta"
      unfolding B_def using False by (intro concat_dataset_batch) simp
    ultimately show ?thesis by simp
  qed
  show ?thesis
  proof (cases "length B \<le> 1")
    case True
    with bar have "bar = None" by simp
    with False True r show ?thesis
      by (simp add: batch_calc_df_deta_def B_def [symmetric])
  next
    case nb: False
    with bar obtain b where b: "bar = Some b" by (cases bar) auto
    from nb have "B \<noteq> []" by auto
    with df have "df \<noteq> []" by simp
    with False nb r b df cc show ?thesis
      by (simp add: batch_calc_df_deta_def B_def [symmetric])
  qed
qed

text \<open>
  Claim C9. When the number of rows of \<open>eta\<close> is at most the (positive) batch size, the
  dataset yields at most one batch, the progress bar is never created and the final
  \<^verbatim>\<open>bar.update(n_data)\<close> raises AttributeError; and whenever batch_calc_df_deta
  returns normally, the dataset yielded at least two batches.
\<close>

theorem batch_calc_single_batch_raises:
  "(0 < bs \<and> int (length eta) \<le> bs \<longrightarrow> batch_calc_df_deta fl eta bs = Inl AttributeError) \<and>
   (\<forall>r. batch_calc_df_deta fl eta bs = Inr r \<longrightarrow> 2 \<le> length (dataset_batch (nat bs) eta))"
proof (intro conjI impI allI)
  assume "0 < bs \<and> int (length eta) \<le> bs"
  then have "0 < bs" and "length eta \<le> nat bs" by auto
  then show "batch_calc_df_deta fl eta bs = Inl AttributeError"
    using length_dataset_batch_le_1 [of eta "nat bs"]
    by (simp add: batch_calc_df_deta_cases)
next
  fix r
  assume "batch_calc_df_deta fl eta bs = Inr r"
  then show "2 \<le> length (dataset_batch (nat bs) eta)"
    by (auto simp: batch_calc_df_deta_cases split: if_splits)
qed

theorem batch_calc_single_batch_raises_witness:
  "(0 < (2::int) \<and> int (length [[0, 0, 0, 0, 0, 0::real]]) \<le> 2) \<and>
   batch_calc_df_deta example_flow [[0, 0, 0, 0, 0, 0]] 2 = Inl AttributeError \<and>
   batch_calc_df_deta example_flow [[1, 0, 0, 0, 0, 0], [0, 1, 0, 0, 0, 0]] 1
     = Inr [[-1, 0, 0, 0, 0, 0], [0, -1, 0, 0, 0, 0]] \<and>
   2 \<le> length (dataset_batch (nat 1) [[1, 0, 0, 0, 0, 0], [0, 1, 0, 0, 0, 0::real]])"
  using batch_calc_single_batch_raises [of 2 "[[0, 0, 0, 0, 0, 0]]" example_flow]
    batch_calc_single_batch_raises
      [of 1 "[[1, 0, 0, 0, 0, 0], [0, 1, 0, 0, 0, 0]]" example_flow]
  by (simp add: batch_calc_df_deta_cases dataset_batch.simps example_flow_def)

text \<open>
  With at least two batches for both batch sizes the result is the row-wise gradient
  of \<open>eta\<close>, whatever the batch size.
\<close>

lemma batch_calc_df_deta_two_batches:
  assumes "0 < b1" "b1 < int (length eta)"
  shows "batch_calc_df_deta fl eta b1 = Inr (map (prob_grad fl) eta)"
proof -
  from assms have "2 \<le> length (dataset_batch (nat b1) eta)"
    by (intro dataset_batch_many) auto
  with assms show ?thesis by (simp add: batch_calc_df_deta_cases)
qed

text \<open>
  Claim C3 (batch_calc_df_deta returns the same array for every pair of positive batch
  sizes) fails on the code: on an array of two rows the batch size 1 gives the gradient of
  each row, and the batch size 2 gives a single batch, for which the progress bar is never
  created and the call raises AttributeError instead of returning the same array.
\<close>

theorem batch_calc_depends_on_batch_size:
  "batch_calc_df_deta example_flow [[1, 0, 0, 0, 0, 0], [0, 1, 0, 0, 0, 0]] 1
     = Inr [[-1, 0, 0, 0, 0, 0], [0, -1, 0, 0, 0, 0]] \<and>
   batch_calc_df_deta example_flow [[1, 0, 0, 0, 0, 0], [0, 1, 0, 0, 0, 0]] 2
     = Inl AttributeError"
  by (simp add: batch_calc_df_deta_cases dataset_batch.simps example_flow_def)

section \<open>Properties of sample_from_flows\<close>

lemma sample_batches_shape:
  "sample_batches fl sbs k c = Inr bs \<Longrightarrow> sample_shape_ok fl \<Longrightarrow>
   length bs = k \<and> (\<forall>b\<in>set bs. length b = nat sbs) \<and> (0 < k \<longrightarrow> 0 \<le> sbs)"
proof (induction k arbitrary: c bs)
  case 0
  then show ?case by simp
next
  case (Suc k)
  from Suc.prems(1) obtain b bs' where
    b: "sample fl sbs c = Inr b" and bs': "sample_batches fl sbs k (Suc c) = Inr bs'"
    and eq: "bs = b # bs'"
    by (auto split: sum.splits)
  from Suc.IH [OF bs' Suc.prems(2)] have ih: "length bs' = k" "\<forall>b\<in>set bs'. length b = nat sbs"
    by auto
  from Suc.prems(2) b have nn: "0 \<le> sbs"
    unfolding sample_shape_ok_def by (metis isl_def linorder_not_le sum.simps(4))
  with Suc.prems(2) b have "length b = nat sbs"
    unfolding sample_shape_ok_def by (metis sum.inject(2))
  with ih eq nn show ?case by simp
qed

lemma sample_flows_shape:
  "sample_flows fls sbs nb c = Inr parts \<Longrightarrow> \<forall>fl\<in>set fls. sample_shape_ok fl \<Longrightarrow>
   length parts = length fls \<and>
   (\<forall>p\<in>set parts. length p = nb \<and> (\<forall>b\<in>set p. length b = nat sbs)) \<and>
   (fls \<noteq> [] \<and> 0 < nb \<longrightarrow> 0 \<le> sbs)"
proof (induction fls arbitrary: c parts)
  case Nil
  then show ?case by simp
next
  case (Cons fl fls)
  from Cons.prems(1) obtain bs rest where
    bs: "sample_batches fl sbs nb c = Inr bs"
    and rest: "sample_flows fls sbs nb (c + nb) = Inr rest"
    and eq: "parts = bs # rest"
    by (auto split: sum.splits)
  from Cons.prems(2) have ok: "sample_shape_ok fl" and oks: "\<forall>fl\<in>set fls. sample_shape_ok fl"
    by auto
  from sample_batches_shape [OF bs ok] Cons.IH [OF rest oks] eq show ?case by auto
qed

lemma length_concat_const:
  "\<forall>b\<in>set p. length b = m \<Longrightarrow> length (concat p) = length p * m"
  by (induction p) simp_all

lemma sample_from_flows_no_indiv:
  "\<exists>e. sample_from_flows fls n False gbs sbs f = Inl e"
proof (cases fls)
  case Nil
  then show ?thesis by (simp add: sample_from_flows_def)
next
  case (Cons fl rest)
  then show ?thesis
    by (auto simp: sample_from_flows_def Let_def split: sum.splits option.splits)
qed

lemma sample_from_flows_unbound:
  assumes "fls = fl # rest" "int (length fls) * sbs \<noteq> 0"
    and "sample_flows fls sbs (nat (n div (int (length fls) * sbs))) 0 = Inr parts"
    and "concat parts \<noteq> []"
    and "batch_calc_df_deta fl (concat (concat parts)) gbs = Inr g"
  shows "sample_from_flows fls n False gbs sbs f = Inl NameError"
  using assms by (simp add: sample_from_flows_def Let_def)

text \<open>
  Claim C8, as amended. With \<open>return_indiv = False\<close> sample_from_flows never returns
  normally, for any list of flows: \<open>df_deta_indiv\<close> is unbound when it is first used. The
  error is NameError whenever the sampling stage produced at least one batch and the
  gradient computation of the first flow succeeded; an error raised before that point
  (a zero divisor, an empty list of batches, a failing sample or gradient call) comes
  first.
\<close>

theorem sample_from_flows_requires_return_indiv:
  "(\<exists>e. sample_from_flows fls n False gbs sbs f = Inl e) \<and>
   (\<forall>fl rest parts g.
      fls = fl # rest \<and> int (length fls) * sbs \<noteq> 0 \<and>
      sample_flows fls sbs (nat (n div (int (length fls) * sbs))) 0 = Inr parts \<and>
      concat parts \<noteq> [] \<and>
      batch_calc_df_deta fl (concat (concat parts)) gbs = Inr g \<longrightarrow>
      sample_from_flows fls n False gbs sbs f = Inl NameError)"
  using sample_from_flows_no_indiv [of fls n gbs sbs f]
    sample_from_flows_unbound [of fls _ _ sbs n _ gbs _ f]
  by blast

theorem sample_from_flows_requires_return_indiv_witness:
  "([example_flow] = example_flow # [] \<and> int (length [example_flow]) * 1 \<noteq> 0 \<and>
    sample_flows [example_flow] 1 (nat (2 div (int (length [example_flow]) * 1))) 0
      = Inr [[[[0, 0, 0, 0, 0, 0]], [[1, 1, 1, 1, 1, 1]]]] \<and>
    concat [[[[0, 0, 0, 0, 0, 0]], [[1, 1, 1, 1, 1, 1::real]]]] \<noteq> [] \<and>
    batch_calc_df_deta example_flow
      (concat (concat [[[[0, 0, 0, 0, 0, 0]], [[1, 1, 1, 1, 1, 1]]]])) 1
      = Inr [[0, 0, 0, 0, 0, 0], [-1, -1, -1, -1, -1, -1]]) \<and>
   sample_from_flows [example_flow] 2 False 1 1 id = Inl NameError"
  using sample_from_flows_requires_return_indiv [of "[example_flow]" 2 1 1 id]
  by (simp add: example_flow_def eval_nat_numeral batch_calc_df_deta_cases
      dataset_batch.simps)

text \<open>
  Claim C8 as stated (NameError for every non-empty list of flows) fails: with
  \<open>n_samples = 0\<close> no batch is drawn, and \<^verbatim>\<open>np.concatenate\<close> raises ValueError on
  the empty list before the gradient loop is reached.
\<close>

theorem sample_from_flows_no_batches:
  "sample_from_flows [example_flow] 0 False 1024 1024 id = Inl ValueError \<and>
   sample_from_flows [example_flow] 0 False 1024 1024 id \<noteq> Inl NameError"
  by (simp add: sample_from_flows_def)

text \<open>
  Another error that comes before the unbound variable: one row drawn and a gradient
  batch size of one give a single gradient batch, and batch_calc_df_deta raises
  AttributeError on the right-hand side of the assignment.
\<close>

lemma sample_from_flows_single_grad_batch:
  "sample_from_flows [example_flow] 1 False 1 1 id = Inl AttributeError"
  by (simp add: sample_from_flows_def example_flow_def Let_def
      batch_calc_df_deta_cases dataset_batch.simps)

lemma sample_from_flows_Inr:
  assumes "sample_from_flows fls n ri gbs sbs f = Inr r"
  obtains parts where
    "int (length fls) * sbs \<noteq> 0"
    "sample_flows fls sbs (nat (n div (int (length fls) * sbs))) 0 = Inr parts"
    "concat parts \<noteq> []"
    "ret_eta r = concat (concat parts)"
  using assms
  by (auto simp: sample_from_flows_def Let_def split: if_splits sum.splits option.splits)

lemma concat_concat: "concat (concat xs) = concat (map concat xs)"
  by (induction xs) simp_all

lemma floor_multiple:
  fixes n D :: int
  assumes "0 < D"
  shows "D * (n div D) \<le> n" "D dvd n \<Longrightarrow> D * (n div D) = n" "\<not> D dvd n \<Longrightarrow> D * (n div D) < n"
proof -
  have eq: "n = D * (n div D) + n mod D" by simp
  from assms have m: "0 \<le> n mod D" by simp
  from eq m show "D * (n div D) \<le> n" by linarith
  show "D dvd n \<Longrightarrow> D * (n div D) = n" by simp
  assume "\<not> D dvd n"
  then have "n mod D \<noteq> 0" by (simp add: dvd_eq_mod_eq_0)
  with m have "0 < n mod D" by simp
  with eq show "D * (n div D) < n" by linarith
qed

text \<open>
  Claim C2. Whenever sample_from_flows returns, with flows whose \<^verbatim>\<open>sample([n])\<close>
  gives \<open>n\<close> rows, the array \<open>eta\<close> has
  \<open>n_flows * (n_samples // (n_flows * sample_batch_size)) * sample_batch_size\<close> rows:
  exactly \<open>n_samples\<close> when \<open>n_flows * sample_batch_size\<close> divides \<open>n_samples\<close>, strictly
  fewer otherwise; it is the concatenation of one part per flow, in the order of the
  flows, each of \<open>n_batches * sample_batch_size\<close> rows.
\<close>

theorem sample_from_flows_eta_rows:
  assumes ret: "sample_from_flows fls n_samples return_indiv gbs sbs f = Inr r"
    and ok: "\<forall>fl\<in>set fls. sample_shape_ok fl"
  shows "int (length (ret_eta r))
           = int (length fls) * (n_samples div (int (length fls) * sbs)) * sbs \<and>
         (int (length fls) * sbs dvd n_samples \<longrightarrow> int (length (ret_eta r)) = n_samples) \<and>
         (\<not> int (length fls) * sbs dvd n_samples \<longrightarrow> int (length (ret_eta r)) < n_samples) \<and>
         (\<exists>parts. sample_flows fls sbs (nat (n_samples div (int (length fls) * sbs))) 0
                    = Inr parts \<and>
                  ret_eta r = concat (map concat parts) \<and>
                  length parts = length fls \<and>
                  (\<forall>p\<in>set parts.
                     int (length (concat p)) = (n_samples div (int (length fls) * sbs)) * sbs))"
proof -
  define D where "D = int (length fls) * sbs"
  define q where "q = n_samples div D"
  from ret obtain parts where
    nz: "D \<noteq> 0" and parts: "sample_flows fls sbs (nat q) 0 = Inr parts"
    and ne: "concat parts \<noteq> []" and eta: "ret_eta r = concat (concat parts)"
    unfolding D_def q_def by (rule sample_from_flows_Inr)
  from sample_flows_shape [OF parts ok] have
    len: "length parts = length fls"
    and each: "\<forall>p\<in>set parts. length p = nat q \<and> (\<forall>b\<in>set p. length b = nat sbs)"
    and pos: "fls \<noteq> [] \<and> 0 < nat q \<longrightarrow> 0 \<le> sbs"
    by auto
  from ne obtain p where "p \<in> set parts" "p \<noteq> []" by auto
  with each have "length p = nat q" "length p \<noteq> 0" by auto
  then have q: "0 < q" by (cases "0 < q") auto
  from nz have "fls \<noteq> []" "sbs \<noteq> 0" by (auto simp: D_def)
  with pos q have sbs: "0 < sbs" by auto
  with \<open>fls \<noteq> []\<close> have D: "0 < D" by (simp add: D_def)
  have part_len: "int (length (concat p)) = q * sbs" if "p \<in> set parts" for p
  proof -
    from that each have "length p = nat q" "\<forall>b\<in>set p. length b = nat sbs" by auto
    then have "length (concat p) = nat q * nat sbs"
      using length_concat_const [of p "nat sbs"] by simp
    with q sbs show ?thesis by (simp add: nat_mult_distrib [symmetric])
  qed
  have "\<forall>b\<in>set (map concat parts). length b = nat (q * sbs)"
  proof
    fix b assume "b \<in> set (map concat parts)"
    then obtain p where p: "p \<in> set parts" "b = concat p" by auto
    from part_len [OF p(1)] p(2) show "length b = nat (q * sbs)" by simp
  qed
  then have "length (concat (map concat parts)) = length parts * nat (q * sbs)"
    using length_concat_const [of "map concat parts" "nat (q * sbs)"] by simp
  with q sbs len have total: "int (length (ret_eta r)) = int (length fls) * q * sbs"
    by (simp add: eta concat_concat)
  then have total': "int (length (ret_eta r)) = D * (n_samples div D)"
    by (simp add: D_def q_def mult.assoc mult.left_commute mult.commute)
  have c1: "int (length (ret_eta r)) = int (length fls) * (n_samples div D) * sbs"
    using total by (simp add: q_def)
  have c2: "D dvd n_samples \<longrightarrow> int (length (ret_eta r)) = n_samples"
    using total' floor_multiple(2) [OF D, of n_samples] by simp
  have c3: "\<not> D dvd n_samples \<longrightarrow> int (length (ret_eta r)) < n_samples"
    using total' floor_multiple(3) [OF D, of n_samples] by simp
  have c4: "\<exists>parts. sample_flows fls sbs (nat (n_samples div D)) 0 = Inr parts \<and>
              ret_eta r = concat (map concat parts) \<and> length parts = length fls \<and>
              (\<forall>p\<in>set parts. int (length (concat p)) = (n_samples div D) * sbs)"
    using parts len part_len eta unfolding q_def
    by (intro exI [of _ parts]) (simp add: concat_concat)
  from c1 c2 c3 c4 show ?thesis unfolding D_def by blast
qed

lemma example_flow_sample_ok: "sample_shape_ok example_flow"
  by (simp add: sample_shape_ok_def example_flow_def)

theorem sample_from_flows_eta_rows_witness:
  "sample_from_flows [example_flow] 5 True 1 2 id
     = Inr \<lparr>ret_eta = [[0, 0, 0, 0, 0, 0], [0, 0, 0, 0, 0, 0], [1, 1, 1, 1, 1, 1], [1, 1, 1, 1, 1, 1]],
            ret_df_deta = [[[0, 0, 0, 0, 0, 0], [0, 0, 0, 0, 0, 0], [-1, -1, -1, -1, -1, -1], [-1, -1, -1, -1, -1, -1]]],
            ret_df_deta_indiv = Some [[[0, 0, 0, 0, 0, 0], [0, 0, 0, 0, 0, 0], [-1, -1, -1, -1, -1, -1], [-1, -1, -1, -1, -1, -1]]]\<rparr> \<and>
   sample_shape_ok example_flow \<and>
   \<not> int (length [example_flow]) * 2 dvd 5 \<and>
   int (length [[0, 0, 0, 0, 0, 0], [0, 0, 0, 0, 0, 0], [1, 1, 1, 1, 1, 1], [1, 1, 1, 1, 1, 1::real]])
     = int (length [example_flow]) * (5 div (int (length [example_flow]) * 2)) * 2 \<and>
   int (length [[0, 0, 0, 0, 0, 0], [0, 0, 0, 0, 0, 0], [1, 1, 1, 1, 1, 1], [1, 1, 1, 1, 1, 1::real]]) < 5"
proof -
  let ?R = "\<lparr>ret_eta = [[0, 0, 0, 0, 0, 0], [0, 0, 0, 0, 0, 0], [1, 1, 1, 1, 1, 1], [1, 1, 1, 1, 1, 1::real]],
            ret_df_deta = [[[0, 0, 0, 0, 0, 0], [0, 0, 0, 0, 0, 0], [-1, -1, -1, -1, -1, -1], [-1, -1, -1, -1, -1, -1]]],
            ret_df_deta_indiv = Some [[[0, 0, 0, 0, 0, 0], [0, 0, 0, 0, 0, 0], [-1, -1, -1, -1, -1, -1], [-1, -1, -1, -1, -1, -1]]]\<rparr>"
  have h1: "sample_from_flows [example_flow] 5 True 1 2 id = Inr ?R"
    by (simp add: sample_from_flows_def example_flow_def eval_nat_numeral Let_def
        batch_calc_df_deta_cases dataset_batch.simps zeros_like_def)
  have h2: "\<forall>fl\<in>set [example_flow]. sample_shape_ok fl"
    by (simp add: example_flow_sample_ok)
  from sample_from_flows_eta_rows [OF h1 h2] h1 example_flow_sample_ok show ?thesis by simp
qed

section \<open>Properties of clipped_vector_mean\<close>

lemma shape3_length: "shape3 v = (n, P, D) \<Longrightarrow> n = length v"
  by (simp add: shape3_def)

lemma shape3_point_nonempty: "shape3 v = (n, P, D) \<Longrightarrow> p < P \<Longrightarrow> 0 < n"
  by (cases v) (auto simp: shape3_def)

lemma point_samples_nth: "s < length v \<Longrightarrow> point_samples v p ! s = v ! s ! p"
  by (simp add: point_samples_def)

lemma length_point_samples: "length (point_samples v p) = length v"
  by (simp add: point_samples_def)

lemma norm_opt_Some:
  "norm_opt (map (\<lambda>d. Some (f d)) [0..<D]) = Some (sqrt (sum_list (map (\<lambda>d. (f d)\<^sup>2) [0..<D])))"
  by (simp add: norm_opt_def list_all_iff comp_def)

lemma norm_opt_None:
  "0 < D \<Longrightarrow> norm_opt (map (\<lambda>d. None) [0..<D]) = None"
  by (auto simp: norm_opt_def list_all_iff)

lemma sample_dists_nth:
  assumes sh: "shape3 v = (n, P, D)" and s: "s < n" and p: "p < P"
    and row: "vm ! p = point_entries D mo" and good: "good_mean D mo"
  shows "sample_dists um v vm ! s ! p = point_dist um D (point_samples v p) mo s"
proof -
  from sh have n: "n = length v" by (rule shape3_length)
  have d: "sample_dists um v vm ! s ! p =
      (case norm_opt (map (\<lambda>d. map_option (\<lambda>m. v ! s ! p ! d - m) (vm ! p ! d)) [0..<D]) of
         Some r \<Rightarrow> r | None \<Rightarrow> um (point_samples v p) s)"
    using sh s p
    by (simp add: sample_dists_def norm_axis2_def sub_mean_def cong: option.case_cong)
  show ?thesis
  proof (cases mo)
    case None
    with good have D: "0 < D" by (simp add: good_mean_def)
    from None row have "map (\<lambda>d. map_option (\<lambda>m. v ! s ! p ! d - m) (vm ! p ! d)) [0..<D]
        = map (\<lambda>d. None) [0..<D]"
      by (simp add: point_entries_def)
    with d norm_opt_None [OF D] None show ?thesis by (simp add: point_dist_def)
  next
    case (Some m)
    with good have len: "length m = D" by (simp add: good_mean_def)
    from Some row len
    have "map (\<lambda>d. map_option (\<lambda>m. v ! s ! p ! d - m) (vm ! p ! d)) [0..<D]
        = map (\<lambda>d. Some (v ! s ! p ! d - m ! d)) [0..<D]"
      by (simp add: point_entries_def)
    with d Some s n show ?thesis
      by (simp add: norm_opt_Some point_dist_def euclid_def point_samples_nth)
  qed
qed

lemma outlier_idx_nth:
  assumes sh: "shape3 v = (n, P, D)" and s: "s < n" and p: "p < P"
    and row: "vm ! p = point_entries D mo" and good: "good_mean D mo"
  shows "outlier_idx um ct v vm ! s ! p = point_outlier um ct D (point_samples v p) mo s"
proof -
  from sh have n: "n = length v" by (rule shape3_length)
  have dist: "sample_dists um v vm ! s' ! p = point_dist um D (point_samples v p) mo s'"
    if "s' < n" for s'
    using sample_dists_nth [OF sh that p row good] .
  have m: "map (\<lambda>s. sample_dists um v vm ! s ! p) [0..<n]
      = map (point_dist um D (point_samples v p) mo) [0..<n]"
    by (rule map_cong) (simp_all add: dist)
  have "outlier_idx um ct v vm ! s ! p
      = (sample_dists um v vm ! s ! p
          > ct * np_median (map (\<lambda>s. sample_dists um v vm ! s ! p) [0..<n]))"
    using sh s p by (simp add: outlier_idx_def Let_def)
  also have "\<dots> = point_outlier um ct D (point_samples v p) mo s"
    unfolding m dist [OF s] by (simp add: point_outlier_def length_point_samples n)
  finally show ?thesis .
qed

lemma sum_list_point_column:
  "sum_list (map (\<lambda>s. v ! s ! p ! d) [0..<length v])
     = sum_list (map (\<lambda>x. x ! d) (point_samples v p))"
proof -
  have "map (\<lambda>s. v ! s ! p ! d) [0..<length v] = map (\<lambda>x. x ! p ! d) (map (nth v) [0..<length v])"
    by simp
  then show ?thesis by (simp add: map_nth point_samples_def comp_def)
qed

lemma np_mean_axis0_nth:
  assumes sh: "shape3 v = (n, P, D)" and p: "p < P"
  shows "np_mean_axis0 v ! p = vec_mean D (point_samples v p)"
  using sh p shape3_length [OF sh] sum_list_point_column [of v p]
  by (simp add: np_mean_axis0_def vec_mean_def length_point_samples)

lemma clip_round_nth:
  assumes sh: "shape3 v = (n, P, D)" and p: "p < P"
    and row: "vm ! p = point_entries D mo" and good: "good_mean D mo"
  shows "clip_round um ct v vm ! p
      = point_entries D (point_round um ct D (point_samples v p) mo)"
proof -
  from sh have n: "n = length v" by (rule shape3_length)
  let ?xs = "point_samples v p"
  let ?out = "point_outlier um ct D ?xs mo"
  let ?keep = "filter (\<lambda>s. \<not> ?out s) [0..<n]"
  have len_idx: "length (outlier_idx um ct v vm) = n"
    and len_idx_row: "\<And>s. s < n \<Longrightarrow> length (outlier_idx um ct v vm ! s) = P"
    using sh by (simp_all add: outlier_idx_def Let_def)
  have filt: "filter (\<lambda>s. \<not> map (map (replicate D)) (outlier_idx um ct v vm) ! s ! p ! d) [0..<n]
      = ?keep" if "d < D" for d
  proof (rule filter_cong [OF refl])
    fix s assume "s \<in> set [0..<n]"
    then have s: "s < n" by simp
    with that p len_idx len_idx_row [OF s] outlier_idx_nth [OF sh s p row good, of um ct]
    show "(\<not> map (map (replicate D)) (outlier_idx um ct v vm) ! s ! p ! d) = (\<not> ?out s)"
      by simp
  qed
  have col: "map (\<lambda>s. v ! s ! p ! d) ?keep = map (\<lambda>x. x ! d) (map (\<lambda>s. ?xs ! s) ?keep)" for d
    by (simp add: n point_samples_nth)
  have "clip_round um ct v vm ! p =
      map (\<lambda>d. let kept = map (\<lambda>s. v ! s ! p ! d)
                   (filter (\<lambda>s. \<not> map (map (replicate D)) (outlier_idx um ct v vm) ! s ! p ! d)
                      [0..<n])
               in if kept = [] then None else Some (sum_list kept / real (length kept)))
        [0..<D]"
    using sh p by (simp add: clip_round_def ma_mean_axis0_def Let_def)
  also have "\<dots> =
      map (\<lambda>d. if ?keep = [] then None
               else Some (sum_list (map (\<lambda>x. x ! d) (map (\<lambda>s. ?xs ! s) ?keep))
                          / real (length ?keep))) [0..<D]"
  proof (rule map_cong [OF refl])
    fix d assume "d \<in> set [0..<D]"
    then have d: "d < D" by simp
    show "(let kept = map (\<lambda>s. v ! s ! p ! d)
                   (filter (\<lambda>s. \<not> map (map (replicate D)) (outlier_idx um ct v vm) ! s ! p ! d)
                      [0..<n])
           in if kept = [] then None else Some (sum_list kept / real (length kept)))
        = (if ?keep = [] then None
           else Some (sum_list (map (\<lambda>x. x ! d) (map (\<lambda>s. ?xs ! s) ?keep))
                      / real (length ?keep)))"
      unfolding filt [OF d] col [of d] by (simp add: Let_def)
  qed
  also have "\<dots> = point_entries D (point_round um ct D ?xs mo)"
    by (simp add: point_round_def Let_def point_entries_def vec_mean_def
        length_point_samples n [symmetric] map_replicate_const)
  finally show ?thesis .
qed

subsection \<open>The median\<close>

lemma lower_middle_less: "0 < (n::nat) \<Longrightarrow> (n - 1) div 2 < n"
  by arith

lemma np_median_nonempty:
  assumes "xs \<noteq> []"
  shows "np_median xs =
     (if even (length xs)
      then (sort xs ! (length xs div 2 - 1) + sort xs ! (length xs div 2)) / 2
      else sort xs ! (length xs div 2))"
proof -
  from assms have "length (sort xs) \<noteq> 0" by simp
  then show ?thesis unfolding np_median_def Let_def by simp
qed

lemma np_median_const:
  assumes "xs \<noteq> []" "\<forall>x\<in>set xs. x = c"
  shows "np_median xs = c"
proof -
  let ?ys = "sort xs"
  have el: "?ys ! i = c" if "i < length xs" for i
  proof -
    from that have "i < length ?ys" by simp
    then have "?ys ! i \<in> set ?ys" by (rule nth_mem)
    with assms(2) show ?thesis by simp
  qed
  from assms(1) have pos: "0 < length xs" by simp
  then have a: "length xs div 2 < length xs" and b: "length xs div 2 - 1 < length xs"
    by arith+
  from el [OF a] el [OF b] show ?thesis by (simp add: np_median_nonempty [OF assms(1)])
qed

lemma np_median_ge_lower_middle:
  assumes "xs \<noteq> []"
  shows "sort xs ! ((length xs - 1) div 2) \<le> np_median xs"
proof -
  let ?ys = "sort xs" and ?n = "length xs"
  from assms have pos: "0 < ?n" by simp
  show ?thesis
  proof (cases "even ?n")
    case True
    with pos have k: "(?n - 1) div 2 = ?n div 2 - 1" by presburger
    from pos have "?n div 2 - 1 \<le> ?n div 2" "?n div 2 < length ?ys" by simp_all
    then have "?ys ! (?n div 2 - 1) \<le> ?ys ! (?n div 2)"
      by (intro sorted_nth_mono) simp_all
    with True show ?thesis unfolding k by (simp add: np_median_nonempty [OF assms])
  next
    case False
    then have k: "(?n - 1) div 2 = ?n div 2" by presburger
    from False show ?thesis unfolding k by (simp add: np_median_nonempty [OF assms])
  qed
qed

lemma length_filter_mono:
  "(\<And>x. x \<in> set xs \<Longrightarrow> P x \<Longrightarrow> Q x) \<Longrightarrow> length (filter P xs) \<le> length (filter Q xs)"
  by (induction xs) auto

lemma count_above_sorted_nth:
  fixes ys :: "real list"
  assumes "sorted ys" "k < length ys"
  shows "length (filter (\<lambda>y. y > ys ! k) ys) \<le> length ys - Suc k"
proof -
  have le: "y \<le> ys ! k" if "y \<in> set (take (Suc k) ys)" for y
  proof -
    from that obtain i where i: "i < length (take (Suc k) ys)" "take (Suc k) ys ! i = y"
      by (auto simp: in_set_conv_nth)
    from i(1) have ik: "i \<le> k" by simp
    from i ik have y: "y = ys ! i" by simp
    from assms ik show ?thesis unfolding y by (intro sorted_nth_mono) simp_all
  qed
  have "filter (\<lambda>y. y > ys ! k) (take (Suc k) ys) = []"
    unfolding filter_empty_conv using le by (auto simp: not_less)
  moreover have "filter (\<lambda>y. y > ys ! k) ys
      = filter (\<lambda>y. y > ys ! k) (take (Suc k) ys) @ filter (\<lambda>y. y > ys ! k) (drop (Suc k) ys)"
    unfolding filter_append [symmetric] by simp
  ultimately have "length (filter (\<lambda>y. y > ys ! k) ys)
      = length (filter (\<lambda>y. y > ys ! k) (drop (Suc k) ys))"
    by simp
  also have "\<dots> \<le> length (drop (Suc k) ys)" by (rule length_filter_le)
  finally show ?thesis by simp
qed

lemma count_above_median:
  assumes "xs \<noteq> []"
  shows "length (filter (\<lambda>x. x > np_median xs) xs) \<le> length xs div 2"
proof -
  let ?ys = "sort xs" and ?n = "length xs" and ?k = "(length xs - 1) div 2"
  from assms have pos: "0 < ?n" by simp
  then have k: "?k < length ?ys" using lower_middle_less [of ?n] by simp
  have "length (filter (\<lambda>x. x > np_median xs) xs)
      = length (sort (filter (\<lambda>x. x > np_median xs) xs))"
    by simp
  also have "\<dots> = length (filter (\<lambda>x. x > np_median xs) ?ys)"
    by (simp only: filter_sort)
  also have "\<dots> \<le> length (filter (\<lambda>y. y > ?ys ! ?k) ?ys)"
  proof (rule length_filter_mono)
    fix x assume "np_median xs < x"
    with np_median_ge_lower_middle [OF assms] show "?ys ! ?k < x" by simp
  qed
  also have "\<dots> \<le> length ?ys - Suc ?k"
    using k by (intro count_above_sorted_nth) simp_all
  also have "\<dots> = ?n div 2" using pos by simp
  finally show ?thesis .
qed

lemma np_median_nonneg:
  assumes "xs \<noteq> []" "\<forall>x\<in>set xs. 0 \<le> x"
  shows "0 \<le> np_median xs"
proof -
  from assms(1) have "0 < length xs" by simp
  then have "(length xs - 1) div 2 < length (sort xs)"
    using lower_middle_less [of "length xs"] by simp
  then have "sort xs ! ((length xs - 1) div 2) \<in> set (sort xs)" by (rule nth_mem)
  with assms(2) have "0 \<le> sort xs ! ((length xs - 1) div 2)" by simp
  with np_median_ge_lower_middle [OF assms(1)] show ?thesis by simp
qed

subsection \<open>Rounds of the array and rounds of its points\<close>

lemma length_vec_mean: "length (vec_mean D xs) = D"
  by (simp add: vec_mean_def)

lemma point_round_zero_dim:
  assumes "xs \<noteq> []"
  shows "point_round um ct 0 xs (Some m) = Some []"
proof -
  have d: "point_dist um 0 xs (Some m) s = 0" for s
    by (simp add: point_dist_def euclid_def)
  have "np_median (map (point_dist um 0 xs (Some m)) [0..<length xs]) = 0"
    using assms by (intro np_median_const) (simp_all add: d)
  then have out: "\<not> point_outlier um ct 0 xs (Some m) s" for s
    by (simp add: point_outlier_def d)
  have "map (\<lambda>s. xs ! s) [0..<length xs] = xs" by (rule map_nth)
  with assms show ?thesis
    by (simp add: point_round_def Let_def out vec_mean_def)
qed

lemma point_round_good:
  assumes "good_mean D mo" "xs \<noteq> []"
  shows "good_mean D (point_round um ct D xs mo)"
proof (cases "D = 0")
  case True
  with assms(1) obtain m where "mo = Some m" by (cases mo) (auto simp: good_mean_def)
  with True point_round_zero_dim [OF assms(2), of um ct m] show ?thesis
    by (simp add: good_mean_def)
next
  case False
  then show ?thesis
    by (simp add: good_mean_def point_round_def Let_def length_vec_mean)
qed

lemma length_clip_round: "shape3 v = (n, P, D) \<Longrightarrow> length (clip_round um ct v vm) = P"
  by (simp add: clip_round_def ma_mean_axis0_def Let_def)

lemma clip_round_rel:
  assumes sh: "shape3 v = (n, P, D)" and len: "length mos = P" and rel: "rows_rel D vm mos"
  shows "rows_rel D (clip_round um ct v vm)
           (map (\<lambda>p. point_round um ct D (point_samples v p) (mos ! p)) [0..<P])"
  unfolding rows_rel_def
proof (intro conjI allI impI)
  show "length (clip_round um ct v vm)
      = length (map (\<lambda>p. point_round um ct D (point_samples v p) (mos ! p)) [0..<P])"
    using length_clip_round [OF sh] by simp
next
  fix p
  assume "p < length (map (\<lambda>p. point_round um ct D (point_samples v p) (mos ! p)) [0..<P])"
  then have p: "p < P" by simp
  from rel len p have row: "vm ! p = point_entries D (mos ! p)" and good: "good_mean D (mos ! p)"
    by (simp_all add: rows_rel_def)
  from shape3_point_nonempty [OF sh p] shape3_length [OF sh]
  have ne: "point_samples v p \<noteq> []" by (simp add: point_samples_def)
  from p clip_round_nth [OF sh p row good]
  show "clip_round um ct v vm ! p
      = point_entries D (map (\<lambda>p. point_round um ct D (point_samples v p) (mos ! p)) [0..<P] ! p)"
    by simp
  from p point_round_good [OF good ne]
  show "good_mean D (map (\<lambda>p. point_round um ct D (point_samples v p) (mos ! p)) [0..<P] ! p)"
    by simp
qed

lemma clip_rounds_rel:
  assumes sh: "shape3 v = (n, P, D)"
  shows "length mos = P \<Longrightarrow> rows_rel D (entries A) mos \<Longrightarrow>
     entries (clip_rounds um ct v k A)
       = map (\<lambda>p. point_entries D
                  ((point_round um ct D (point_samples v p) ^^ k) (mos ! p))) [0..<P]"
proof (induction k arbitrary: A mos)
  case 0
  then show ?case
    by (intro nth_equalityI) (simp_all add: rows_rel_def)
next
  case (Suc k)
  let ?mos = "map (\<lambda>p. point_round um ct D (point_samples v p) (mos ! p)) [0..<P]"
  have rel: "rows_rel D (entries (MaskedArray (clip_round um ct v (entries A)))) ?mos"
    using clip_round_rel [OF sh Suc.prems] by simp
  have "entries (clip_rounds um ct v (Suc k) A)
      = map (\<lambda>p. point_entries D
                  ((point_round um ct D (point_samples v p) ^^ k) (?mos ! p))) [0..<P]"
    using Suc.IH [OF _ rel] by simp
  also have "\<dots> = map (\<lambda>p. point_entries D
                  ((point_round um ct D (point_samples v p) ^^ Suc k) (mos ! p))) [0..<P]"
    by (rule map_cong) (simp_all add: funpow_swap1)
  finally show ?case .
qed

lemma initial_rel:
  assumes sh: "shape3 v = (n, P, D)"
  shows "rows_rel D (entries (NDArray (np_mean_axis0 v)))
           (map (\<lambda>p. Some (vec_mean D (point_samples v p))) [0..<P])"
  unfolding rows_rel_def
proof (intro conjI allI impI)
  show "length (entries (NDArray (np_mean_axis0 v)))
      = length (map (\<lambda>p. Some (vec_mean D (point_samples v p))) [0..<P])"
    using sh by (simp add: np_mean_axis0_def)
next
  fix p
  assume "p < length (map (\<lambda>p. Some (vec_mean D (point_samples v p))) [0..<P])"
  then have p: "p < P" by simp
  then have pl: "p < length (np_mean_axis0 v)" using sh by (simp add: np_mean_axis0_def)
  from p pl np_mean_axis0_nth [OF sh p]
  show "entries (NDArray (np_mean_axis0 v)) ! p
      = point_entries D (map (\<lambda>p. Some (vec_mean D (point_samples v p))) [0..<P] ! p)"
    by (simp add: point_entries_def)
  from p show "good_mean D (map (\<lambda>p. Some (vec_mean D (point_samples v p))) [0..<P] ! p)"
    by (simp add: good_mean_def length_vec_mean)
qed

lemma means_after_pointwise:
  assumes sh: "shape3 v = (n, P, D)"
  shows "means_after um ct v k
       = map (\<lambda>p. point_entries D
                  ((point_round um ct D (point_samples v p) ^^ k)
                     (Some (vec_mean D (point_samples v p))))) [0..<P]"
proof -
  let ?mos = "map (\<lambda>p. Some (vec_mean D (point_samples v p))) [0..<P]"
  have "means_after um ct v k
      = map (\<lambda>p. point_entries D
                  ((point_round um ct D (point_samples v p) ^^ k) (?mos ! p))) [0..<P]"
    unfolding means_after_def
    by (rule clip_rounds_rel [OF sh _ initial_rel [OF sh]]) simp
  also have "\<dots> = map (\<lambda>p. point_entries D
                  ((point_round um ct D (point_samples v p) ^^ k)
                     (Some (vec_mean D (point_samples v p))))) [0..<P]"
    by (rule map_cong) simp_all
  finally show ?thesis .
qed

text \<open>
  Claim C1. clipped_vector_mean runs exactly \<open>rounds\<close> rounds from the plain mean, and
  the array it returns holds, for every point, the result of iterating the round of the
  point \<open>rounds\<close> times: the Euclidean distance of every sample vector of the point from
  the current mean of the point, the outliers being the samples whose distance is
  strictly larger than \<open>clip_threshold\<close> times the median distance of the point, all
  coordinates of an outlier left out together, and the new mean taken over the other
  samples only.
\<close>

theorem clipped_vector_mean_rounds:
  "entries (clipped_vector_mean um v_samp clip_threshold rounds)
     = map (point_entries (snd (snd (shape3 v_samp))))
         (clipped_point_means um v_samp clip_threshold (nat rounds))"
proof -
  obtain n P D where sh: "shape3 v_samp = (n, P, D)" by (cases "shape3 v_samp") auto
  have "entries (clipped_vector_mean um v_samp clip_threshold rounds)
      = means_after um clip_threshold v_samp (nat rounds)"
    by (simp add: clipped_vector_mean_def means_after_def)
  with means_after_pointwise [OF sh, of um clip_threshold "nat rounds"] sh
  show ?thesis by (simp add: clipped_point_means_def comp_def)
qed

subsection \<open>No point loses all its samples\<close>

lemma euclid_nonneg: "0 \<le> euclid D x m"
  unfolding euclid_def by (intro real_sqrt_ge_zero sum_list_nonneg) auto

lemma point_outlier_count:
  assumes ct: "1 \<le> ct" and ne: "xs \<noteq> []"
  shows "length (filter (point_outlier um ct D xs (Some m)) [0..<length xs]) \<le> length xs div 2"
proof -
  let ?f = "point_dist um D xs (Some m)"
  let ?L = "map ?f [0..<length xs]"
  have nonneg: "0 \<le> ?f s" for s by (simp add: point_dist_def euclid_nonneg)
  from ne have Lne: "?L \<noteq> []" by simp
  have med: "0 \<le> np_median ?L"
    by (rule np_median_nonneg [OF Lne]) (auto simp: nonneg)
  with ct have le: "np_median ?L \<le> ct * np_median ?L"
    by (simp add: mult_le_cancel_right1)
  have "length (filter (point_outlier um ct D xs (Some m)) [0..<length xs])
      \<le> length (filter (\<lambda>s. ?f s > np_median ?L) [0..<length xs])"
    by (rule length_filter_mono) (use le in \<open>simp add: point_outlier_def\<close>)
  also have "\<dots> = length (filter (\<lambda>x. x > np_median ?L) ?L)"
    by (simp add: filter_map comp_def)
  also have "\<dots> \<le> length ?L div 2" by (rule count_above_median [OF Lne])
  finally show ?thesis by simp
qed

lemma point_round_Some:
  assumes ct: "1 \<le> ct" and ne: "xs \<noteq> []"
  shows "\<exists>m'. point_round um ct D xs (Some m) = Some m' \<and> length m' = D"
proof -
  let ?P = "point_outlier um ct D xs (Some m)"
  have "length (filter ?P [0..<length xs]) + length (filter (\<lambda>s. \<not> ?P s) [0..<length xs])
      = length xs"
    using sum_length_filter_compl [of ?P "[0..<length xs]"] by simp
  moreover from ne have "length xs div 2 < length xs" by simp
  ultimately have "0 < length (filter (\<lambda>s. \<not> ?P s) [0..<length xs])"
    using point_outlier_count [OF ct ne, where um = um and D = D and m = m] by linarith
  then have "filter (\<lambda>s. \<not> ?P s) [0..<length xs] \<noteq> []" by auto
  then show ?thesis by (simp add: point_round_def Let_def length_vec_mean)
qed

lemma point_rounds_Some:
  assumes ct: "1 \<le> ct" and ne: "xs \<noteq> []" and len: "length m = D"
  shows "\<exists>m'. (point_round um ct D xs ^^ k) (Some m) = Some m' \<and> length m' = D"
proof (induction k)
  case 0
  with len show ?case by simp
next
  case (Suc k)
  then obtain m' where "(point_round um ct D xs ^^ k) (Some m) = Some m'" by auto
  with point_round_Some [OF ct ne, where um = um and D = D and m = m'] show ?case by simp
qed

lemma means_after_defined:
  assumes sh: "shape3 v = (n, P, D)" and ct: "1 \<le> ct" and p: "p < P"
  obtains m where
    "(point_round um ct D (point_samples v p) ^^ k) (Some (vec_mean D (point_samples v p)))
       = Some m"
    "length m = D" "means_after um ct v k ! p = map Some m"
proof -
  from shape3_point_nonempty [OF sh p] shape3_length [OF sh]
  have ne: "point_samples v p \<noteq> []" by (simp add: point_samples_def)
  from point_rounds_Some [OF ct ne length_vec_mean, where um = um and k = k]
  obtain m where m: "(point_round um ct D (point_samples v p) ^^ k)
      (Some (vec_mean D (point_samples v p))) = Some m" "length m = D"
    by auto
  with p have "means_after um ct v k ! p = map Some m"
    by (simp add: means_after_pointwise [OF sh] point_entries_def)
  with m that show ?thesis by blast
qed

lemma outlier_count_round:
  assumes sh: "shape3 v = (n, P, D)" and ct: "1 \<le> ct" and p: "p < P"
  shows "length (filter (\<lambda>s. outlier_idx um ct v (means_after um ct v k) ! s ! p) [0..<n])
           \<le> n div 2"
proof -
  from sh have n: "n = length v" by (rule shape3_length)
  from shape3_point_nonempty [OF sh p] n
  have ne: "point_samples v p \<noteq> []" by (simp add: point_samples_def)
  obtain m where m: "length m = D" "means_after um ct v k ! p = map Some m"
    by (rule means_after_defined [OF sh ct p, where um = um and k = k])
  have row: "means_after um ct v k ! p = point_entries D (Some m)"
    and good: "good_mean D (Some m)"
    using m by (simp_all add: point_entries_def good_mean_def)
  have "filter (\<lambda>s. outlier_idx um ct v (means_after um ct v k) ! s ! p) [0..<n]
      = filter (point_outlier um ct D (point_samples v p) (Some m)) [0..<n]"
    by (rule filter_cong [OF refl]) (simp add: outlier_idx_nth [OF sh _ p row good])
  with point_outlier_count [OF ct ne, where um = um and D = D and m = m] show ?thesis
    by (simp add: length_point_samples n)
qed

lemma length_means_after: "shape3 v = (n, P, D) \<Longrightarrow> length (means_after um ct v k) = P"
  by (simp add: means_after_pointwise)

text \<open>
  Claim C10. With at least one sample and \<open>clip_threshold \<ge> 1\<close>, in every round and at
  every point at most \<open>n_samp div 2\<close> samples are marked as outliers, so a sample remains;
  the mean after every round has the shape \<open>(n_point, n_dim)\<close> and no masked entry, and
  so has the array returned.
\<close>

theorem clip_keeps_majority:
  assumes ct: "1 \<le> clip_threshold" and ne: "v_samp \<noteq> []"
  shows "case shape3 v_samp of (n_samp, n_point, n_dim) \<Rightarrow>
     (\<forall>k p. p < n_point \<longrightarrow>
        length (filter (\<lambda>s. outlier_idx um clip_threshold v_samp
                              (means_after um clip_threshold v_samp k) ! s ! p) [0..<n_samp])
          \<le> n_samp div 2 \<and>
        (\<exists>s<n_samp. \<not> outlier_idx um clip_threshold v_samp
                         (means_after um clip_threshold v_samp k) ! s ! p)) \<and>
     (\<forall>k. length (means_after um clip_threshold v_samp k) = n_point \<and>
          (\<forall>p<n_point. length (means_after um clip_threshold v_samp k ! p) = n_dim \<and>
                       None \<notin> set (means_after um clip_threshold v_samp k ! p))) \<and>
     entries (clipped_vector_mean um v_samp clip_threshold rounds)
       = means_after um clip_threshold v_samp (nat rounds)"
proof -
  obtain n P D where sh: "shape3 v_samp = (n, P, D)" by (cases "shape3 v_samp") auto
  from shape3_length [OF sh] ne have npos: "0 < n" by simp
  have a: "length (filter (\<lambda>s. outlier_idx um clip_threshold v_samp
                              (means_after um clip_threshold v_samp k) ! s ! p) [0..<n])
          \<le> n div 2" if "p < P" for k p
    by (rule outlier_count_round [OF sh ct that])
  have b: "\<exists>s<n. \<not> outlier_idx um clip_threshold v_samp
                         (means_after um clip_threshold v_samp k) ! s ! p" if "p < P" for k p
  proof (rule ccontr)
    assume "\<not> ?thesis"
    then have "filter (\<lambda>s. outlier_idx um clip_threshold v_samp
                              (means_after um clip_threshold v_samp k) ! s ! p) [0..<n] = [0..<n]"
      by (intro filter_True) auto
    with a [OF that, of k] have "n \<le> n div 2" by simp
    with npos show False by simp
  qed
  have c: "length (means_after um clip_threshold v_samp k ! p) = D \<and>
           None \<notin> set (means_after um clip_threshold v_samp k ! p)" if p: "p < P" for k p
  proof -
    obtain m where "length m = D" "means_after um clip_threshold v_samp k ! p = map Some m"
      by (rule means_after_defined [OF sh ct p, where um = um and k = k])
    then show ?thesis by auto
  qed
  have d: "entries (clipped_vector_mean um v_samp clip_threshold rounds)
       = means_after um clip_threshold v_samp (nat rounds)"
    by (simp add: clipped_vector_mean_def means_after_def)
  from a b c d length_means_after [OF sh, where um = um and ct = clip_threshold] show ?thesis
    unfolding sh by simp
qed

subsection \<open>A concrete run\<close>

lemma sqrt_16: "sqrt 16 = 4"
  using real_sqrt_abs [of 4] by simp

lemma sqrt_25: "sqrt 25 = 5"
  using real_sqrt_abs [of 5] by simp

lemma example_shape: "shape3 example_samples = (5, 1, 1)"
  by (simp add: shape3_def example_samples_def)

lemma example_mean: "np_mean_axis0 example_samples = [[2]]"
  by (simp add: np_mean_axis0_def example_shape upt_conv_Cons) (simp add: example_samples_def)

lemma example_dists_0:
  "sample_dists um example_samples [[Some 2]] = [[1], [1], [1], [1], [4]]"
  by (simp add: sample_dists_def norm_axis2_def sub_mean_def example_shape upt_conv_Cons
      norm_opt_def) (simp add: example_samples_def sqrt_16)

lemma example_idx_0:
  "outlier_idx um 2 example_samples [[Some 2]] = [[False], [False], [False], [False], [True]]"
  by (simp add: outlier_idx_def example_dists_0 example_shape upt_conv_Cons np_median_def Let_def)

lemma example_round_0: "clip_round um 2 example_samples [[Some 2]] = [[Some 1]]"
  by (simp add: clip_round_def example_idx_0 example_shape ma_mean_axis0_def upt_conv_Cons Let_def)
     (simp add: example_samples_def)

lemma example_dists_1:
  "sample_dists um example_samples [[Some 1]] = [[0], [0], [0], [0], [5]]"
  by (simp add: sample_dists_def norm_axis2_def sub_mean_def example_shape upt_conv_Cons
      norm_opt_def) (simp add: example_samples_def sqrt_25)

lemma example_idx_1:
  "outlier_idx um 2 example_samples [[Some 1]] = [[False], [False], [False], [False], [True]]"
  by (simp add: outlier_idx_def example_dists_1 example_shape upt_conv_Cons np_median_def Let_def)

lemma example_round_1: "clip_round um 2 example_samples [[Some 1]] = [[Some 1]]"
  by (simp add: clip_round_def example_idx_1 example_shape ma_mean_axis0_def upt_conv_Cons Let_def)
     (simp add: example_samples_def)

lemma example_means_after_1: "means_after um 2 example_samples 1 = [[Some 1]]"
  by (simp add: means_after_def example_mean example_round_0)

lemma example_clipped: "clipped_vector_mean um example_samples 2 2 = MaskedArray [[Some 1]]"
  by (simp add: clipped_vector_mean_def example_mean example_round_0 example_round_1
      eval_nat_numeral)

text \<open>
  The run of claim C10 on the concrete array: in the second round the far sample is the
  only outlier, and two rounds return the mean of the four others.
\<close>

theorem clip_keeps_majority_witness:
  "(1::real) \<le> 2 \<and> example_samples \<noteq> [] \<and>
   length (filter (\<lambda>s. outlier_idx no_under_mask 2 example_samples
                          (means_after no_under_mask 2 example_samples 1) ! s ! 0) [0..<5])
     \<le> 5 div 2 \<and>
   outlier_idx no_under_mask 2 example_samples (means_after no_under_mask 2 example_samples 1)
     = [[False], [False], [False], [False], [True]] \<and>
   entries (clipped_vector_mean no_under_mask example_samples 2 2) = [[Some 1]]"
proof -
  have h1: "(1::real) \<le> 2" by simp
  have h2: "example_samples \<noteq> []" by (simp add: example_samples_def)
  from clip_keeps_majority [OF h1 h2, where um = no_under_mask and rounds = 2]
  have "\<forall>k p. p < 1 \<longrightarrow>
      length (filter (\<lambda>s. outlier_idx no_under_mask 2 example_samples
                          (means_after no_under_mask 2 example_samples k) ! s ! p) [0..<5])
        \<le> 5 div 2"
    by (simp add: example_shape)
  then have c: "length (filter (\<lambda>s. outlier_idx no_under_mask 2 example_samples
                          (means_after no_under_mask 2 example_samples 1) ! s ! 0) [0..<5])
        \<le> 5 div 2"
    by blast
  have d: "outlier_idx no_under_mask 2 example_samples
      (means_after no_under_mask 2 example_samples 1)
     = [[False], [False], [False], [False], [True]]"
    by (simp only: example_means_after_1 example_idx_1)
  have e: "entries (clipped_vector_mean no_under_mask example_samples 2 2) = [[Some 1]]"
    by (simp add: example_clipped)
  from h1 h2 c d e show ?thesis by blast
qed

section \<open>Properties of clipped_vector_mean in the arithmetic of the arrays\<close>

subsection \<open>A round without an outlier\<close>

lemma clip_rounds_ar_Suc_end:
  "clip_rounds_ar ar_in ar_ma um ct v (Suc k) A
     = MaskedArray (clip_round_ar (dist_arith ar_in ar_ma (clip_rounds_ar ar_in ar_ma um ct v k A))
         ar_in ar_ma um ct v (entries (clip_rounds_ar ar_in ar_ma um ct v k A)))"
proof (induction k arbitrary: A)
  case 0
  show ?case by simp
next
  case (Suc k)
  let ?B = "MaskedArray (clip_round_ar (dist_arith ar_in ar_ma A) ar_in ar_ma um ct v (entries A))"
  have "clip_rounds_ar ar_in ar_ma um ct v (Suc (Suc k)) A
      = clip_rounds_ar ar_in ar_ma um ct v (Suc k) ?B"
    by (simp only: clip_rounds_ar.simps)
  also have "\<dots> = MaskedArray (clip_round_ar
        (dist_arith ar_in ar_ma (clip_rounds_ar ar_in ar_ma um ct v k ?B))
        ar_in ar_ma um ct v (entries (clip_rounds_ar ar_in ar_ma um ct v k ?B)))"
    by (rule Suc.IH)
  also have "clip_rounds_ar ar_in ar_ma um ct v k ?B = clip_rounds_ar ar_in ar_ma um ct v (Suc k) A"
    by (simp only: clip_rounds_ar.simps)
  finally show ?case .
qed

lemma mean_array_after_0:
  "mean_array_after ar_in ar_ma um ct v 0 = NDArray (np_mean_axis0_ar ar_in v)"
  by (simp add: mean_array_after_def)

lemma mean_array_after_Suc:
  "mean_array_after ar_in ar_ma um ct v (Suc k)
     = MaskedArray (clip_round_ar (dist_arith ar_in ar_ma (mean_array_after ar_in ar_ma um ct v k))
         ar_in ar_ma um ct v (entries (mean_array_after ar_in ar_ma um ct v k)))"
  unfolding mean_array_after_def by (rule clip_rounds_ar_Suc_end)

lemma clip_round_ar_no_outlier:
  assumes sh: "shape3 v = (n, P, D)"
    and no: "\<forall>s<n. \<forall>p<P. \<not> outlier_idx_ar ar um ct v vm ! s ! p"
  shows "clip_round_ar ar ar_in ar_ma um ct v vm = ma_mean_all ar_in ar_ma v"
proof -
  have len_idx: "length (outlier_idx_ar ar um ct v vm) = n"
    and len_row: "\<And>s. s < n \<Longrightarrow> length (outlier_idx_ar ar um ct v vm ! s) = P"
    using sh by (simp_all add: outlier_idx_ar_def Let_def)
  have keep: "filter (\<lambda>s. \<not> map (map (replicate D)) (outlier_idx_ar ar um ct v vm) ! s ! p ! d)
        [0..<n] = [0..<n]" if "p < P" "d < D" for p d
    using that no len_idx len_row by (intro filter_True) simp
  have entry: "(let kept = map (\<lambda>s. v ! s ! p ! d)
                  (filter (\<lambda>s. \<not> map (map (replicate D)) (outlier_idx_ar ar um ct v vm) ! s ! p ! d)
                     [0..<n])
           in if kept = [] then None
              else Some (ar_div ar_ma (sum_ar ar_in kept) (real (length kept))))
      = Some (ar_div ar_ma (sum_ar ar_in (map (\<lambda>s. v ! s ! p ! d) [0..<n])) (real n))"
    if p: "p < P" and d: "d < D" for p d
    using shape3_point_nonempty [OF sh p] by (simp add: keep [OF p d] Let_def)
  show ?thesis
    unfolding clip_round_ar_def ma_mean_axis0_ar_def ma_mean_all_def sh prod.case
      Let_def [of "outlier_idx_ar ar um ct v vm"]
      Let_def [of "map (map (replicate D)) (outlier_idx_ar ar um ct v vm)"]
    by (intro map_cong refl) (simp add: entry)
qed

lemma ma_mean_all_same_arith:
  "ma_mean_all ar ar v = entries (NDArray (np_mean_axis0_ar ar v))"
  by (cases "shape3 v") (simp add: ma_mean_all_def np_mean_axis0_ar_def comp_def)

lemma clipped_without_outliers:
  assumes sh: "shape3 v = (n, P, D)"
    and no: "\<forall>k<nat rounds. \<forall>s<n. \<forall>p<P. \<not> outliers_in_round ar_in ar_ma um ct v k ! s ! p"
  shows "entries (clipped_vector_mean_ar ar_in ar_ma um v ct rounds)
     = (if rounds \<le> 0 then entries (NDArray (np_mean_axis0_ar ar_in v))
        else ma_mean_all ar_in ar_ma v)"
proof (cases "nat rounds")
  case 0
  then have "rounds \<le> 0" by simp
  with 0 show ?thesis by (simp add: clipped_vector_mean_ar_def)
next
  case (Suc j)
  then have pos: "\<not> rounds \<le> 0" by simp
  from no Suc have "\<forall>s<n. \<forall>p<P. \<not> outliers_in_round ar_in ar_ma um ct v j ! s ! p" by simp
  then have "clip_round_ar (dist_arith ar_in ar_ma (mean_array_after ar_in ar_ma um ct v j))
         ar_in ar_ma um ct v (entries (mean_array_after ar_in ar_ma um ct v j))
      = ma_mean_all ar_in ar_ma v"
    unfolding outliers_in_round_def by (rule clip_round_ar_no_outlier [OF sh])
  then have "entries (mean_array_after ar_in ar_ma um ct v (Suc j)) = ma_mean_all ar_in ar_ma v"
    unfolding mean_array_after_Suc by simp
  with pos Suc show ?thesis
    by (simp add: clipped_vector_mean_ar_def mean_array_after_def)
qed

subsection \<open>Identical samples\<close>

lemma foldl_add_nonneg:
  assumes ok: "arith_ok ar"
  shows "0 \<le> a \<Longrightarrow> \<forall>x\<in>set xs. 0 \<le> x \<Longrightarrow> 0 \<le> foldl (ar_add ar) a xs"
proof (induction xs arbitrary: a)
  case Nil
  then show ?case by simp
next
  case (Cons x xs)
  from ok Cons.prems have "0 \<le> ar_add ar a x" by (simp add: arith_ok_def)
  with Cons.IH [of "ar_add ar a x"] Cons.prems show ?case by simp
qed

lemma sum_ar_nonneg:
  assumes "arith_ok ar" "\<forall>x\<in>set xs. 0 \<le> x"
  shows "0 \<le> sum_ar ar xs"
  using assms foldl_add_nonneg [OF assms(1)] by (cases xs) simp_all

lemma np_median_ar_replicate:
  assumes ok: "arith_ok ar" and n: "0 < n" and x: "0 \<le> x"
  shows "np_median_ar ar (replicate n (ar_sqrt ar x)) = ar_sqrt ar x"
proof -
  let ?c = "ar_sqrt ar x"
  have srt: "sort (replicate n ?c) = replicate n ?c"
    by (rule sorted_sort_id) simp
  have i1: "n div 2 < n" using n by simp
  then have i0: "n div 2 - 1 < n" by simp
  from ok x have half: "ar_div ar (ar_add ar ?c ?c) 2 = ?c" by (simp add: arith_ok_def)
  from n have "np_median_ar ar (replicate n ?c)
      = (if even n then ar_div ar (ar_add ar (replicate n ?c ! (n div 2 - 1))
                                             (replicate n ?c ! (n div 2))) 2
         else replicate n ?c ! (n div 2))"
    unfolding np_median_ar_def srt Let_def by simp
  also have "\<dots> = ?c"
    unfolding nth_replicate [OF i0] nth_replicate [OF i1] half by simp
  finally show ?thesis .
qed

lemma norm_opt_ar_Some:
  "norm_opt_ar ar (map (\<lambda>d. Some (f d)) [0..<D])
     = Some (ar_sqrt ar (sum_ar ar (map (\<lambda>d. ar_mul ar (f d) (f d)) [0..<D])))"
  by (simp add: norm_opt_ar_def list_all_iff comp_def)

lemma identical_dists:
  assumes sh: "shape3 v = (n, P, D)"
    and same: "\<forall>s<n. \<forall>p<P. \<forall>d<D. v ! s ! p ! d = v ! 0 ! p ! d"
    and some: "\<forall>p<P. \<forall>d<D. vm ! p ! d \<noteq> None"
    and s: "s < n" and p: "p < P"
  shows "sample_dists_ar ar um v vm ! s ! p
     = ar_sqrt ar (sum_ar ar (map (\<lambda>d. ar_mul ar (ar_sub ar (v ! 0 ! p ! d) (the (vm ! p ! d)))
                                               (ar_sub ar (v ! 0 ! p ! d) (the (vm ! p ! d))))
                             [0..<D]))"
proof -
  have "sub_mean_ar ar v vm ! s ! p
      = map (\<lambda>d. map_option (\<lambda>m. ar_sub ar (v ! s ! p ! d) m) (vm ! p ! d)) [0..<D]"
    using s p by (simp add: sub_mean_ar_def sh)
  also have "\<dots> = map (\<lambda>d. Some (ar_sub ar (v ! 0 ! p ! d) (the (vm ! p ! d)))) [0..<D]"
  proof (rule map_cong [OF refl])
    fix d assume "d \<in> set [0..<D]"
    then have d: "d < D" by simp
    from same s p d have "v ! s ! p ! d = v ! 0 ! p ! d" by blast
    moreover from some p d obtain m where "vm ! p ! d = Some m" by blast
    ultimately show "map_option (\<lambda>m. ar_sub ar (v ! s ! p ! d) m) (vm ! p ! d)
        = Some (ar_sub ar (v ! 0 ! p ! d) (the (vm ! p ! d)))"
      by simp
  qed
  finally have sub: "sub_mean_ar ar v vm ! s ! p
      = map (\<lambda>d. Some (ar_sub ar (v ! 0 ! p ! d) (the (vm ! p ! d)))) [0..<D]" .
  have "sample_dists_ar ar um v vm ! s ! p
      = (case norm_opt_ar ar (sub_mean_ar ar v vm ! s ! p) of
           Some r \<Rightarrow> r | None \<Rightarrow> um (point_samples v p) s)"
    using s p by (simp add: sample_dists_ar_def sh cong: option.case_cong)
  then show ?thesis unfolding sub norm_opt_ar_Some by simp
qed

lemma identical_no_outlier_ar:
  assumes sh: "shape3 v = (n, P, D)"
    and same: "\<forall>s<n. \<forall>p<P. \<forall>d<D. v ! s ! p ! d = v ! 0 ! p ! d"
    and some: "\<forall>p<P. \<forall>d<D. vm ! p ! d \<noteq> None"
    and ok: "arith_ok ar" and ct: "1 \<le> ct"
    and s: "s < n" and p: "p < P"
  shows "\<not> outlier_idx_ar ar um ct v vm ! s ! p"
proof -
  let ?X = "sum_ar ar (map (\<lambda>d. ar_mul ar (ar_sub ar (v ! 0 ! p ! d) (the (vm ! p ! d)))
                                           (ar_sub ar (v ! 0 ! p ! d) (the (vm ! p ! d))))
                         [0..<D])"
  let ?dv = "sample_dists_ar ar um v vm"
  from ok have X: "0 \<le> ?X" by (intro sum_ar_nonneg) (auto simp: arith_ok_def)
  have dv: "?dv ! s' ! p = ar_sqrt ar ?X" if "s' < n" for s'
    by (rule identical_dists [OF sh same some that p])
  have "map (\<lambda>s. ?dv ! s ! p) [0..<n] = replicate n (ar_sqrt ar ?X)"
    by (intro nth_equalityI) (simp_all add: dv)
  then have med: "np_median_ar ar (map (\<lambda>s. ?dv ! s ! p) [0..<n]) = ar_sqrt ar ?X"
    using np_median_ar_replicate [OF ok _ X, of n] s by simp
  have "outlier_idx_ar ar um ct v vm ! s ! p
      = (?dv ! s ! p > ar_mul ar ct (np_median_ar ar (map (\<lambda>s. ?dv ! s ! p) [0..<n])))"
    using s p by (simp add: outlier_idx_ar_def sh Let_def)
  also have "\<dots> = (ar_sqrt ar ?X > ar_mul ar ct (ar_sqrt ar ?X))"
    unfolding med dv [OF s] ..
  also from ok ct X have "\<dots> = False" by (simp add: arith_ok_def not_less)
  finally show ?thesis by simp
qed

lemma dist_arith_ok:
  "arith_ok ar_in \<Longrightarrow> arith_ok ar_ma \<Longrightarrow> arith_ok (dist_arith ar_in ar_ma A)"
  by (cases A) simp_all

lemma entries_np_mean_Some:
  assumes sh: "shape3 v = (n, P, D)" and p: "p < P" and d: "d < D"
  shows "entries (NDArray (np_mean_axis0_ar ar v)) ! p ! d \<noteq> None"
  using p d by (simp add: np_mean_axis0_ar_def sh)

lemma ma_mean_all_Some:
  assumes sh: "shape3 v = (n, P, D)" and p: "p < P" and d: "d < D"
  shows "ma_mean_all ar_in ar_ma v ! p ! d \<noteq> None"
  using p d by (simp add: ma_mean_all_def sh)

lemma identical_never_clipped:
  assumes sh: "shape3 v = (n, P, D)"
    and same: "\<forall>s<n. \<forall>p<P. \<forall>d<D. v ! s ! p ! d = v ! 0 ! p ! d"
    and ok: "arith_ok ar_in" "arith_ok ar_ma" and ct: "1 \<le> ct"
  shows "\<forall>s<n. \<forall>p<P. \<not> outliers_in_round ar_in ar_ma um ct v k ! s ! p"
proof -
  let ?A = "mean_array_after ar_in ar_ma um ct v"
  have step: "\<forall>s<n. \<forall>p<P. \<not> outliers_in_round ar_in ar_ma um ct v k ! s ! p"
    if some: "\<forall>p<P. \<forall>d<D. entries (?A k) ! p ! d \<noteq> None" for k
    unfolding outliers_in_round_def
    using identical_no_outlier_ar [OF sh same some dist_arith_ok [OF ok] ct] by blast
  have "\<forall>p<P. \<forall>d<D. entries (?A k) ! p ! d \<noteq> None"
  proof (induction k)
    case 0
    show ?case unfolding mean_array_after_0 using entries_np_mean_Some [OF sh] by blast
  next
    case (Suc k)
    from step [OF Suc] have "clip_round_ar (dist_arith ar_in ar_ma (?A k))
         ar_in ar_ma um ct v (entries (?A k)) = ma_mean_all ar_in ar_ma v"
      unfolding outliers_in_round_def by (rule clip_round_ar_no_outlier [OF sh])
    then have "entries (?A (Suc k)) = ma_mean_all ar_in ar_ma v"
      unfolding mean_array_after_Suc by simp
    then show ?case using ma_mean_all_Some [OF sh] by simp
  qed
  then show ?thesis by (rule step)
qed

subsection \<open>In exact arithmetic\<close>

lemma exact_arith_ops:
  "ar_add exact_arith = (+)" "ar_sub exact_arith = (-)" "ar_mul exact_arith = (*)"
  "ar_div exact_arith = (/)" "ar_sqrt exact_arith = sqrt"
  by (simp_all add: exact_arith_def)

lemma foldl_add_sum_list: "foldl (+) a xs = a + sum_list xs" for a :: real
  by (induction xs arbitrary: a) simp_all

lemma sum_ar_exact: "sum_ar exact_arith xs = sum_list xs"
  by (cases xs) (simp_all add: exact_arith_ops foldl_add_sum_list)

lemma np_mean_axis0_ar_exact: "np_mean_axis0_ar exact_arith v = np_mean_axis0 v"
  by (simp add: np_mean_axis0_ar_def np_mean_axis0_def sum_ar_exact exact_arith_ops)

lemma np_median_ar_exact: "np_median_ar exact_arith xs = np_median xs"
  by (simp add: np_median_ar_def np_median_def exact_arith_ops Let_def)

lemma sub_mean_ar_exact: "sub_mean_ar exact_arith v vm = sub_mean v vm"
  by (simp add: sub_mean_ar_def sub_mean_def exact_arith_ops)

lemma norm_opt_ar_exact: "norm_opt_ar exact_arith x = norm_opt x"
  by (simp add: norm_opt_ar_def norm_opt_def sum_ar_exact exact_arith_ops power2_eq_square)

lemma sample_dists_ar_exact: "sample_dists_ar exact_arith um v vm = sample_dists um v vm"
  by (simp add: sample_dists_ar_def sample_dists_def norm_axis2_def sub_mean_ar_exact
      norm_opt_ar_exact)

lemma outlier_idx_ar_exact: "outlier_idx_ar exact_arith um ct v vm = outlier_idx um ct v vm"
  by (simp add: outlier_idx_ar_def outlier_idx_def sample_dists_ar_exact np_median_ar_exact
      exact_arith_ops Let_def)

lemma ma_mean_axis0_ar_exact: "ma_mean_axis0_ar exact_arith exact_arith v m = ma_mean_axis0 v m"
  by (cases "shape3 v")
     (simp add: ma_mean_axis0_ar_def ma_mean_axis0_def sum_ar_exact exact_arith_ops Let_def
        cong: if_cong)

lemma clip_round_ar_exact:
  "clip_round_ar exact_arith exact_arith exact_arith um ct v vm = clip_round um ct v vm"
  by (simp add: clip_round_ar_def clip_round_def outlier_idx_ar_exact ma_mean_axis0_ar_exact
      Let_def)

lemma dist_arith_same: "dist_arith ar ar A = ar"
  by (cases A) simp_all

lemma clip_rounds_ar_exact:
  "clip_rounds_ar exact_arith exact_arith um ct v k A = clip_rounds um ct v k A"
  by (induction k arbitrary: A) (simp_all add: dist_arith_same clip_round_ar_exact)

text \<open>
  In exact arithmetic the function with the arithmetic as a parameter is the function
  over the reals.
\<close>

lemma clipped_vector_mean_ar_exact:
  "clipped_vector_mean_ar exact_arith exact_arith um v ct rounds = clipped_vector_mean um v ct rounds"
  by (simp add: clipped_vector_mean_ar_def clipped_vector_mean_def clip_rounds_ar_exact
      np_mean_axis0_ar_exact)

section \<open>Properties of the floating-point arithmetic\<close>

subsection \<open>Rounding to the nearest integer\<close>

lemma rhe_int: "round_half_even (of_int n) = n"
  by (simp add: round_half_even_def)

lemma rhe_floor: "\<lfloor>y\<rfloor> \<le> round_half_even y"
  by (simp add: round_half_even_def Let_def)

lemma rhe_ceil: "round_half_even y \<le> \<lfloor>y\<rfloor> + 1"
  by (simp add: round_half_even_def Let_def)

lemma rhe_mono:
  assumes "a \<le> b"
  shows "round_half_even a \<le> round_half_even b"
proof (cases "\<lfloor>a\<rfloor> = \<lfloor>b\<rfloor>")
  case True
  with assms show ?thesis
    by (auto simp: round_half_even_def Let_def)
next
  case False
  with assms have "\<lfloor>a\<rfloor> < \<lfloor>b\<rfloor>" using floor_mono [OF assms] by linarith
  with rhe_ceil [of a] rhe_floor [of b] show ?thesis by linarith
qed

lemma rhe_ge: "of_int n \<le> a \<Longrightarrow> n \<le> round_half_even a"
  using rhe_mono [of "of_int n" a] by (simp add: rhe_int)

lemma rhe_le: "a \<le> of_int n \<Longrightarrow> round_half_even a \<le> n"
  using rhe_mono [of a "of_int n"] by (simp add: rhe_int)

subsection \<open>Rounding to a precision\<close>

text \<open>The exponent of a positive number and the bounds of its scaled value.\<close>

lemma round_nearest_pos:
  assumes "0 < x"
  shows "round_nearest p x
     = 2 powr (of_int \<lfloor>log 2 x\<rfloor> - real (p - 1))
       * of_int (round_half_even (x / 2 powr (of_int \<lfloor>log 2 x\<rfloor> - real (p - 1))))"
  using assms by (simp add: round_nearest_def Let_def)

lemma scaled_bounds:
  assumes "0 < x" "0 < p"
  shows "2 ^ (p - 1) \<le> x / 2 powr (of_int \<lfloor>log 2 x\<rfloor> - real (p - 1))"
    and "x / 2 powr (of_int \<lfloor>log 2 x\<rfloor> - real (p - 1)) < 2 ^ p"
proof -
  let ?e = "\<lfloor>log 2 x\<rfloor>"
  have lo: "2 powr of_int ?e \<le> x" and hi: "x < 2 powr (of_int ?e + 1)"
    using floor_log_eq_powr_iff [of x 2 ?e] assms(1) by simp_all
  have q: "2 powr (of_int ?e - real (p - 1)) = 2 powr of_int ?e / 2 ^ (p - 1)"
    by (simp add: powr_diff powr_realpow)
  have pp: "(2::real) ^ p = 2 * 2 ^ (p - 1)"
    using assms(2) by (cases p) simp_all
  have pos: "0 < 2 powr real_of_int ?e" by simp
  show "2 ^ (p - 1) \<le> x / 2 powr (of_int ?e - real (p - 1))"
    unfolding q using lo pos by (simp add: field_simps)
  have "x < 2 * 2 powr of_int ?e" using hi by (simp add: powr_add)
  then show "x / 2 powr (of_int ?e - real (p - 1)) < 2 ^ p"
    unfolding q pp using pos by (simp add: field_simps)
qed

text \<open>A number given with its exponent.\<close>

lemma round_nearest_powr:
  assumes x: "0 < x" and p: "0 < p"
    and lo: "2 ^ (p - 1) \<le> x / 2 powr of_int e" and hi: "x / 2 powr of_int e < 2 ^ p"
  shows "round_nearest p x = 2 powr of_int e * of_int (round_half_even (x / 2 powr of_int e))"
proof -
  have pp: "(2::real) ^ p = 2 * 2 ^ (p - 1)"
    using p by (cases p) simp_all
  have pos: "0 < 2 powr real_of_int e" by simp
  have fl: "\<lfloor>log 2 x\<rfloor> = e + int (p - 1)"
  proof (subst floor_log_eq_powr_iff)
    show "0 < x" by fact
    show "(1::real) < 2" by simp
    have a: "2 powr real_of_int (e + int (p - 1)) = 2 powr of_int e * 2 ^ (p - 1)"
      by (simp add: powr_add powr_realpow)
    have b: "2 powr real_of_int (e + int (p - 1) + 1) = 2 powr of_int e * 2 ^ p"
      unfolding pp by (simp add: powr_add powr_realpow)
    from lo hi pos show "2 powr real_of_int (e + int (p - 1)) \<le> x \<and>
        x < 2 powr real_of_int (e + int (p - 1) + 1)"
      unfolding a b by (simp add: field_simps)
  qed
  have q: "of_int \<lfloor>log 2 x\<rfloor> - real (p - 1) = real_of_int e"
    unfolding fl by simp
  show ?thesis unfolding round_nearest_pos [OF x] q ..
qed

lemma round_nearest_scaled:
  assumes "0 < x" "2 ^ (p - 1) \<le> x * 2 ^ k" "x * 2 ^ k < 2 ^ p" "0 < p"
  shows "round_nearest p x = of_int (round_half_even (x * 2 ^ k)) / 2 ^ k"
proof -
  have e: "\<lfloor>log 2 x\<rfloor> = int (p - 1) - int k"
  proof (subst floor_log_eq_powr_iff)
    show "0 < x" by fact
    show "(1::real) < 2" by simp
    have a: "2 powr real_of_int (int (p - 1) - int k) = 2 ^ (p - 1) / 2 ^ k"
      by (simp add: powr_diff powr_realpow)
    have "int (p - 1) - int k + 1 = int p - int k" using assms(4) by simp
    then have b: "2 powr real_of_int (int (p - 1) - int k + 1) = 2 ^ p / 2 ^ k"
      by (simp add: powr_diff powr_realpow)
    from assms(2,3) show "2 powr real_of_int (int (p - 1) - int k) \<le> x \<and>
        x < 2 powr real_of_int (int (p - 1) - int k + 1)"
      unfolding a b by (simp add: field_simps)
  qed
  have q: "2 powr (of_int \<lfloor>log 2 \<bar>x\<bar>\<rfloor> - real (p - 1)) = 1 / 2 ^ k"
    using assms(1) e by (simp add: powr_minus powr_realpow inverse_eq_divide)
  from assms(1) show ?thesis
    unfolding round_nearest_def q Let_def by (simp add: field_simps)
qed

lemma round_nearest_minus: "round_nearest p (- x) = - round_nearest p x"
  by (simp add: round_nearest_def Let_def sgn_minus)

lemma round_nearest_nonneg: "0 \<le> x \<Longrightarrow> 0 \<le> round_nearest p x"
proof (cases "x = 0")
  case True
  then show ?thesis by (simp add: round_nearest_def)
next
  case False
  assume "0 \<le> x"
  with False have x: "0 < x" by simp
  have "0 \<le> x / 2 powr (of_int \<lfloor>log 2 x\<rfloor> - real (p - 1))" using x by simp
  then have "0 \<le> round_half_even (x / 2 powr (of_int \<lfloor>log 2 x\<rfloor> - real (p - 1)))"
    using rhe_ge [of 0] by simp
  then show ?thesis unfolding round_nearest_pos [OF x] by simp
qed

text \<open>The value of a rounded positive number: a multiple of a power of two.\<close>

lemma round_nearest_form:
  assumes x: "0 < x" and p: "0 < p"
  obtains e :: int and N :: int where
    "round_nearest p x = 2 powr of_int e * of_int N" "2 ^ (p - 1) \<le> N" "N < 2 ^ p"
    "\<lfloor>log 2 x\<rfloor> + 1 - int p \<le> e"
proof -
  let ?e = "\<lfloor>log 2 x\<rfloor> - int (p - 1)"
  let ?N = "round_half_even (x / 2 powr of_int ?e)"
  have q: "of_int \<lfloor>log 2 x\<rfloor> - real (p - 1) = real_of_int ?e" by simp
  have lo: "2 ^ (p - 1) \<le> x / 2 powr of_int ?e" and hi: "x / 2 powr of_int ?e < 2 ^ p"
    using scaled_bounds [OF x p] unfolding q by simp_all
  have r: "round_nearest p x = 2 powr of_int ?e * of_int ?N"
    unfolding round_nearest_pos [OF x] q ..
  have "(of_int (2 ^ (p - 1)) :: real) \<le> x / 2 powr of_int ?e" using lo by simp
  then have Nlo: "2 ^ (p - 1) \<le> ?N" by (rule rhe_ge)
  have "x / 2 powr of_int ?e \<le> of_int (2 ^ p)" using hi by simp
  then have Nhi: "?N \<le> 2 ^ p" by (rule rhe_le)
  have pp: "(2::int) ^ p = 2 * 2 ^ (p - 1)"
    using p by (cases p) simp_all
  show thesis
  proof (cases "?N = 2 ^ p")
    case False
    with Nhi have "?N < 2 ^ p" by simp
    with r Nlo show thesis using p by (intro that [of ?e ?N]) simp_all
  next
    case True
    have "round_nearest p x = 2 powr of_int ?e * (2 * 2 ^ (p - 1))"
      unfolding r True pp by simp
    also have "\<dots> = 2 powr of_int (?e + 1) * of_int (2 ^ (p - 1))"
      by (simp add: powr_add)
    finally show thesis
      using p by (intro that [of "?e + 1" "2 ^ (p - 1)"]) simp_all
  qed
qed

lemma round_nearest_exact:
  assumes p: "0 < p" and lo: "2 ^ (p - 1) \<le> N" and hi: "N < 2 ^ p"
  shows "round_nearest p (2 powr of_int e * of_int N) = 2 powr of_int e * of_int N"
proof -
  have "(0::int) < 2 ^ (p - 1)" by simp
  with lo have N: "0 < N" by linarith
  then have x: "0 < 2 powr of_int e * real_of_int N" by simp
  have d: "2 powr of_int e * real_of_int N / 2 powr of_int e = of_int N" by simp
  have a: "(2::real) ^ (p - 1) \<le> of_int N"
    using lo by (metis of_int_le_iff of_int_numeral of_int_power)
  have b: "of_int N < (2::real) ^ p"
    using hi by (metis of_int_less_iff of_int_numeral of_int_power)
  show ?thesis
    by (subst round_nearest_powr [OF x p, of e]) (simp_all only: d a b rhe_int)
qed

lemma round_nearest_idem:
  assumes p: "0 < p" and x: "0 \<le> x"
  shows "round_nearest p (round_nearest p x) = round_nearest p x"
proof (cases "x = 0")
  case True
  then show ?thesis by (simp add: round_nearest_def)
next
  case False
  with x have "0 < x" by simp
  from round_nearest_form [OF this p] obtain e N where
    r: "round_nearest p x = 2 powr of_int e * of_int N" and "2 ^ (p - 1) \<le> N" "N < 2 ^ p"
    by blast
  then show ?thesis using round_nearest_exact [OF p, of N e] by simp
qed

lemma round_nearest_double: "round_nearest p (2 * x) = 2 * round_nearest p x"
proof (cases "x = 0")
  case True
  then show ?thesis by (simp add: round_nearest_def)
next
  case False
  then have ax: "0 < \<bar>x\<bar>" by simp
  have "log 2 \<bar>2 * x\<bar> = 1 + log 2 \<bar>x\<bar>"
    using ax by (simp add: abs_mult log_mult)
  then have fl: "\<lfloor>log 2 \<bar>2 * x\<bar>\<rfloor> = \<lfloor>log 2 \<bar>x\<bar>\<rfloor> + 1" by simp
  have q: "2 powr (of_int (\<lfloor>log 2 \<bar>x\<bar>\<rfloor> + 1) - real (p - 1))
      = 2 * 2 powr (of_int \<lfloor>log 2 \<bar>x\<bar>\<rfloor> - real (p - 1))"
    by (simp add: powr_add powr_diff)
  from False show ?thesis
    unfolding round_nearest_def fl q Let_def by (simp add: abs_mult sgn_mult)
qed

lemma round_nearest_mono:
  assumes p: "0 < p" and x: "0 \<le> x" and xy: "x \<le> y"
  shows "round_nearest p x \<le> round_nearest p y"
proof (cases "x = 0")
  case True
  from x xy have "0 \<le> y" by simp
  then have "0 \<le> round_nearest p y" by (rule round_nearest_nonneg)
  with True show ?thesis by (simp add: round_nearest_def)
next
  case False
  with x have x0: "0 < x" by simp
  with xy have y0: "0 < y" by simp
  let ?ex = "\<lfloor>log 2 x\<rfloor>" and ?ey = "\<lfloor>log 2 y\<rfloor>"
  let ?qx = "2 powr (of_int ?ex - real (p - 1))" and ?qy = "2 powr (of_int ?ey - real (p - 1))"
  have le: "?ex \<le> ?ey"
    using x0 xy by (intro floor_mono) simp
  have pp: "(2::real) ^ p = 2 * 2 ^ (p - 1)"
    using p by (cases p) simp_all
  show ?thesis
  proof (cases "?ex = ?ey")
    case True
    have "x / ?qx \<le> y / ?qx" using xy by (simp add: divide_right_mono)
    then have "round_half_even (x / ?qx) \<le> round_half_even (y / ?qx)" by (rule rhe_mono)
    then have "?qx * of_int (round_half_even (x / ?qx)) \<le> ?qx * of_int (round_half_even (y / ?qx))"
      by (intro mult_left_mono) simp_all
    then show ?thesis
      unfolding round_nearest_pos [OF x0] round_nearest_pos [OF y0] True [symmetric] .
  next
    case False
    with le have lt: "?ex + 1 \<le> ?ey" by simp
    have "x / ?qx \<le> of_int (2 ^ p)" using scaled_bounds(2) [OF x0 p] by simp
    then have "round_half_even (x / ?qx) \<le> 2 ^ p" by (rule rhe_le)
    then have "real_of_int (round_half_even (x / ?qx)) \<le> 2 ^ p"
      by (metis of_int_le_iff of_int_numeral of_int_power)
    then have "?qx * of_int (round_half_even (x / ?qx)) \<le> ?qx * 2 ^ p"
      by (intro mult_left_mono) simp_all
    also have "?qx * 2 ^ p = 2 powr (of_int ?ex + 1)"
      unfolding pp by (simp add: powr_add powr_diff powr_realpow)
    also have "\<dots> \<le> 2 powr of_int ?ey"
    proof (rule powr_mono)
      from lt have "real_of_int (?ex + 1) \<le> real_of_int ?ey" by (simp only: of_int_le_iff)
      then show "real_of_int ?ex + 1 \<le> real_of_int ?ey" by simp
    qed simp
    also have "\<dots> = ?qy * 2 ^ (p - 1)"
      by (simp add: powr_diff powr_realpow)
    also have "\<dots> \<le> ?qy * of_int (round_half_even (y / ?qy))"
    proof (intro mult_left_mono)
      have "of_int (2 ^ (p - 1)) \<le> y / ?qy" using scaled_bounds(1) [OF y0 p] by simp
      then have "2 ^ (p - 1) \<le> round_half_even (y / ?qy)" by (rule rhe_ge)
      then show "2 ^ (p - 1) \<le> real_of_int (round_half_even (y / ?qy))"
        by (metis of_int_le_iff of_int_numeral of_int_power)
    qed simp
    finally show ?thesis
      unfolding round_nearest_pos [OF x0] round_nearest_pos [OF y0] .
  qed
qed

lemma float_arith_ok:
  assumes p: "0 < p"
  shows "arith_ok (float_arith p)"
proof -
  have sq: "0 \<le> ar_mul (float_arith p) a a" for a
    by (simp add: float_arith_def round_nearest_nonneg)
  have add: "0 \<le> ar_add (float_arith p) a b" if "0 \<le> a" "0 \<le> b" for a b
    using that by (simp add: float_arith_def round_nearest_nonneg)
  have idem: "round_nearest p (round_nearest p (sqrt x)) = round_nearest p (sqrt x)"
    if "0 \<le> x" for x
    using that by (intro round_nearest_idem [OF p]) simp
  have half: "ar_div (float_arith p)
        (ar_add (float_arith p) (ar_sqrt (float_arith p) x) (ar_sqrt (float_arith p) x)) 2
      = ar_sqrt (float_arith p) x" if x: "0 \<le> x" for x
  proof -
    let ?r = "round_nearest p (sqrt x)"
    have "round_nearest p (?r + ?r) = round_nearest p (2 * ?r)" by simp
    also have "\<dots> = 2 * ?r" unfolding round_nearest_double idem [OF x] ..
    finally have "round_nearest p (round_nearest p (?r + ?r) / 2) = round_nearest p ?r" by simp
    then show ?thesis unfolding idem [OF x] by (simp add: float_arith_def)
  qed
  have thr: "ar_sqrt (float_arith p) x \<le> ar_mul (float_arith p) c (ar_sqrt (float_arith p) x)"
    if c: "1 \<le> c" and x: "0 \<le> x" for c x
  proof -
    let ?r = "round_nearest p (sqrt x)"
    from x have r: "0 \<le> ?r" by (intro round_nearest_nonneg) simp
    with c have "1 * ?r \<le> c * ?r" by (intro mult_right_mono)
    then have "?r \<le> c * ?r" by simp
    from round_nearest_mono [OF p r this] show ?thesis
      unfolding idem [OF x] by (simp add: float_arith_def)
  qed
  from sq add half thr show ?thesis unfolding arith_ok_def by blast
qed

lemma exact_arith_ok: "arith_ok exact_arith"
proof -
  have "sqrt x \<le> c * sqrt x" if "1 \<le> c" "0 \<le> x" for c x :: real
  proof -
    from that have "1 * sqrt x \<le> c * sqrt x" by (intro mult_right_mono) simp_all
    then show ?thesis by simp
  qed
  then show ?thesis by (simp add: arith_ok_def exact_arith_def)
qed

section \<open>Properties of clipped_vector_mean in floating-point arithmetic\<close>

subsection \<open>Without clipping, in floating-point arithmetic\<close>

text \<open>
  Claim C7, as amended. In floating-point arithmetic, with \<open>p\<close> significant bits for the
  array and \<open>q\<close> for the masked mean: if in no round an entry is marked as an outlier,
  clipped_vector_mean returns the entries of the plain mean \<^verbatim>\<open>np.mean(v_samp, axis=0)\<close>
  when there is no round, and otherwise the masked mean of all samples, their sum in the
  precision of the array divided by their number in the precision of the masked mean;
  the two are the same when the two precisions are (an array of 64-bit floats). When all
  sample vectors of each point are identical and \<open>clip_threshold\<close> is at least 1, no
  entry is marked in any round.
\<close>

theorem clipped_float_mean_without_clipping:
  assumes p: "0 < p" and q: "0 < q"
  shows "case shape3 v_samp of (n_samp, n_point, n_dim) \<Rightarrow>
     ((\<forall>k<nat rounds. \<forall>s<n_samp. \<forall>pt<n_point.
          \<not> outliers_in_round (float_arith p) (float_arith q) um clip_threshold v_samp k ! s ! pt)
        \<longrightarrow> entries (clipped_vector_mean_ar (float_arith p) (float_arith q) um v_samp
                       clip_threshold rounds)
              = (if rounds \<le> 0 then entries (NDArray (np_mean_axis0_ar (float_arith p) v_samp))
                 else ma_mean_all (float_arith p) (float_arith q) v_samp)) \<and>
     ma_mean_all (float_arith p) (float_arith p) v_samp
       = entries (NDArray (np_mean_axis0_ar (float_arith p) v_samp)) \<and>
     ((\<forall>s<n_samp. \<forall>pt<n_point. \<forall>d<n_dim. v_samp ! s ! pt ! d = v_samp ! 0 ! pt ! d) \<and>
      1 \<le> clip_threshold
        \<longrightarrow> (\<forall>k. \<forall>s<n_samp. \<forall>pt<n_point.
               \<not> outliers_in_round (float_arith p) (float_arith q) um clip_threshold v_samp k
                    ! s ! pt))"
proof -
  obtain n P D where sh: "shape3 v_samp = (n, P, D)" by (cases "shape3 v_samp") auto
  have a: "entries (clipped_vector_mean_ar (float_arith p) (float_arith q) um v_samp
                       clip_threshold rounds)
      = (if rounds \<le> 0 then entries (NDArray (np_mean_axis0_ar (float_arith p) v_samp))
         else ma_mean_all (float_arith p) (float_arith q) v_samp)"
    if "\<forall>k<nat rounds. \<forall>s<n. \<forall>pt<P.
          \<not> outliers_in_round (float_arith p) (float_arith q) um clip_threshold v_samp k ! s ! pt"
    by (rule clipped_without_outliers [OF sh that])
  have b: "ma_mean_all (float_arith p) (float_arith p) v_samp
       = entries (NDArray (np_mean_axis0_ar (float_arith p) v_samp))"
    by (rule ma_mean_all_same_arith)
  have c: "\<forall>s<n. \<forall>pt<P.
      \<not> outliers_in_round (float_arith p) (float_arith q) um clip_threshold v_samp k ! s ! pt"
    if "\<forall>s<n. \<forall>pt<P. \<forall>d<D. v_samp ! s ! pt ! d = v_samp ! 0 ! pt ! d"
      and "1 \<le> clip_threshold" for k
    by (rule identical_never_clipped [OF sh that(1) float_arith_ok [OF p] float_arith_ok [OF q]
          that(2)])
  from a b c show ?thesis unfolding sh prod.case by blast
qed

subsection \<open>Three samples of one point in one dimension\<close>

lemma shape_three: "shape3 [[[a]], [[b]], [[c]]] = (3, 1, 1)"
  by (simp add: shape3_def)

lemma mean_three:
  "np_mean_axis0_ar ar [[[a]], [[b]], [[c]]] = [[ar_div ar (ar_add ar (ar_add ar a b) c) 3]]"
  unfolding np_mean_axis0_ar_def shape_three prod.case
  by (simp add: upt_conv_Cons)

lemma ma_mean_all_three:
  "ma_mean_all ar_in ar_ma [[[a]], [[b]], [[c]]]
     = [[Some (ar_div ar_ma (ar_add ar_in (ar_add ar_in a b) c) 3)]]"
  unfolding ma_mean_all_def shape_three prod.case
  by (simp add: upt_conv_Cons)

lemma dists_three:
  "sample_dists_ar ar um [[[a]], [[b]], [[c]]] [[Some m]]
     = [[ar_sqrt ar (ar_mul ar (ar_sub ar a m) (ar_sub ar a m))],
        [ar_sqrt ar (ar_mul ar (ar_sub ar b m) (ar_sub ar b m))],
        [ar_sqrt ar (ar_mul ar (ar_sub ar c m) (ar_sub ar c m))]]"
  unfolding sample_dists_ar_def sub_mean_ar_def norm_opt_ar_def shape_three prod.case
  by (simp add: upt_conv_Cons)

lemma idx_three_equal:
  assumes "sample_dists_ar ar um [[[a]], [[b]], [[c]]] [[Some m]] = [[dv], [dv], [dv]]"
  shows "outlier_idx_ar ar um ct [[[a]], [[b]], [[c]]] [[Some m]]
     = [[dv > ar_mul ar ct dv], [dv > ar_mul ar ct dv], [dv > ar_mul ar ct dv]]"
  unfolding outlier_idx_ar_def shape_three prod.case assms
  by (simp add: upt_conv_Cons np_median_ar_def Let_def)

lemma round_three_all_out:
  assumes "outlier_idx_ar ar um ct [[[a]], [[b]], [[c]]] vm = [[True], [True], [True]]"
  shows "clip_round_ar ar ar_in ar_ma um ct [[[a]], [[b]], [[c]]] vm = [[None]]"
  unfolding clip_round_ar_def shape_three prod.case assms
  by (simp add: ma_mean_axis0_ar_def shape_three upt_conv_Cons Let_def)

subsection \<open>Identical samples in 32-bit arithmetic\<close>

lemma tenth32_add_1: "round_nearest 24 (tenth32 + tenth32) = 13421773 / 2 ^ 26"
  by (subst round_nearest_scaled [where k = 26])
     (simp_all add: tenth32_def round_half_even_def)

lemma tenth32_add_2: "round_nearest 24 (13421773 / 2 ^ 26 + tenth32) = 10066330 / 2 ^ 25"
  by (subst round_nearest_scaled [where k = 25])
     (simp_all add: tenth32_def round_half_even_def)

lemma tenth32_div: "round_nearest 24 (10066330 / 2 ^ 25 / 3) = 13421773 / 2 ^ 27"
  by (subst round_nearest_scaled [where k = 27])
     (simp_all add: round_half_even_def)

lemma tenth32_div_64: "round_nearest 53 (10066330 / 2 ^ 25 / 3) = 7205759690123947 / 2 ^ 56"
  by (subst round_nearest_scaled [where k = 56])
     (simp_all add: round_half_even_def)

lemma tenth32_sum:
  "ar_add (float_arith 24) (ar_add (float_arith 24) tenth32 tenth32) tenth32 = 10066330 / 2 ^ 25"
  by (simp only: float_arith_def arith.select_convs tenth32_add_1 tenth32_add_2)

lemma tenth32_mean:
  "np_mean_axis0_ar (float_arith 24) tenth32_samples = [[13421773 / 2 ^ 27]]"
proof -
  have "ar_div (float_arith 24) (10066330 / 2 ^ 25) 3 = 13421773 / 2 ^ 27"
    by (simp only: float_arith_def arith.select_convs tenth32_div)
  then show ?thesis
    unfolding tenth32_samples_def mean_three tenth32_sum by (simp only:)
qed

lemma tenth32_ma_mean:
  "ma_mean_all (float_arith 24) (float_arith 53) tenth32_samples
     = [[Some (7205759690123947 / 2 ^ 56)]]"
proof -
  have "ar_div (float_arith 53) (10066330 / 2 ^ 25) 3 = 7205759690123947 / 2 ^ 56"
    by (simp only: float_arith_def arith.select_convs tenth32_div_64)
  then show ?thesis
    unfolding tenth32_samples_def ma_mean_all_three tenth32_sum by (simp only:)
qed

lemma tenth32_shape: "shape3 tenth32_samples = (3, 1, 1)"
  unfolding tenth32_samples_def by (rule shape_three)

text \<open>
  The run of the amended claim on three identical samples of 32-bit floats, with the
  default threshold and rounds: nothing is clipped, and the result is the sum of the
  samples in 32 bits divided by 3 in 64 bits, 0.10000000397..., not the plain mean of 32
  bits, 0.10000000149...
\<close>

theorem clipped_float_mean_without_clipping_witness:
  "(0::nat) < 24 \<and> (0::nat) < 53 \<and> (1::real) \<le> 5 \<and>
   tenth32_samples ! 1 = tenth32_samples ! 0 \<and> tenth32_samples ! 2 = tenth32_samples ! 0 \<and>
   outliers_in_round (float_arith 24) (float_arith 53) no_under_mask 5 tenth32_samples 4 ! 2 ! 0
     = False \<and>
   entries (clipped_vector_mean_ar (float_arith 24) (float_arith 53) no_under_mask
              tenth32_samples 5 5) = [[Some (7205759690123947 / 2 ^ 56)]] \<and>
   entries (NDArray (np_mean_axis0_ar (float_arith 24) tenth32_samples))
     = [[Some (13421773 / 2 ^ 27)]]"
proof -
  have h1: "(0::nat) < 24" and h2: "(0::nat) < 53" and h3: "(1::real) \<le> 5" by simp_all
  note t = clipped_float_mean_without_clipping
    [OF h1 h2, where v_samp = tenth32_samples and rounds = 5 and um = no_under_mask
       and clip_threshold = 5, unfolded tenth32_shape prod.case]
  have same: "\<forall>s<3. \<forall>pt<1. \<forall>d<1.
      tenth32_samples ! s ! pt ! d = tenth32_samples ! 0 ! pt ! d"
    by (auto simp: tenth32_samples_def less_Suc_eq numeral_3_eq_3)
  from t same h3 have no: "\<forall>k. \<forall>s<3. \<forall>pt<1.
      \<not> outliers_in_round (float_arith 24) (float_arith 53) no_under_mask 5 tenth32_samples k
           ! s ! pt"
    by blast
  then have o: "outliers_in_round (float_arith 24) (float_arith 53) no_under_mask 5
       tenth32_samples 4 ! 2 ! 0 = False"
    by simp
  from t no have "entries (clipped_vector_mean_ar (float_arith 24) (float_arith 53) no_under_mask
              tenth32_samples 5 5)
      = (if (5::int) \<le> 0 then entries (NDArray (np_mean_axis0_ar (float_arith 24) tenth32_samples))
         else ma_mean_all (float_arith 24) (float_arith 53) tenth32_samples)"
    by blast
  then have r: "entries (clipped_vector_mean_ar (float_arith 24) (float_arith 53) no_under_mask
              tenth32_samples 5 5) = [[Some (7205759690123947 / 2 ^ 56)]]"
    by (simp add: tenth32_ma_mean)
  have m: "entries (NDArray (np_mean_axis0_ar (float_arith 24) tenth32_samples))
     = [[Some (13421773 / 2 ^ 27)]]"
    unfolding tenth32_mean by simp
  have i: "tenth32_samples ! 1 = tenth32_samples ! 0" "tenth32_samples ! 2 = tenth32_samples ! 0"
    by (simp_all add: tenth32_samples_def)
  from h1 h2 h3 i o r m show ?thesis by blast
qed

subsection \<open>Identical samples in 64-bit arithmetic\<close>

lemma tenth_add_1: "round_nearest 53 (tenth + tenth) = 7205759403792794 / 2 ^ 55"
  by (subst round_nearest_scaled [where k = 55])
     (simp_all add: tenth_def round_half_even_def)

lemma tenth_add_2: "round_nearest 53 (7205759403792794 / 2 ^ 55 + tenth) = 5404319552844596 / 2 ^ 54"
  by (subst round_nearest_scaled [where k = 54])
     (simp_all add: tenth_def round_half_even_def)

lemma tenth_div: "round_nearest 53 (5404319552844596 / 2 ^ 54 / 3) = 7205759403792795 / 2 ^ 56"
  by (subst round_nearest_scaled [where k = 56])
     (simp_all add: round_half_even_def)

lemma tenth_sub: "round_nearest 53 (tenth - 7205759403792795 / 2 ^ 56) = - (1 / 2 ^ 56)"
proof -
  have "tenth - 7205759403792795 / 2 ^ 56 = - (1 / 2 ^ 56)" by (simp add: tenth_def)
  moreover have "round_nearest 53 (1 / 2 ^ 56) = 1 / 2 ^ 56"
    by (subst round_nearest_scaled [where k = 108]) (simp_all add: round_half_even_def)
  ultimately show ?thesis by (simp only: round_nearest_minus)
qed

lemma tenth_sq: "round_nearest 53 (- (1 / 2 ^ 56) * - (1 / 2 ^ 56)) = 1 / 2 ^ 112"
  by (subst round_nearest_scaled [where k = 164])
     (simp_all add: round_half_even_def)

lemma sqrt_112: "sqrt (1 / 2 ^ 112) = 1 / 2 ^ 56"
proof -
  have "(1 / 2 ^ 112 :: real) = (1 / 2 ^ 56)\<^sup>2" by (simp add: power_divide)
  then show ?thesis by (simp only: real_sqrt_abs) simp
qed

lemma tenth_sqrt: "round_nearest 53 (sqrt (1 / 2 ^ 112)) = 1 / 2 ^ 56"
  unfolding sqrt_112
  by (subst round_nearest_scaled [where k = 108]) (simp_all add: round_half_even_def)

lemma tenth_threshold: "round_nearest 53 (1 / 2 * (1 / 2 ^ 56)) = 1 / 2 ^ 57"
  by (subst round_nearest_scaled [where k = 109]) (simp_all add: round_half_even_def)

lemma tenth_mean: "np_mean_axis0_ar (float_arith 53) tenth_samples = [[7205759403792795 / 2 ^ 56]]"
proof -
  have a1: "ar_add (float_arith 53) tenth tenth = 7205759403792794 / 2 ^ 55"
    by (simp only: float_arith_def arith.select_convs tenth_add_1)
  have a2: "ar_add (float_arith 53) (7205759403792794 / 2 ^ 55) tenth = 5404319552844596 / 2 ^ 54"
    by (simp only: float_arith_def arith.select_convs tenth_add_2)
  have a3: "ar_div (float_arith 53) (5404319552844596 / 2 ^ 54) 3 = 7205759403792795 / 2 ^ 56"
    by (simp only: float_arith_def arith.select_convs tenth_div)
  show ?thesis
    unfolding tenth_samples_def mean_three by (simp only: a1 a2 a3)
qed

lemma tenth_dists:
  "sample_dists_ar (float_arith 53) um tenth_samples [[Some (7205759403792795 / 2 ^ 56)]]
     = [[1 / 2 ^ 56], [1 / 2 ^ 56], [1 / 2 ^ 56]]"
proof -
  have a4: "ar_sub (float_arith 53) tenth (7205759403792795 / 2 ^ 56) = - (1 / 2 ^ 56)"
    by (simp only: float_arith_def arith.select_convs tenth_sub)
  have a5: "ar_mul (float_arith 53) (- (1 / 2 ^ 56)) (- (1 / 2 ^ 56)) = 1 / 2 ^ 112"
    by (simp only: float_arith_def arith.select_convs tenth_sq)
  have a6: "ar_sqrt (float_arith 53) (1 / 2 ^ 112) = 1 / 2 ^ 56"
    by (simp only: float_arith_def arith.select_convs tenth_sqrt)
  show ?thesis
    unfolding tenth_samples_def dists_three by (simp only: a4 a5 a6)
qed

lemma tenth_idx:
  "outlier_idx_ar (float_arith 53) um (1 / 2) tenth_samples [[Some (7205759403792795 / 2 ^ 56)]]
     = [[True], [True], [True]]"
proof -
  have a7: "ar_mul (float_arith 53) (1 / 2) (1 / 2 ^ 56) = 1 / 2 ^ 57"
    by (simp only: float_arith_def arith.select_convs tenth_threshold)
  have gt: "(1 / 2 ^ 57 < (1 / 2 ^ 56 :: real)) = True" by simp
  show ?thesis
    using idx_three_equal [OF tenth_dists [unfolded tenth_samples_def], of um "1 / 2"]
    unfolding tenth_samples_def by (simp only: a7 gt)
qed

lemma tenth_round:
  "clip_round_ar (float_arith 53) (float_arith 53) (float_arith 53) um (1 / 2) tenth_samples
     [[Some (7205759403792795 / 2 ^ 56)]] = [[None]]"
  using round_three_all_out [OF tenth_idx [unfolded tenth_samples_def]]
  unfolding tenth_samples_def .

text \<open>
  Claim C7 as stated fails on floats: the three samples are identical, their mean is
  rounded one unit in the last place above them, so every sample has the same small
  positive distance from it; with a threshold of one half each distance is larger than
  the threshold times the median distance, every entry is clipped in the first round,
  and the result is fully masked, not the plain mean.
\<close>

theorem identical_float_samples_all_clipped:
  "tenth_samples ! 1 = tenth_samples ! 0 \<and> tenth_samples ! 2 = tenth_samples ! 0 \<and>
   outliers_in_round (float_arith 53) (float_arith 53) no_under_mask (1 / 2) tenth_samples 0
     = [[True], [True], [True]] \<and>
   entries (clipped_vector_mean_ar (float_arith 53) (float_arith 53) no_under_mask
              tenth_samples (1 / 2) 1) = [[None]] \<and>
   entries (NDArray (np_mean_axis0_ar (float_arith 53) tenth_samples))
     = [[Some (7205759403792795 / 2 ^ 56)]]"
proof -
  have "tenth_samples ! 1 = tenth_samples ! 0" "tenth_samples ! 2 = tenth_samples ! 0"
    by (simp_all add: tenth_samples_def)
  moreover have "outliers_in_round (float_arith 53) (float_arith 53) no_under_mask (1 / 2)
      tenth_samples 0 = [[True], [True], [True]]"
    unfolding outliers_in_round_def mean_array_after_def clip_rounds_ar.simps dist_arith.simps
      entries.simps tenth_mean
    using tenth_idx [of no_under_mask] by simp
  moreover have "entries (clipped_vector_mean_ar (float_arith 53) (float_arith 53) no_under_mask
              tenth_samples (1 / 2) 1) = [[None]]"
    unfolding clipped_vector_mean_ar_def tenth_mean
    using tenth_round [of no_under_mask] by simp
  moreover have "entries (NDArray (np_mean_axis0_ar (float_arith 53) tenth_samples))
     = [[Some (7205759403792795 / 2 ^ 56)]]"
    unfolding tenth_mean by simp
  ultimately show ?thesis by blast
qed

section \<open>Properties of the reduction over flows\<close>

lemma batch_calc_df_deta_Inr:
  "batch_calc_df_deta fl eta bs = Inr g \<Longrightarrow> g = map (prob_grad fl) eta"
  by (auto simp: batch_calc_df_deta_cases split: if_splits)

lemma grad_flows_Some:
  "grad_flows fls i eta gbs (Some a) = Inr x \<Longrightarrow> i + length fls \<le> length a \<Longrightarrow>
   x = Some (take i a @ flow_grads fls eta @ drop (i + length fls) a)"
proof (induction fls arbitrary: i a)
  case Nil
  then show ?case by (simp add: flow_grads_def)
next
  case (Cons fl fls)
  from Cons.prems(1) obtain g where
    g: "batch_calc_df_deta fl eta gbs = Inr g"
    and rest: "grad_flows fls (Suc i) eta gbs (Some (a[i := g])) = Inr x"
    by (auto split: sum.splits)
  from Cons.prems(2) have le: "Suc i + length fls \<le> length (a[i := g])" and i: "i < length a"
    by simp_all
  from Cons.IH [OF rest le]
  have "x = Some (take (Suc i) (a[i := g]) @ flow_grads fls eta
                  @ drop (Suc i + length fls) (a[i := g]))" .
  moreover from i have "take (Suc i) (a[i := g]) = take i a @ [g]"
    by (simp add: take_Suc_conv_app_nth)
  moreover have "drop (Suc i + length fls) (a[i := g]) = drop (i + length (fl # fls)) a"
    by simp
  ultimately show ?case
    using batch_calc_df_deta_Inr [OF g] by (simp add: flow_grads_def)
qed

lemma sample_from_flows_Inr_reduce:
  assumes "sample_from_flows fls n ri gbs sbs f = Inr r"
  shows "ret_df_deta_indiv r = Some (flow_grads fls (ret_eta r)) \<and>
         ret_df_deta r = f (flow_grads fls (ret_eta r))"
proof -
  have ri: ri
  proof (rule ccontr)
    assume "\<not> ri"
    with sample_from_flows_no_indiv [of fls n gbs sbs f] assms show False by auto
  qed
  from assms ri obtain parts a where
    gf: "grad_flows fls 0 (concat (concat parts)) gbs
               (Some (replicate (length fls) (zeros_like (concat (concat parts))))) = Inr (Some a)"
    and r: "r = \<lparr>ret_eta = concat (concat parts), ret_df_deta = f a,
                 ret_df_deta_indiv = Some a\<rparr>"
    by (auto simp: sample_from_flows_def Let_def split: if_splits sum.splits option.splits)
  from grad_flows_Some [OF gf] have "a = flow_grads fls (concat (concat parts))" by simp
  with r show ?thesis by simp
qed

lemma flow_grads_shape:
  "length (flow_grads fls eta) = length fls \<and>
   (\<forall>g\<in>set (flow_grads fls eta). length g = length eta) \<and>
   ((\<forall>fl\<in>set fls. grad_shape_ok fl) \<longrightarrow>
      (\<forall>g\<in>set (flow_grads fls eta). map length g = map length eta))"
  by (auto simp: flow_grads_def grad_shape_ok_def)

text \<open>
  Claim C4. Whenever sample_from_flows returns, \<open>df_deta_indiv\<close> is the stack of the
  gradients of the flows on \<open>eta\<close>, of shape \<open>(n_flows,) + eta.shape\<close>, and \<open>df_deta\<close> is
  \<open>f_reduce\<close> applied to it along the flow axis; in \<^verbatim>\<open>main\<close>, \<open>f_reduce\<close> is the median
  with \<^verbatim>\<open>--flow-median\<close> and clipped_vector_mean otherwise.
\<close>

theorem sample_from_flows_df_deta:
  "(\<forall>r. sample_from_flows fls n_samples return_indiv gbs sbs f_reduce = Inr r \<longrightarrow>
        ret_df_deta_indiv r = Some (flow_grads fls (ret_eta r)) \<and>
        ret_df_deta r = f_reduce (flow_grads fls (ret_eta r)) \<and>
        length (flow_grads fls (ret_eta r)) = length fls \<and>
        (\<forall>g\<in>set (flow_grads fls (ret_eta r)). length g = length (ret_eta r)) \<and>
        ((\<forall>fl\<in>set fls. grad_shape_ok fl) \<longrightarrow>
           (\<forall>g\<in>set (flow_grads fls (ret_eta r)). map length g = map length (ret_eta r)))) \<and>
   (\<forall>r. main_sample um flow_median fls n_samples gbs sbs = Inr r \<longrightarrow>
        ret_df_deta r =
          (if flow_median then NDArray (np_median_axis0 (flow_grads fls (ret_eta r)))
           else clipped_vector_mean um (flow_grads fls (ret_eta r)) 5 5))"
proof (intro conjI allI impI)
  fix r
  assume "main_sample um flow_median fls n_samples gbs sbs = Inr r"
  then show "ret_df_deta r =
          (if flow_median then NDArray (np_median_axis0 (flow_grads fls (ret_eta r)))
           else clipped_vector_mean um (flow_grads fls (ret_eta r)) 5 5)"
    unfolding main_sample_def by (cases flow_median) (auto dest: sample_from_flows_Inr_reduce)
qed (use sample_from_flows_Inr_reduce flow_grads_shape in \<open>blast+\<close>)

lemma example_run:
  "sample_from_flows [example_flow] 5 True 1 2 f
     = Inr \<lparr>ret_eta = [[0, 0, 0, 0, 0, 0], [0, 0, 0, 0, 0, 0], [1, 1, 1, 1, 1, 1], [1, 1, 1, 1, 1, 1::real]],
            ret_df_deta = f [[[0, 0, 0, 0, 0, 0], [0, 0, 0, 0, 0, 0], [-1, -1, -1, -1, -1, -1], [-1, -1, -1, -1, -1, -1::real]]],
            ret_df_deta_indiv = Some [[[0, 0, 0, 0, 0, 0], [0, 0, 0, 0, 0, 0], [-1, -1, -1, -1, -1, -1], [-1, -1, -1, -1, -1, -1::real]]]\<rparr>"
  by (simp add: sample_from_flows_def example_flow_def eval_nat_numeral Let_def
      batch_calc_df_deta_cases dataset_batch.simps zeros_like_def)

lemma example_median:
  "np_median_axis0 [[[0, 0, 0, 0, 0, 0], [0, 0, 0, 0, 0, 0], [-1, -1, -1, -1, -1, -1], [-1, -1, -1, -1, -1, -1::real]]] = [[0, 0, 0, 0, 0, 0], [0, 0, 0, 0, 0, 0], [-1, -1, -1, -1, -1, -1], [-1, -1, -1, -1, -1, -1::real]]"
  by (simp add: np_median_axis0_def shape3_def upt_conv_Cons np_median_def)

theorem sample_from_flows_df_deta_witness:
  "sample_from_flows [example_flow] 5 True 1 2 id
     = Inr \<lparr>ret_eta = [[0, 0, 0, 0, 0, 0], [0, 0, 0, 0, 0, 0], [1, 1, 1, 1, 1, 1], [1, 1, 1, 1, 1, 1::real]],
            ret_df_deta = [[[0, 0, 0, 0, 0, 0], [0, 0, 0, 0, 0, 0], [-1, -1, -1, -1, -1, -1], [-1, -1, -1, -1, -1, -1::real]]],
            ret_df_deta_indiv = Some [[[0, 0, 0, 0, 0, 0], [0, 0, 0, 0, 0, 0], [-1, -1, -1, -1, -1, -1], [-1, -1, -1, -1, -1, -1::real]]]\<rparr> \<and>
   flow_grads [example_flow] [[0, 0, 0, 0, 0, 0], [0, 0, 0, 0, 0, 0], [1, 1, 1, 1, 1, 1], [1, 1, 1, 1, 1, 1::real]]
     = [[[0, 0, 0, 0, 0, 0], [0, 0, 0, 0, 0, 0], [-1, -1, -1, -1, -1, -1], [-1, -1, -1, -1, -1, -1::real]]] \<and>
   grad_shape_ok example_flow \<and>
   main_sample no_under_mask True [example_flow] 5 1 2
     = Inr \<lparr>ret_eta = [[0, 0, 0, 0, 0, 0], [0, 0, 0, 0, 0, 0], [1, 1, 1, 1, 1, 1], [1, 1, 1, 1, 1, 1::real]],
            ret_df_deta = NDArray [[0, 0, 0, 0, 0, 0], [0, 0, 0, 0, 0, 0], [-1, -1, -1, -1, -1, -1], [-1, -1, -1, -1, -1, -1::real]],
            ret_df_deta_indiv = Some [[[0, 0, 0, 0, 0, 0], [0, 0, 0, 0, 0, 0], [-1, -1, -1, -1, -1, -1], [-1, -1, -1, -1, -1, -1::real]]]\<rparr>"
proof -
  let ?eta = "[[0, 0, 0, 0, 0, 0], [0, 0, 0, 0, 0, 0], [1, 1, 1, 1, 1, 1], [1, 1, 1, 1, 1, 1::real]]"
  let ?g = "[[0, 0, 0, 0, 0, 0], [0, 0, 0, 0, 0, 0], [-1, -1, -1, -1, -1, -1], [-1, -1, -1, -1, -1, -1::real]]"
  have h1: "sample_from_flows [example_flow] 5 True 1 2 id
     = Inr \<lparr>ret_eta = ?eta, ret_df_deta = [?g], ret_df_deta_indiv = Some [?g]\<rparr>"
    using example_run [of id] by simp
  have h2: "main_sample no_under_mask True [example_flow] 5 1 2
     = Inr \<lparr>ret_eta = ?eta, ret_df_deta = NDArray ?g, ret_df_deta_indiv = Some [?g]\<rparr>"
    unfolding main_sample_def using example_run [of "\<lambda>a. NDArray (np_median_axis0 a)"]
    by (simp add: example_median)
  have h3: "grad_shape_ok example_flow"
    by (simp add: grad_shape_ok_def example_flow_def)
  note t = sample_from_flows_df_deta
    [where fls = "[example_flow]" and n_samples = 5 and return_indiv = True and gbs = 1
       and sbs = 2 and f_reduce = id and um = no_under_mask and flow_median = True]
  from t h1 have "Some [?g] = Some (flow_grads [example_flow] ?eta)"
    by (metis ret.select_convs(1,3))
  with h1 h2 h3 show ?thesis by simp
qed

section \<open>Properties of train_flows\<close>

lemma train_flows_body_effect:
  fixes st :: "('f, 'w) flows_state"
  shows "\<exists>m. store (train_flows_body env data fp pp cfg (np_mean_rows data) (np_std_rows data) i st)
            = store st @ [m] \<and>
          trained_flow env data cfg fp i m \<and>
          flow_list (train_flows_body env data fp pp cfg (np_mean_rows data) (np_std_rows data) i st)
            = flow_list st @ [length (store st)] \<and>
          concat (map constructed (events (train_flows_body env data fp pp cfg (np_mean_rows data) (np_std_rows data) i st)))
            = concat (map constructed (events st)) @ [length (store st)] \<and>
          concat (map trained (events (train_flows_body env data fp pp cfg (np_mean_rows data) (np_std_rows data) i st)))
            = concat (map trained (events st)) @ [length (store st)]"
proof -
  let ?args = "\<lparr>fa_n_dim = 6, fa_n_hidden = n_hidden cfg, fa_hidden_size = hidden_size cfg,
      fa_n_bij = n_bij cfg, fa_reg_kw = reg cfg,
      fa_base_mean = np_mean_rows data, fa_base_std = np_std_rows data\<rparr>"
  obtain m0 w1 where new: "ffjord_new env ?args (world st) = (m0, w1)"
    by (cases "ffjord_new env ?args (world st)") auto
  obtain cd cn where split: "path_split env (str_format env fp i) = (cd, cn)"
    by (cases "path_split env (str_format env fp i)") auto
  obtain m h w2 where train: "train_flow env m0 data (flow_train_kw cfg cd cn) w1 = ((m, h), w2)"
    by (cases "train_flow env m0 data (flow_train_kw cfg cd cn) w1") auto
  have tr: "trained_flow env data cfg fp i m"
    unfolding trained_flow_def
    by (rule exI [of _ "world st"], rule exI [of _ w1]) (simp add: new split train)
  have body: "train_flows_body env data fp pp cfg (np_mean_rows data) (np_std_rows data) i st
      = \<lparr>store = store st @ [m], flow_list = flow_list st @ [length (store st)],
         events = events st @
            [Construct (length (store st)), Mkdir cd, SaveSpecs (length (store st)) (str_format env fp i),
             Train (length (store st)), SaveLossHistory (str_format env fp i @ ''_loss.txt''),
             SavePlot (str_format env pp i)],
         world = w2\<rparr>"
    by (simp add: train_flows_body_def new split train Let_def)
  show ?thesis
    unfolding body using tr by simp
qed

lemma train_flows_loop_effect:
  fixes st :: "('f, 'w) flows_state"
  shows "\<exists>ms. store (train_flows_loop env data fp pp cfg (np_mean_rows data) (np_std_rows data) ixs st)
             = store st @ ms \<and>
           length ms = length ixs \<and>
           (\<forall>j<length ixs. trained_flow env data cfg fp (ixs ! j) (ms ! j)) \<and>
           flow_list (train_flows_loop env data fp pp cfg (np_mean_rows data) (np_std_rows data) ixs st)
             = flow_list st @ [length (store st)..<length (store st) + length ixs] \<and>
           concat (map constructed
               (events (train_flows_loop env data fp pp cfg (np_mean_rows data) (np_std_rows data) ixs st)))
             = concat (map constructed (events st))
                 @ [length (store st)..<length (store st) + length ixs] \<and>
           concat (map trained
               (events (train_flows_loop env data fp pp cfg (np_mean_rows data) (np_std_rows data) ixs st)))
             = concat (map trained (events st))
                 @ [length (store st)..<length (store st) + length ixs]"
proof (induction ixs arbitrary: st)
  case Nil
  show ?case by simp
next
  case (Cons i ixs)
  let ?body = "train_flows_body env data fp pp cfg (np_mean_rows data) (np_std_rows data) i st"
  let ?H = "length (store st)"
  from train_flows_body_effect
    [where env = env and data = data and fp = fp and pp = pp and cfg = cfg and i = i and st = st]
  obtain m where
    s1: "store ?body = store st @ [m]" and t1: "trained_flow env data cfg fp i m"
    and f1: "flow_list ?body = flow_list st @ [?H]"
    and c1: "concat (map constructed (events ?body)) = concat (map constructed (events st)) @ [?H]"
    and r1: "concat (map trained (events ?body)) = concat (map trained (events st)) @ [?H]"
    by blast
  from Cons.IH [where st = ?body]
  obtain ms where
    s2: "store (train_flows_loop env data fp pp cfg (np_mean_rows data) (np_std_rows data) ixs ?body)
           = store ?body @ ms"
    and l2: "length ms = length ixs"
    and t2: "\<forall>j<length ixs. trained_flow env data cfg fp (ixs ! j) (ms ! j)"
    and f2: "flow_list (train_flows_loop env data fp pp cfg (np_mean_rows data) (np_std_rows data) ixs ?body)
           = flow_list ?body @ [length (store ?body)..<length (store ?body) + length ixs]"
    and c2: "concat (map constructed
               (events (train_flows_loop env data fp pp cfg (np_mean_rows data) (np_std_rows data) ixs ?body)))
             = concat (map constructed (events ?body))
                 @ [length (store ?body)..<length (store ?body) + length ixs]"
    and r2: "concat (map trained
               (events (train_flows_loop env data fp pp cfg (np_mean_rows data) (np_std_rows data) ixs ?body)))
             = concat (map trained (events ?body))
                 @ [length (store ?body)..<length (store ?body) + length ixs]"
    by blast
  have "[?H..<?H + Suc (length ixs)] = ?H # [Suc ?H..<?H + Suc (length ixs)]"
    by (rule upt_conv_Cons) simp
  then have upt: "?H # [Suc ?H..<Suc (?H + length ixs)] = [?H..<?H + length (i # ixs)]"
    by (simp del: upt_Suc)
  have tr: "\<forall>j<length (i # ixs). trained_flow env data cfg fp ((i # ixs) ! j) ((m # ms) ! j)"
    using t1 t2 by (auto simp: nth_Cons')
  show ?case
    apply (rule exI [of _ "m # ms"])
    using s2 l2 tr f2 c2 r2 upt
    apply (simp add: s1 f1 c1 r1 del: upt_Suc)
    done
qed

lemma train_flows_loop_store:
  fixes st :: "('f, 'w) flows_state" and env :: "('f, 'h, 'w, 'v) flow_env"
    and data fp pp cfg ixs
  defines "fin \<equiv> train_flows_loop env data fp pp cfg (np_mean_rows data) (np_std_rows data) ixs st"
  shows "length (store fin) = length (store st) + length ixs"
    and "\<forall>j<length ixs. trained_flow env data cfg fp (ixs ! j) (store fin ! (length (store st) + j))"
    and "flow_list fin = flow_list st @ [length (store st)..<length (store st) + length ixs]"
    and "concat (map constructed (events fin))
           = concat (map constructed (events st))
               @ [length (store st)..<length (store st) + length ixs]"
    and "concat (map trained (events fin))
           = concat (map trained (events st))
               @ [length (store st)..<length (store st) + length ixs]"
proof -
  from train_flows_loop_effect
    [where env = env and data = data and fp = fp and pp = pp and cfg = cfg
       and ixs = ixs and st = st]
  obtain ms where ms:
    "store fin = store st @ ms" "length ms = length ixs"
    "\<forall>j<length ixs. trained_flow env data cfg fp (ixs ! j) (ms ! j)"
    and rest:
    "flow_list fin = flow_list st @ [length (store st)..<length (store st) + length ixs]"
    "concat (map constructed (events fin))
           = concat (map constructed (events st))
               @ [length (store st)..<length (store st) + length ixs]"
    "concat (map trained (events fin))
           = concat (map trained (events st))
               @ [length (store st)..<length (store st) + length ixs]"
    unfolding fin_def by blast
  from ms show "length (store fin) = length (store st) + length ixs" by simp
  from ms show "\<forall>j<length ixs.
      trained_flow env data cfg fp (ixs ! j) (store fin ! (length (store st) + j))"
    by simp
  from rest show
    "flow_list fin = flow_list st @ [length (store st)..<length (store st) + length ixs]"
    "concat (map constructed (events fin))
           = concat (map constructed (events st))
               @ [length (store st)..<length (store st) + length ixs]"
    "concat (map trained (events fin))
           = concat (map trained (events st))
               @ [length (store st)..<length (store st) + length ixs]"
    by simp_all
qed

lemma train_flows_zero_batch_size:
  "batch_size cfg = 0 \<Longrightarrow> train_flows env data fp pp lf cfg w = Inl ZeroDivisionError"
  by (simp add: train_flows_def)

text \<open>
  Claim C6. train_flows (with a batch size that is not 0, for which it raises before the
  loop) returns a list of \<open>n_flows\<close> flows, none for a negative \<open>n_flows\<close>: the objects
  constructed, which are the objects trained, one after the other in the order of the
  list; the \<open>i\<close>-th is a model over the 6 dimensions, built with the mean and the standard
  deviation of every column of the whole data, and trained on the data.
\<close>

theorem train_flows_trains_each:
  assumes "batch_size cfg \<noteq> 0"
  shows "\<exists>fl st. train_flows env data fp pp lf cfg w = Inr (fl, st) \<and>
           length fl = nat (n_flows cfg) \<and>
           fl = [0..<nat (n_flows cfg)] \<and>
           length (store st) = nat (n_flows cfg) \<and>
           (\<forall>i<nat (n_flows cfg). trained_flow env data cfg fp i (store st ! (fl ! i))) \<and>
           concat (map constructed (events st)) = fl \<and>
           concat (map trained (events st)) = fl"
proof -
  let ?init = "\<lparr>store = [], flow_list = [], events = [], world = w\<rparr>"
  let ?n = "nat (n_flows cfg)"
  let ?fin = "train_flows_loop env data fp pp cfg (np_mean_rows data) (np_std_rows data)
      [0..<?n] ?init"
  note e = train_flows_loop_store
    [where env = env and data = data and fp = fp and pp = pp and cfg = cfg
       and ixs = "[0..<?n]" and st = ?init]
  from e(1) have l: "length (store ?fin) = ?n" by simp
  from e(2) have t: "\<forall>i<?n. trained_flow env data cfg fp i (store ?fin ! ([0..<?n] ! i))"
    by simp
  from e(3) have f: "flow_list ?fin = [0..<?n]" by simp
  from e(4) have c: "concat (map constructed (events ?fin)) = [0..<?n]" by simp
  from e(5) have r: "concat (map trained (events ?fin)) = [0..<?n]" by simp
  from assms f have "train_flows env data fp pp lf cfg w = Inr ([0..<?n], ?fin)"
    by (simp add: train_flows_def Let_def)
  with l t c r show ?thesis
    by (intro exI [of _ "[0..<?n]"] exI [of _ ?fin]) simp
qed

lemma example_data_mean: "np_mean_rows example_data = [2, 1, 3, 1, 1, 1]"
  by (simp add: np_mean_rows_def n_cols_def example_data_def upt_conv_Cons)

lemma example_data_std: "np_std_rows example_data = [1, 0, 2, 0, 0, 0]"
  unfolding np_std_rows_def example_data_mean
  by (simp add: n_cols_def example_data_def upt_conv_Cons)

lemma example_train_flows:
  "train_flows example_flow_env example_data ''flow'' ''plot'' ''loss'' example_cfg 0
     = Inr ([0, 1],
         \<lparr>store =
            [(\<lparr>fa_n_dim = 6, fa_n_hidden = 4, fa_hidden_size = 32, fa_n_bij = 1, fa_reg_kw = [],
               fa_base_mean = [2, 1, 3, 1, 1, 1], fa_base_std = [1, 0, 2, 0, 0, 0]\<rparr>,
              Some (flow_train_kw example_cfg ''models'' ''flow'')),
             (\<lparr>fa_n_dim = 6, fa_n_hidden = 4, fa_hidden_size = 32, fa_n_bij = 1, fa_reg_kw = [],
               fa_base_mean = [2, 1, 3, 1, 1, 1], fa_base_std = [1, 0, 2, 0, 0, 0]\<rparr>,
              Some (flow_train_kw example_cfg ''models'' ''flow+''))],
          flow_list = [0, 1],
          events =
            [Construct 0, Mkdir ''models'', SaveSpecs 0 ''flow'', Train 0,
             SaveLossHistory ''flow_loss.txt'', SavePlot ''plot'',
             Construct 1, Mkdir ''models'', SaveSpecs 1 ''flow+'', Train 1,
             SaveLossHistory ''flow+_loss.txt'', SavePlot ''plot+''],
          world = 4\<rparr>)"
  unfolding train_flows_def example_data_mean example_data_std
  by (simp add: example_cfg_def example_flow_env_def train_flows_body_def upt_conv_Cons Let_def)

theorem train_flows_trains_each_witness:
  "batch_size example_cfg \<noteq> 0 \<and>
   fst (projr (train_flows example_flow_env example_data ''flow'' ''plot'' ''loss'' example_cfg 0))
     = [0, 1] \<and>
   map (\<lambda>m. (fa_n_dim (fst m), fa_base_mean (fst m), fa_base_std (fst m)))
     (store (snd (projr
        (train_flows example_flow_env example_data ''flow'' ''plot'' ''loss'' example_cfg 0))))
     = [(6, [2, 1, 3, 1, 1, 1], [1, 0, 2, 0, 0, 0]), (6, [2, 1, 3, 1, 1, 1], [1, 0, 2, 0, 0, 0])] \<and>
   trained_flow example_flow_env example_data example_cfg ''flow'' 1
     (store (snd (projr
        (train_flows example_flow_env example_data ''flow'' ''plot'' ''loss'' example_cfg 0))) ! 1)"
proof -
  have h: "batch_size example_cfg \<noteq> 0" by (simp add: example_cfg_def)
  from train_flows_trains_each
    [OF h, where env = example_flow_env and data = example_data and fp = "''flow''"
       and pp = "''plot''" and lf = "''loss''" and w = 0]
  obtain fl st where
    r: "train_flows example_flow_env example_data ''flow'' ''plot'' ''loss'' example_cfg 0
          = Inr (fl, st)"
    and f: "fl = [0..<nat (n_flows example_cfg)]"
    and t: "\<forall>i<nat (n_flows example_cfg).
          trained_flow example_flow_env example_data example_cfg ''flow'' i (store st ! (fl ! i))"
    by blast
  have n: "nat (n_flows example_cfg) = 2" by (simp add: example_cfg_def)
  from f n have fl: "fl = [0, 1]" by (simp add: upt_conv_Cons)
  from t n fl have tr: "trained_flow example_flow_env example_data example_cfg ''flow'' 1
      (store st ! 1)"
    by (metis One_nat_def nth_Cons_0 nth_Cons_Suc one_less_numeral_iff semiring_norm(76))
  let ?final = "\<lparr>store =
            [(\<lparr>fa_n_dim = 6, fa_n_hidden = 4, fa_hidden_size = 32, fa_n_bij = 1, fa_reg_kw = [],
               fa_base_mean = [2, 1, 3, 1, 1, 1], fa_base_std = [1, 0, 2, 0, 0, 0]\<rparr>,
              Some (flow_train_kw example_cfg ''models'' ''flow'')),
             (\<lparr>fa_n_dim = 6, fa_n_hidden = 4, fa_hidden_size = 32, fa_n_bij = 1, fa_reg_kw = [],
               fa_base_mean = [2, 1, 3, 1, 1, 1], fa_base_std = [1, 0, 2, 0, 0, 0]\<rparr>,
              Some (flow_train_kw example_cfg ''models'' ''flow+''))],
          flow_list = [0, 1],
          events =
            [Construct 0, Mkdir ''models'', SaveSpecs 0 ''flow'', Train 0,
             SaveLossHistory ''flow_loss.txt'', SavePlot ''plot'',
             Construct 1, Mkdir ''models'', SaveSpecs 1 ''flow+'', Train 1,
             SaveLossHistory ''flow+_loss.txt'', SavePlot ''plot+''],
          world = 4\<rparr>
      :: (real flow_args \<times> real train_kw option, nat) flows_state"
  have e: "train_flows example_flow_env example_data ''flow'' ''plot'' ''loss'' example_cfg 0
      = Inr ([0, 1], ?final)"
    by (rule example_train_flows)
  from r [symmetric] e have "Inr (fl, st) = (Inr ([0, 1], ?final) :: error + _)"
    by (rule trans)
  then have "fl = [0, 1] \<and> st = ?final" by (simp only: sum.inject prod.inject)
  then have st: "st = ?final" ..
  from tr have tr': "trained_flow example_flow_env example_data example_cfg ''flow'' 1
      (store ?final ! 1)"
    unfolding st .
  show ?thesis unfolding e using h tr' by simp
qed

section \<open>Properties of train_potential\<close>

text \<open>
  Claim C5. train_potential builds the potential model over the 3 spatial dimensions
  with the standard deviation of the first three columns of \<open>eta\<close> as its scale and
  trains it on \<open>df_data\<close>; it returns the potential model alone when \<open>include_frameshift\<close>
  is False, and the pair of the potential model and the frame-shift model when it is
  True.
\<close>

theorem train_potential_result:
  "case fst (train_potential env df_data fname plot_fname loss_fname cfg w) of
     PhiModel m \<Rightarrow> \<not> include_frameshift cfg \<and> trained_potential env df_data fname cfg m
   | PhiAndFrameShift m s \<Rightarrow>
       include_frameshift cfg \<and> trained_potential_shift env df_data fname cfg m s"
proof -
  let ?q = "np_std_rows (map (take 3) (ret_eta df_data))"
  obtain p0 w1 where new: "phinn_new env 3 (phi_n_hidden cfg) (phi_hidden_size cfg) ?q w = (p0, w1)"
    by (cases "phinn_new env 3 (phi_n_hidden cfg) (phi_hidden_size cfg) ?q w") auto
  obtain cd cn where split: "os_path_split env fname = (cd, cn)"
    by (cases "os_path_split env fname") auto
  show ?thesis
  proof (cases "include_frameshift cfg")
    case False
    obtain m h w3 where tr: "train_phi env df_data p0 (potential_train_kw cfg cd cn) w1 = ((m, h), w3)"
      by (cases "train_phi env df_data p0 (potential_train_kw cfg cd cn) w1") auto
    have "trained_potential env df_data fname cfg m"
      unfolding trained_potential_def
      by (rule exI [of _ w], rule exI [of _ w1]) (simp add: new split tr)
    with False show ?thesis
      by (simp add: train_potential_def q_scale_def new split tr Let_def)
  next
    case True
    obtain s0 w2 where fs: "frameshift_new env 3 (frameshift cfg) w1 = (s0, w2)"
      by (cases "frameshift_new env 3 (frameshift cfg) w1") auto
    obtain m s h w3 where
      tr: "train_phi_shift env df_data p0 s0 (potential_train_kw cfg cd cn) w2 = ((m, s, h), w3)"
      by (cases "train_phi_shift env df_data p0 s0 (potential_train_kw cfg cd cn) w2") auto
    have "trained_potential_shift env df_data fname cfg m s"
      unfolding trained_potential_shift_def
      by (rule exI [of _ w], rule exI [of _ w1], rule exI [of _ w2], rule exI [of _ h])
         (simp add: new split fs tr)
    with True show ?thesis
      by (simp add: train_potential_def q_scale_def new split fs tr Let_def)
  qed
qed

text \<open>The two kinds of result on a concrete run.\<close>

lemma example_q_scale: "q_scale example_df_data = [1, 0, 2]"
  by (simp add: q_scale_def example_df_data_def example_data_def np_std_rows_def
      np_mean_rows_def n_cols_def upt_conv_Cons)

lemma example_train_potential:
  "train_potential example_potential_env example_df_data ''Phi'' ''plot'' ''loss''
      (example_phi_cfg False) 0
     = (PhiModel ((3, 3, 256, [1, 0, 2]), True),
        [Construct 0, Mkdir ''models'', SaveSpecs 0 ''Phi'', Train 0,
         SaveLossHistory ''Phi_loss.txt'', SavePlot ''plot''],
        2)"
  by (simp add: train_potential_def example_q_scale example_potential_env_def
      example_phi_cfg_def Let_def)

lemma example_train_potential_frameshift:
  "train_potential example_potential_env example_df_data ''Phi'' ''plot'' ''loss''
      (example_phi_cfg True) 0
     = (PhiAndFrameShift ((3, 3, 256, [1, 0, 2]), True) ((3, [(''omega0'', 0)]), True),
        [Construct 0, Mkdir ''models'', SaveSpecs 0 ''Phi'', Construct 1, SaveSpecs 1 ''Phi'',
         Train 0, SaveLossHistory ''Phi_loss.txt'', SavePlot ''plot''],
        3)"
  by (simp add: train_potential_def example_q_scale example_potential_env_def
      example_phi_cfg_def Let_def)

end
